theory Spec2Isabelle
  imports Complex_Main
begin

section \<open>Numeric values\<close>

text \<open>
  Every series of the valuation is a numpy array of dtype float64 (\<^verbatim>\<open>list2numpy\<close> builds
  each one with \<^verbatim>\<open>np.array(list_seq, dtype=float)\<close>). A value is either the
  missing-value sentinel \<open>NaN\<close> or a finite number. A finite number is an exact real.
  The operations \<open>fadd\<close>, \<open>fsub\<close>, \<open>fmul\<close> and \<open>fdiv\<close> of the valuation are exact:
  their rounding, overflow, infinities and the sign of zero are not part of this
  development, so every equation about a series is an equation of exact arithmetic.
  The decision of step 12 compares the share value with two products; there each
  operation is rounded to float64 (see \<open>nearest64\<close> below), because the direction of a
  comparison can depend on the last bit. \<open>NaN\<close> is absorbing in every arithmetic
  operation and every ordering comparison with it is false, as in IEEE 754.
\<close>

datatype num = NaN | Fin real

fun fadd :: "num \<Rightarrow> num \<Rightarrow> num" where
  "fadd (Fin x) (Fin y) = Fin (x + y)"
| "fadd _ _ = NaN"

fun fsub :: "num \<Rightarrow> num \<Rightarrow> num" where
  "fsub (Fin x) (Fin y) = Fin (x - y)"
| "fsub _ _ = NaN"

fun fmul :: "num \<Rightarrow> num \<Rightarrow> num" where
  "fmul (Fin x) (Fin y) = Fin (x * y)"
| "fmul _ _ = NaN"

text \<open>
  True division by a divisor that is not zero. Every caller below tests the divisor
  first: numpy's masked divide skips a zero divisor, Python's \<^verbatim>\<open>/\<close> raises on it.
\<close>

fun fdiv :: "num \<Rightarrow> num \<Rightarrow> num" where
  "fdiv (Fin x) (Fin y) = Fin (x / y)"
| "fdiv _ _ = NaN"

fun flt :: "num \<Rightarrow> num \<Rightarrow> bool" where
  "flt (Fin x) (Fin y) = (x < y)"
| "flt _ _ = False"

subsection \<open>Rounding to float64\<close>

text \<open>
  IEEE 754 binary64 arithmetic returns the exact result rounded to the nearest float,
  ties to the float with an even significand. A float is an integer multiple of the
  quantum of its binade: for \<open>2 powi e \<le> \<bar>x\<bar> < 2 powi (e + 1)\<close> with \<open>- 1022 \<le> e \<le> 1023\<close>
  the quantum is \<open>2 powi (e - 52)\<close>, and below \<open>2 powi (- 1022)\<close> (zero and the subnormal
  floats) it is \<open>2 powi (- 1074)\<close>. \<open>binade k x\<close> is the largest \<open>e\<close> from \<open>- 1022\<close> to
  \<open>k - 1022\<close> with \<open>2 powi e \<le> x\<close>, or \<open>- 1022\<close> when there is none; \<open>exponent64 x\<close> is the
  exponent of the binade of \<open>x\<close>, at most 1023. \<open>nearest64 x\<close> is \<open>x\<close> rounded to a multiple
  of its quantum. A result of magnitude \<open>2 powi 1024\<close> or more is an overflow: the float
  is an infinity.
\<close>

definition round_half_even :: "real \<Rightarrow> int" where
  "round_half_even y =
     (let n = \<lfloor>y\<rfloor>; r = y - of_int n
      in if r < 1 / 2 then n else if 1 / 2 < r then n + 1 else if even n then n else n + 1)"

fun binade :: "nat \<Rightarrow> real \<Rightarrow> int" where
  "binade 0 x = - 1022"
| "binade (Suc k) x = (if 2 powi (int k - 1021) \<le> x then int k - 1021 else binade k x)"

definition exponent64 :: "real \<Rightarrow> int" where
  "exponent64 x = binade 2045 \<bar>x\<bar>"

definition nearest64 :: "real \<Rightarrow> real" where
  "nearest64 x = (let q = 2 powi (exponent64 x - 52) in of_int (round_half_even (x / q)) * q)"

section \<open>Arrays and Python values\<close>

text \<open>
  A numpy array: its shape and its items in row-major order. \<^verbatim>\<open>arr.ndim\<close> is the
  length of the shape and \<^verbatim>\<open>arr.size\<close> the product of its entries. \<open>array1 xs\<close> is the
  1-dimensional array of the items \<open>xs\<close>.
\<close>

record ndarray =
  shape :: "nat list"
  items :: "num list"

definition ndim :: "ndarray \<Rightarrow> nat" where
  "ndim a = length (shape a)"

definition np_size :: "ndarray \<Rightarrow> nat" where
  "np_size a = prod_list (shape a)"

definition array1 :: "num list \<Rightarrow> ndarray" where
  "array1 xs = \<lparr>shape = [length xs], items = xs\<rparr>"

text \<open>
  The Python values the guards of the library tell apart: \<^verbatim>\<open>None\<close>, an \<^verbatim>\<open>int\<close>, a
  \<^verbatim>\<open>float\<close>, a \<^verbatim>\<open>str\<close>, a \<^verbatim>\<open>list\<close> of numbers and a \<^verbatim>\<open>numpy.ndarray\<close>.
\<close>

datatype pyval =
    PyNone
  | PyInt int
  | PyFloat num
  | PyStr string
  | PyList "num list"
  | PyArray ndarray

text \<open>\<^verbatim>\<open>isinstance(arr, np.ndarray)\<close>.\<close>

fun is_ndarray :: "pyval \<Rightarrow> bool" where
  "is_ndarray (PyArray a) = True"
| "is_ndarray _ = False"

text \<open>An \<^verbatim>\<open>Optional[np.ndarray]\<close> result handed on as an argument.\<close>

fun py :: "ndarray option \<Rightarrow> pyval" where
  "py None = PyNone"
| "py (Some a) = PyArray a"

section \<open>Elementwise arithmetic: \<^verbatim>\<open>array_arithmetic\<close>\<close>

definition ADD_LIST :: "string list" where
  "ADD_LIST = [''add'', ''addition'', ''sum'', ''plus'', ''+'']"

definition SUB_LIST :: "string list" where
  "SUB_LIST = [''subtract'', ''sub'', ''minus'', ''-'']"

definition MULT_LIST :: "string list" where
  "MULT_LIST = [''multiply'', ''times'', ''*'']"

definition DIV_LIST :: "string list" where
  "DIV_LIST = [''divide'', ''div'', ''/'']"

definition OP_SET :: "string set" where
  "OP_SET = set ADD_LIST \<union> set SUB_LIST \<union> set MULT_LIST \<union> set DIV_LIST"

text \<open>
  \<^verbatim>\<open>str.lower()\<close> on the characters of a HOL string: the letters A to Z move to a to z
  and every other character stays. All entries of the synonym table are ASCII.
\<close>

definition lower_char :: "char \<Rightarrow> char" where
  "lower_char c =
     (case map_of (zip ''ABCDEFGHIJKLMNOPQRSTUVWXYZ'' ''abcdefghijklmnopqrstuvwxyz'') c of
        Some d \<Rightarrow> d
      | None \<Rightarrow> c)"

definition lower :: "string \<Rightarrow> string" where
  "lower s = map lower_char s"

text \<open>The ufuncs on two arrays of one shape; the result has that shape.\<close>

definition np_add :: "ndarray \<Rightarrow> ndarray \<Rightarrow> ndarray" where
  "np_add a b = \<lparr>shape = shape a, items = map2 fadd (items a) (items b)\<rparr>"

definition np_subtract :: "ndarray \<Rightarrow> ndarray \<Rightarrow> ndarray" where
  "np_subtract a b = \<lparr>shape = shape a, items = map2 fsub (items a) (items b)\<rparr>"

definition np_multiply :: "ndarray \<Rightarrow> ndarray \<Rightarrow> ndarray" where
  "np_multiply a b = \<lparr>shape = shape a, items = map2 fmul (items a) (items b)\<rparr>"

text \<open>
  \<^verbatim>\<open>np.divide(arr1f, arr2f, out=np.full_like(arr1f, np.nan), where=(arr2f != 0))\<close>:
  the output starts as NaN everywhere and the quotient is written only where the
  divisor is not zero. A NaN divisor is not zero, and its quotient is NaN.
\<close>

definition np_divide_where :: "ndarray \<Rightarrow> ndarray \<Rightarrow> ndarray" where
  "np_divide_where a b =
     \<lparr>shape = shape a,
      items = map2 (\<lambda>x y. if y \<noteq> Fin 0 then fdiv x y else NaN) (items a) (items b)\<rparr>"

text \<open>
  \<^verbatim>\<open>array_arithmetic(arr1, arr2, operation)\<close>. \<open>None\<close> is the function's \<^verbatim>\<open>return None\<close>.
  The operation is a \<^verbatim>\<open>str\<close>, so \<^verbatim>\<open>not operation\<close> holds exactly for the empty string.
  The guards come in the order of the source.
\<close>

definition array_arithmetic :: "pyval \<Rightarrow> pyval \<Rightarrow> string \<Rightarrow> ndarray option" where
  "array_arithmetic arr1 arr2 operation =
     (if operation = [] then None
      else
        let op = lower operation in
        if arr1 = PyNone \<or> arr2 = PyNone then None
        else
          (case (arr1, arr2) of
            (PyArray a, PyArray b) \<Rightarrow>
              if shape a \<noteq> shape b then None
              else if op \<notin> OP_SET then None
              else if op \<in> set ADD_LIST then Some (np_add a b)
              else if op \<in> set SUB_LIST then Some (np_subtract a b)
              else if op \<in> set MULT_LIST then Some (np_multiply a b)
              else if op \<in> set DIV_LIST then Some (np_divide_where a b)
              else None
          | _ \<Rightarrow> None))"

section \<open>Growth compounding: \<^verbatim>\<open>apply_growth\<close>\<close>

text \<open>\<^verbatim>\<open>isinstance(initial_value, (int, float))\<close>, with the value as a float.\<close>

fun py_number :: "pyval \<Rightarrow> num option" where
  "py_number (PyInt i) = Some (Fin (of_int i))"
| "py_number (PyFloat x) = Some x"
| "py_number _ = None"

text \<open>
  \<^verbatim>\<open>np.cumprod\<close> over the items of an array: the running product, starting with the
  first item itself.
\<close>

fun cumprod_from :: "num \<Rightarrow> num list \<Rightarrow> num list" where
  "cumprod_from acc [] = []"
| "cumprod_from acc (x # xs) = fmul acc x # cumprod_from (fmul acc x) xs"

fun cumprod :: "num list \<Rightarrow> num list" where
  "cumprod [] = []"
| "cumprod (x # xs) = x # cumprod_from x xs"

definition apply_growth :: "pyval \<Rightarrow> pyval \<Rightarrow> ndarray option" where
  "apply_growth initial_value growth_rates =
     (case py_number initial_value of
        None \<Rightarrow> None
      | Some v0 \<Rightarrow>
          (case growth_rates of
             PyArray g \<Rightarrow>
               if np_size g = 0 then None
               else
                 let multipliers = cumprod (map (fadd (Fin 1)) (items g))
                 in Some (array1 (v0 # map (fmul v0) multipliers))
           | _ \<Rightarrow> None))"

section \<open>First differences: \<^verbatim>\<open>delta_numpy\<close>\<close>

text \<open>
  \<^verbatim>\<open>first_value\<close> is an \<^verbatim>\<open>Optional[float]\<close>. Every array of this development has dtype
  float64, which is a sub-dtype of \<^verbatim>\<open>np.number\<close>, so the dtype guard of the source
  lets every array pass and has no branch here.
\<close>

definition delta_numpy :: "pyval \<Rightarrow> num option \<Rightarrow> ndarray option" where
  "delta_numpy array first_value =
     (case array of
        PyNone \<Rightarrow> None
      | PyArray a \<Rightarrow>
          if ndim a \<noteq> 1 then None
          else if np_size a = 0 then None
          else
            Some \<lparr>shape = shape a,
                  items = (case first_value of None \<Rightarrow> NaN | Some v \<Rightarrow> Fin 0)
                          # map2 fsub (tl (items a)) (butlast (items a))\<rparr>
      | _ \<Rightarrow> None)"

section \<open>Series extrapolation: \<^verbatim>\<open>extend_array\<close>\<close>

datatype pyexn = ZeroDivisionError | IndexError | TypeError | ValueError

text \<open>
  \<^verbatim>\<open>np.nanmean\<close>: the mean of the items that are not NaN, and NaN (with a warning,
  no exception) when there is none.
\<close>

fun finite_values :: "num list \<Rightarrow> real list" where
  "finite_values [] = []"
| "finite_values (NaN # xs) = finite_values xs"
| "finite_values (Fin x # xs) = x # finite_values xs"

definition nanmean :: "num list \<Rightarrow> num" where
  "nanmean xs =
     (let vs = finite_values xs
      in if vs = [] then NaN else Fin (sum_list vs / real (length vs)))"

text \<open>
  \<^verbatim>\<open>extend_array(arr, forecast_periods, method, STEP, START_VALUE, END_VALUE)\<close>.
  The result is \<open>Inl\<close> of the exception the call raises, \<open>Inr None\<close> for
  \<^verbatim>\<open>return None\<close> and \<open>Inr (Some a)\<close> for a returned array. \<^verbatim>\<open>START_VALUE\<close> and
  \<^verbatim>\<open>END_VALUE\<close> are Python floats (the orchestrator passes \<^verbatim>\<open>float(...)\<close> values and
  float constants), so \<^verbatim>\<open>(END_VALUE - START_VALUE) / forecast_periods\<close> is Python's
  division, which raises \<^verbatim>\<open>ZeroDivisionError\<close> on a zero divisor whatever the dividend.
  \<^verbatim>\<open>arr[-1]\<close> raises \<^verbatim>\<open>IndexError\<close> on an array without items.
\<close>

definition extend_array ::
  "pyval \<Rightarrow> int \<Rightarrow> string option \<Rightarrow> num option \<Rightarrow> num option \<Rightarrow> num option
     \<Rightarrow> pyexn + ndarray option" where
  "extend_array arr forecast_periods method STEP START_VALUE END_VALUE =
     (case arr of
        PyArray a \<Rightarrow>
          if (case method of None \<Rightarrow> False | Some m \<Rightarrow> m \<notin> set [''average'', ''last''])
          then Inr None
          else if ndim a \<noteq> 1 then Inr None
          else if forecast_periods < 0 then Inr None
          else
            let steps = map (\<lambda>k. Fin (of_int k)) [1..forecast_periods];
                finish = (\<lambda>base_value STEP'.
                   Inr (Some (array1 (items a @ map (\<lambda>s. fadd base_value (fmul s STEP')) steps))))
            in
              (case (START_VALUE, END_VALUE) of
                 (Some start_value, Some end_value) \<Rightarrow>
                   if forecast_periods = 0 then Inl ZeroDivisionError
                   else finish start_value
                          (fdiv (fsub end_value start_value) (Fin (of_int forecast_periods)))
               | _ \<Rightarrow>
                   let STEP' = (case STEP of None \<Rightarrow> Fin 0 | Some st \<Rightarrow> st)
                   in if method = Some ''average'' then finish (nanmean (items a)) STEP'
                      else if items a = [] then Inl IndexError
                      else finish (last (items a)) STEP')
      | _ \<Rightarrow> Inr None)"

section \<open>The orchestrator: \<^verbatim>\<open>dcf.py\<close>\<close>

subsection \<open>Configuration and input\<close>

text \<open>
  The constants of the script that the computation reads, as one record, and
  \<open>settings\<close>, the values the source gives them. The rates of the valuation are read
  as exact decimals. \<^verbatim>\<open>BUY_SELL_THRESHOLD = 0.08\<close> is read as the float the literal
  denotes, the float64 nearest to 8 / 100, because the decision rounds with it.
\<close>

record config =
  N_HISTORICAL_YEARS :: int
  N_FORECAST_YEARS :: int
  TERMINAL_GROWTH_RATE :: num
  TERMINAL_COGS_MARGIN_RATE :: num
  TERMINAL_SGA_MARGIN_RATE :: num
  TERMINAL_RD_MARGIN_RATE :: num
  TERMINAL_DEPR_TO_CAPEX_RATE :: num
  WACC :: num
  BUY_SELL_THRESHOLD :: num

definition settings :: config where
  "settings =
     \<lparr>N_HISTORICAL_YEARS = 5,
      N_FORECAST_YEARS = 5,
      TERMINAL_GROWTH_RATE = Fin (3 / 100),
      TERMINAL_COGS_MARGIN_RATE = Fin (60 / 100),
      TERMINAL_SGA_MARGIN_RATE = Fin (30 / 100),
      TERMINAL_RD_MARGIN_RATE = Fin (10 / 100),
      TERMINAL_DEPR_TO_CAPEX_RATE = Fin 1,
      WACC = Fin (1016 / 10000),
      BUY_SELL_THRESHOLD = Fin (5764607523034235 / 72057594037927936)\<rparr>"

text \<open>
  A row of the data frame \<^verbatim>\<open>dcf_actuals\<close>: one fiscal period, one float per column. The
  frame is the list of its rows in chronological order, so all columns have one
  length. The fields carry the column names of the sheet; \<open>sales_growth\<close> is the column
  the script adds. Loading the sheet, parsing the dates and cutting the historical
  window (steps 1 and 2 of the script) come before and are not modelled.
\<close>

record row =
  SALES_REV_TURN :: num
  IS_COG_AND_SERVICES_SOLD :: num
  GROSS_PROFIT :: num
  IS_OTHER_OPER_INC :: num
  IS_OPERATING_EXPN :: num
  IS_SGA_EXPENSE :: num
  IS_OPERATING_EXPENSES_RD :: num
  IS_OTHER_OPERATING_EXPENSES :: num
  IS_OPER_INC :: num
  PRETAX_INC :: num
  IS_INC_TAX_EXP :: num
  EFF_TAX_RATE :: num
  CAPITAL_EXPEND :: num
  CAP_EXPEND_TO_SALES :: num
  EBITDA :: num
  EBITA :: num
  IS_DEPR_EXP :: num
  BS_CUR_ASSET_REPORT :: num
  BS_CUR_LIAB :: num
  BS_ST_BORROW :: num
  BS_CURR_PORTION_LT_DEBT :: num
  BS_LT_BORROW :: num
  PFD_EQTY_HYBRID_CAPITAL :: num
  MINORITY_NONCONTROLLING_INTEREST :: num
  CASH_CASH_EQTY_STI_DETAILED :: num
  BS_SH_OUT :: num
  sales_growth :: num

subsection \<open>How a run ends early\<close>

text \<open>
  \<open>SysExit v\<close>: a check \<^verbatim>\<open>if v is None\<close> logged its error and called \<^verbatim>\<open>sys.exit()\<close>.
  \<open>Raised e\<close>: an uncaught exception. \<open>NotRepresented\<close>: the script goes on with a value
  that is no \<open>num\<close> (an infinity from a numpy division by zero) or that depends on the
  pandas version (\<^verbatim>\<open>pct_change\<close> over a column with NaN); the development says nothing
  about such a run.
\<close>

datatype stop = SysExit string | Raised pyexn | NotRepresented

definition and_then :: "stop + 'a \<Rightarrow> ('a \<Rightarrow> stop + 'b) \<Rightarrow> stop + 'b" where
  "and_then r k = (case r of Inl s \<Rightarrow> Inl s | Inr x \<Rightarrow> k x)"

definition require :: "string \<Rightarrow> ndarray option \<Rightarrow> stop + ndarray" where
  "require v r = (case r of None \<Rightarrow> Inl (SysExit v) | Some a \<Rightarrow> Inr a)"

definition raising :: "pyexn + 'a \<Rightarrow> stop + 'a" where
  "raising r = (case r of Inl e \<Rightarrow> Inl (Raised e) | Inr x \<Rightarrow> Inr x)"

text \<open>The result of an \<^verbatim>\<open>extend_array\<close> call followed by its \<^verbatim>\<open>is None\<close> check.\<close>

definition extended :: "string \<Rightarrow> pyexn + ndarray option \<Rightarrow> stop + ndarray" where
  "extended v r = and_then (raising r) (require v)"

subsection \<open>Python and numpy operations the script uses\<close>

text \<open>\<^verbatim>\<open>arr[i]\<close> on a 1-dimensional array, negative indices counting from the end.\<close>

definition item :: "ndarray \<Rightarrow> int \<Rightarrow> pyexn + num" where
  "item a i =
     (let n = int (length (items a)); j = (if i < 0 then n + i else i)
      in if 0 \<le> j \<and> j < n then Inr (items a ! nat j) else Inl IndexError)"

text \<open>\<^verbatim>\<open>arr[i]\<close> on an \<^verbatim>\<open>Optional[np.ndarray]\<close>: \<^verbatim>\<open>None\<close> is not subscriptable.\<close>

definition opt_item :: "ndarray option \<Rightarrow> int \<Rightarrow> pyexn + num" where
  "opt_item r i = (case r of None \<Rightarrow> Inl TypeError | Some a \<Rightarrow> item a i)"

text \<open>\<^verbatim>\<open>arr[k:]\<close> on a 1-dimensional array.\<close>

definition slice_from :: "int \<Rightarrow> ndarray \<Rightarrow> ndarray" where
  "slice_from k a =
     (let n = int (length (items a)); start = (if k < 0 then max 0 (n + k) else min k n)
      in array1 (drop (nat start) (items a)))"

text \<open>\<^verbatim>\<open>np.full(n, v)\<close>; a negative length raises \<^verbatim>\<open>ValueError\<close>.\<close>

definition np_full :: "int \<Rightarrow> num \<Rightarrow> pyexn + ndarray" where
  "np_full n v = (if n < 0 then Inl ValueError else Inr (array1 (replicate (nat n) v)))"

text \<open>\<^verbatim>\<open>dfcol2numpy(...) / 100.0\<close>: \<^verbatim>\<open>None / 100.0\<close> raises \<^verbatim>\<open>TypeError\<close>.\<close>

definition divide_by_100 :: "ndarray option \<Rightarrow> pyexn + ndarray" where
  "divide_by_100 r =
     (case r of
        None \<Rightarrow> Inl TypeError
      | Some a \<Rightarrow> Inr \<lparr>shape = shape a, items = map (\<lambda>x. fdiv x (Fin 100)) (items a)\<rparr>)"

text \<open>\<^verbatim>\<open>1 - arr\<close>.\<close>

definition one_minus :: "ndarray \<Rightarrow> ndarray" where
  "one_minus a = \<lparr>shape = shape a, items = map (fsub (Fin 1)) (items a)\<rparr>"

text \<open>\<^verbatim>\<open>arr.sum()\<close>; the sum of no items is 0.0.\<close>

definition np_sum :: "ndarray \<Rightarrow> num" where
  "np_sum a = foldr fadd (items a) (Fin 0)"

text \<open>
  \<^verbatim>\<open>np.allclose(a, b, rtol=1e-5, atol=1e-5)\<close> on arrays of one shape: every pair of
  items has \<open>|x - y| \<le> atol + rtol * |y|\<close>, and a pair with a NaN fails. A first
  argument \<^verbatim>\<open>None\<close> raises \<^verbatim>\<open>TypeError\<close>. The orchestrator only compares arrays cut
  from the same frame, which have one shape; two shapes that differ but broadcast
  are not modelled and count as the \<^verbatim>\<open>ValueError\<close> of shapes that do not.
\<close>

definition isclose :: "num \<Rightarrow> num \<Rightarrow> bool" where
  "isclose a b =
     (case (a, b) of
        (Fin x, Fin y) \<Rightarrow> \<bar>x - y\<bar> \<le> 1 / 100000 + 1 / 100000 * \<bar>y\<bar>
      | _ \<Rightarrow> False)"

definition allclose :: "ndarray option \<Rightarrow> ndarray \<Rightarrow> pyexn + bool" where
  "allclose r b =
     (case r of
        None \<Rightarrow> Inl TypeError
      | Some a \<Rightarrow>
          if shape a \<noteq> shape b then Inl ValueError
          else Inr (list_all2 isclose (items a) (items b)))"

text \<open>
  Python's \<^verbatim>\<open>min(a, b)\<close> and \<^verbatim>\<open>max(a, b)\<close> on floats: the first argument stays unless the
  second is strictly smaller (larger); a NaN never compares smaller or larger.
\<close>

definition py_min :: "num \<Rightarrow> num \<Rightarrow> num" where
  "py_min a b = (if flt b a then b else a)"

definition py_max :: "num \<Rightarrow> num \<Rightarrow> num" where
  "py_max a b = (if flt a b then b else a)"

text \<open>
  Division of numpy scalars: a zero divisor gives NaN for a zero or NaN dividend and
  an infinity, which is no \<open>num\<close>, for any other. Division of Python floats raises
  \<^verbatim>\<open>ZeroDivisionError\<close> on a zero divisor.
\<close>

definition np_true_divide :: "num \<Rightarrow> num \<Rightarrow> stop + num" where
  "np_true_divide x y =
     (if y = Fin 0 then (if x = NaN \<or> x = Fin 0 then Inr NaN else Inl NotRepresented)
      else Inr (fdiv x y))"

definition py_truediv :: "num \<Rightarrow> num \<Rightarrow> pyexn + num" where
  "py_truediv x y = (if y = Fin 0 then Inl ZeroDivisionError else Inr (fdiv x y))"

text \<open>
  \<^verbatim>\<open>x ** n\<close> for a Python float \<open>x\<close> and an \<^verbatim>\<open>int\<close> \<open>n\<close>: \<^verbatim>\<open>x ** 0\<close> is 1.0 for every \<open>x\<close>,
  NaN included, and \<^verbatim>\<open>0.0 ** n\<close> raises \<^verbatim>\<open>ZeroDivisionError\<close> for a negative \<open>n\<close>.
\<close>

definition py_pow :: "num \<Rightarrow> int \<Rightarrow> pyexn + num" where
  "py_pow x n =
     (if n = 0 then Inr (Fin 1)
      else
        (case x of
           NaN \<Rightarrow> Inr NaN
         | Fin b \<Rightarrow>
             if 0 < n then Inr (Fin (b ^ nat n))
             else if b = 0 then Inl ZeroDivisionError
             else Inr (Fin (1 / b ^ nat (- n)))))"

text \<open>
  \<^verbatim>\<open>Series.pct_change(periods=1)\<close>: NaN in the first place, then each value divided by
  the one before, minus 1. A column with a NaN is filled forward or not depending on
  the pandas version, so it is not represented.
\<close>

fun is_Fin :: "num \<Rightarrow> bool" where
  "is_Fin (Fin x) = True"
| "is_Fin NaN = False"

fun changes :: "num \<Rightarrow> num list \<Rightarrow> stop + num list" where
  "changes prev [] = Inr []"
| "changes prev (x # xs) =
     and_then (np_true_divide x prev) (\<lambda>q.
     and_then (changes x xs) (\<lambda>rest. Inr (fsub q (Fin 1) # rest)))"

definition pct_change :: "num list \<Rightarrow> stop + num list" where
  "pct_change xs =
     (if \<not> list_all is_Fin xs then Inl NotRepresented
      else (case xs of [] \<Rightarrow> Inr [] | x # rest \<Rightarrow> and_then (changes x rest) (\<lambda>cs. Inr (NaN # cs))))"

text \<open>
  \<^verbatim>\<open>list2numpy\<close> and \<^verbatim>\<open>dfcol2numpy\<close> on a frame whose columns exist and hold floats: they
  return \<^verbatim>\<open>None\<close> for an empty frame and the column as a 1-dimensional array otherwise.
\<close>

definition list2numpy :: "num list \<Rightarrow> ndarray option" where
  "list2numpy list_seq = (if length list_seq = 0 then None else Some (array1 list_seq))"

definition dfcol2numpy :: "(row \<Rightarrow> num) \<Rightarrow> row list \<Rightarrow> ndarray option" where
  "dfcol2numpy varname df = (if df = [] then None else list2numpy (map varname df))"

subsection \<open>Steps 2 and 3: the historical series\<close>

text \<open>
  From here on every variable of the script is a function of the configuration and
  the frame, named as in the source. A variable the script checks with \<^verbatim>\<open>is None\<close>, or
  whose right-hand side can raise, has a result in \<open>stop + _\<close>: \<open>Inl\<close> when its own
  statement, or a statement it reads from, ends the run. The order in which the
  script runs the statements is the order of \<open>dcf\<close> at the end.

  \<open>dcf_actuals\<close> adds the column \<open>sales_growth\<close> to the frame of the window.
\<close>

definition dcf_actuals :: "row list \<Rightarrow> stop + row list" where
  "dcf_actuals df =
     and_then (pct_change (map SALES_REV_TURN df)) (\<lambda>growth.
       Inr (map2 (\<lambda>r g. r\<lparr>sales_growth := g\<rparr>) df growth))"

definition sales_arr :: "row list \<Rightarrow> stop + ndarray" where
  "sales_arr a = require ''sales_arr'' (dfcol2numpy SALES_REV_TURN a)"

definition sales_growth_arr :: "row list \<Rightarrow> ndarray option" where
  "sales_growth_arr a = dfcol2numpy sales_growth a"

definition cogs_arr :: "row list \<Rightarrow> ndarray option" where
  "cogs_arr a = dfcol2numpy IS_COG_AND_SERVICES_SOLD a"

definition gp_arr :: "row list \<Rightarrow> ndarray option" where
  "gp_arr a = dfcol2numpy GROSS_PROFIT a"

definition other_oper_inc_arr :: "row list \<Rightarrow> ndarray option" where
  "other_oper_inc_arr a = dfcol2numpy IS_OTHER_OPER_INC a"

definition other_oper_exp_arr :: "row list \<Rightarrow> ndarray option" where
  "other_oper_exp_arr a = dfcol2numpy IS_OTHER_OPERATING_EXPENSES a"

definition sga_exp_arr :: "row list \<Rightarrow> ndarray option" where
  "sga_exp_arr a = dfcol2numpy IS_SGA_EXPENSE a"

definition rd_exp_arr :: "row list \<Rightarrow> ndarray option" where
  "rd_exp_arr a = dfcol2numpy IS_OPERATING_EXPENSES_RD a"

definition oper_exp_arr :: "row list \<Rightarrow> ndarray option" where
  "oper_exp_arr a = dfcol2numpy IS_OPERATING_EXPN a"

definition oper_inc_arr :: "row list \<Rightarrow> ndarray option" where
  "oper_inc_arr a = dfcol2numpy IS_OPER_INC a"

definition pretax_inc_arr :: "row list \<Rightarrow> ndarray option" where
  "pretax_inc_arr a = dfcol2numpy PRETAX_INC a"

definition tax_exp_arr :: "row list \<Rightarrow> ndarray option" where
  "tax_exp_arr a = dfcol2numpy IS_INC_TAX_EXP a"

definition effective_tax_rate_arr :: "row list \<Rightarrow> stop + ndarray" where
  "effective_tax_rate_arr a = raising (divide_by_100 (dfcol2numpy EFF_TAX_RATE a))"

definition capital_expenditure_arr :: "row list \<Rightarrow> ndarray option" where
  "capital_expenditure_arr a = dfcol2numpy CAPITAL_EXPEND a"

definition ebitda_arr :: "row list \<Rightarrow> ndarray option" where
  "ebitda_arr a = dfcol2numpy EBITDA a"

definition ebita_arr :: "row list \<Rightarrow> ndarray option" where
  "ebita_arr a = dfcol2numpy EBITA a"

definition depreciation_arr :: "row list \<Rightarrow> ndarray option" where
  "depreciation_arr a = dfcol2numpy IS_DEPR_EXP a"

definition amortization_arr :: "row list \<Rightarrow> ndarray option" where
  "amortization_arr a = array_arithmetic (py (ebita_arr a)) (py (oper_inc_arr a)) ''subtract''"

definition total_current_assets_arr :: "row list \<Rightarrow> ndarray option" where
  "total_current_assets_arr a = dfcol2numpy BS_CUR_ASSET_REPORT a"

definition total_current_liabilities_arr :: "row list \<Rightarrow> ndarray option" where
  "total_current_liabilities_arr a = dfcol2numpy BS_CUR_LIAB a"

definition working_capital_arr :: "row list \<Rightarrow> ndarray option" where
  "working_capital_arr a =
     array_arithmetic (py (total_current_assets_arr a)) (py (total_current_liabilities_arr a))
       ''subtract''"

definition st_debt_arr :: "row list \<Rightarrow> ndarray option" where
  "st_debt_arr a = dfcol2numpy BS_ST_BORROW a"

definition stlt_debt_arr :: "row list \<Rightarrow> ndarray option" where
  "stlt_debt_arr a = dfcol2numpy BS_CURR_PORTION_LT_DEBT a"

definition lt_debt_arr :: "row list \<Rightarrow> ndarray option" where
  "lt_debt_arr a = dfcol2numpy BS_LT_BORROW a"

definition total_debt_arr :: "row list \<Rightarrow> ndarray option" where
  "total_debt_arr a =
     array_arithmetic (py (st_debt_arr a))
       (py (array_arithmetic (py (stlt_debt_arr a)) (py (lt_debt_arr a)) ''add'')) ''add''"

definition preferred_equity_arr :: "row list \<Rightarrow> ndarray option" where
  "preferred_equity_arr a = dfcol2numpy PFD_EQTY_HYBRID_CAPITAL a"

definition minority_interest_arr :: "row list \<Rightarrow> ndarray option" where
  "minority_interest_arr a = dfcol2numpy MINORITY_NONCONTROLLING_INTEREST a"

definition cash_and_equivalents_arr :: "row list \<Rightarrow> ndarray option" where
  "cash_and_equivalents_arr a = dfcol2numpy CASH_CASH_EQTY_STI_DETAILED a"

definition shares_out_arr :: "row list \<Rightarrow> ndarray option" where
  "shares_out_arr a = dfcol2numpy BS_SH_OUT a"

subsection \<open>Step 4: the consistency checks\<close>

definition calculated_gross_profit_arr :: "row list \<Rightarrow> stop + ndarray" where
  "calculated_gross_profit_arr a =
     and_then (sales_arr a) (\<lambda>sales.
       require ''calculated_gross_profit_arr''
         (array_arithmetic (PyArray sales) (py (cogs_arr a)) ''subtract''))"

definition check_gross_margin_arr :: "row list \<Rightarrow> stop + bool" where
  "check_gross_margin_arr a =
     and_then (calculated_gross_profit_arr a) (\<lambda>calc. raising (allclose (gp_arr a) calc))"

definition calculated_oper_exp_arr :: "row list \<Rightarrow> stop + ndarray" where
  "calculated_oper_exp_arr a =
     require ''calculated_oper_exp_arr''
       (array_arithmetic
          (py (array_arithmetic (py (sga_exp_arr a)) (py (rd_exp_arr a)) ''add''))
          (py (other_oper_exp_arr a)) ''add'')"

definition check_oper_exp_arr :: "row list \<Rightarrow> stop + bool" where
  "check_oper_exp_arr a =
     and_then (calculated_oper_exp_arr a) (\<lambda>calc. raising (allclose (oper_exp_arr a) calc))"

definition calculated_oper_inc_arr :: "row list \<Rightarrow> stop + ndarray" where
  "calculated_oper_inc_arr a =
     require ''calculated_oper_inc_arr''
       (array_arithmetic (py (gp_arr a))
          (py (array_arithmetic (py (other_oper_inc_arr a)) (py (oper_exp_arr a)) ''subtract''))
          ''add'')"

definition check_oper_inc_arr :: "row list \<Rightarrow> stop + bool" where
  "check_oper_inc_arr a =
     and_then (calculated_oper_inc_arr a) (\<lambda>calc. raising (allclose (oper_inc_arr a) calc))"

definition calculated_effective_tax_rate_arr :: "row list \<Rightarrow> stop + ndarray" where
  "calculated_effective_tax_rate_arr a =
     require ''calculated_effective_tax_rate_arr''
       (array_arithmetic (py (tax_exp_arr a)) (py (pretax_inc_arr a)) ''divide'')"

definition check_effective_tax_rate_arr :: "row list \<Rightarrow> stop + bool" where
  "check_effective_tax_rate_arr a =
     and_then (effective_tax_rate_arr a) (\<lambda>reported.
     and_then (calculated_effective_tax_rate_arr a) (\<lambda>calc.
       raising (allclose (Some reported) calc)))"

definition calculated_depreciation_arr :: "row list \<Rightarrow> stop + ndarray" where
  "calculated_depreciation_arr a =
     require ''calculated_depreciation_arr''
       (array_arithmetic (py (ebitda_arr a)) (py (ebita_arr a)) ''subtract'')"

definition check_depreciation_arr :: "row list \<Rightarrow> stop + bool" where
  "check_depreciation_arr a =
     and_then (calculated_depreciation_arr a) (\<lambda>calc.
       raising (allclose (depreciation_arr a) calc))"

subsection \<open>Step 5: the margins\<close>

text \<open>A column divided by sales, with its \<^verbatim>\<open>is None\<close> check.\<close>

definition margin :: "string \<Rightarrow> ndarray option \<Rightarrow> row list \<Rightarrow> stop + ndarray" where
  "margin v line a =
     and_then (sales_arr a) (\<lambda>sales.
       require v (array_arithmetic (py line) (PyArray sales) ''divide''))"

definition cogs_margin_arr :: "row list \<Rightarrow> stop + ndarray" where
  "cogs_margin_arr a = margin ''cogs_margin_arr'' (cogs_arr a) a"

definition other_oper_inc_margin_arr :: "row list \<Rightarrow> stop + ndarray" where
  "other_oper_inc_margin_arr a = margin ''other_oper_inc_margin_arr'' (other_oper_inc_arr a) a"

definition other_oper_exp_margin_arr :: "row list \<Rightarrow> stop + ndarray" where
  "other_oper_exp_margin_arr a = margin ''other_oper_exp_margin_arr'' (other_oper_exp_arr a) a"

definition sga_margin_arr :: "row list \<Rightarrow> stop + ndarray" where
  "sga_margin_arr a = margin ''sga_margin_arr'' (sga_exp_arr a) a"

definition rd_margin_arr :: "row list \<Rightarrow> stop + ndarray" where
  "rd_margin_arr a = margin ''rd_margin_arr'' (rd_exp_arr a) a"

definition capex_margin_arr :: "row list \<Rightarrow> stop + ndarray" where
  "capex_margin_arr a = raising (divide_by_100 (dfcol2numpy CAP_EXPEND_TO_SALES a))"

definition depr_capex_arr :: "row list \<Rightarrow> stop + ndarray" where
  "depr_capex_arr a =
     and_then (capex_margin_arr a) (\<lambda>capex_margin.
     and_then (sales_arr a) (\<lambda>sales.
       require ''depr_capex_arr''
         (array_arithmetic (py (depreciation_arr a))
            (py (array_arithmetic (PyArray capex_margin) (PyArray sales) ''multiply''))
            ''divide'')))"

definition amortization_margin_arr :: "row list \<Rightarrow> stop + ndarray" where
  "amortization_margin_arr a = margin ''amortization_margin_arr'' (amortization_arr a) a"

definition working_capital_margin_arr :: "row list \<Rightarrow> stop + ndarray" where
  "working_capital_margin_arr a =
     margin ''working_capital_margin_arr'' (working_capital_arr a) a"

subsection \<open>Step 6: the extended drivers\<close>

text \<open>
  Every driver is extended in glide mode: \<^verbatim>\<open>method=None\<close>, \<^verbatim>\<open>STEP=None\<close>, a start and an
  end value. \<open>glide\<close> is that call with its \<^verbatim>\<open>is None\<close> check; \<open>mean_of\<close> is
  \<^verbatim>\<open>float(np.nanmean(arr))\<close> and \<open>last_of\<close> is \<^verbatim>\<open>float(arr[-1])\<close>.
\<close>

definition glide :: "config \<Rightarrow> string \<Rightarrow> ndarray \<Rightarrow> num \<Rightarrow> num \<Rightarrow> stop + ndarray" where
  "glide cfg v arr start_value end_value =
     extended v
       (extend_array (PyArray arr) (N_FORECAST_YEARS cfg) None None
          (Some start_value) (Some end_value))"

definition mean_of :: "ndarray \<Rightarrow> num" where
  "mean_of arr = nanmean (items arr)"

definition last_of :: "ndarray \<Rightarrow> stop + num" where
  "last_of arr = raising (item arr (- 1))"

definition sales_growth_arr_extended :: "config \<Rightarrow> row list \<Rightarrow> stop + ndarray" where
  "sales_growth_arr_extended cfg a =
     (case sales_growth_arr a of
        None \<Rightarrow> Inl (Raised TypeError)
      | Some growth \<Rightarrow>
          glide cfg ''sales_growth_arr_extended'' growth
            (mean_of growth) (TERMINAL_GROWTH_RATE cfg))"

definition cogs_margin_arr_extended :: "config \<Rightarrow> row list \<Rightarrow> stop + ndarray" where
  "cogs_margin_arr_extended cfg a =
     and_then (cogs_margin_arr a) (\<lambda>m.
       glide cfg ''cogs_margin_arr_extended'' m
         (mean_of m) (py_min (mean_of m) (TERMINAL_COGS_MARGIN_RATE cfg)))"

definition other_oper_inc_margin_arr_extended :: "config \<Rightarrow> row list \<Rightarrow> stop + ndarray" where
  "other_oper_inc_margin_arr_extended cfg a =
     and_then (other_oper_inc_margin_arr a) (\<lambda>m.
     and_then (last_of m) (\<lambda>last_value.
       glide cfg ''other_oper_inc_margin_arr_extended'' m last_value (Fin 0)))"

definition sga_margin_arr_extended :: "config \<Rightarrow> row list \<Rightarrow> stop + ndarray" where
  "sga_margin_arr_extended cfg a =
     and_then (sga_margin_arr a) (\<lambda>m.
     and_then (last_of m) (\<lambda>last_value.
       glide cfg ''sga_margin_arr_extended'' m
         last_value (py_min (mean_of m) (TERMINAL_SGA_MARGIN_RATE cfg))))"

definition rd_margin_arr_extended :: "config \<Rightarrow> row list \<Rightarrow> stop + ndarray" where
  "rd_margin_arr_extended cfg a =
     and_then (rd_margin_arr a) (\<lambda>m.
     and_then (last_of m) (\<lambda>last_value.
       glide cfg ''rd_margin_arr_extended'' m
         last_value (py_max (mean_of m) (TERMINAL_RD_MARGIN_RATE cfg))))"

definition other_oper_exp_margin_arr_extended :: "config \<Rightarrow> row list \<Rightarrow> stop + ndarray" where
  "other_oper_exp_margin_arr_extended cfg a =
     and_then (other_oper_exp_margin_arr a) (\<lambda>m.
     and_then (last_of m) (\<lambda>last_value.
       glide cfg ''other_oper_exp_margin_arr_extended'' m last_value (Fin 0)))"

definition effective_tax_rate_arr_extended :: "config \<Rightarrow> row list \<Rightarrow> stop + ndarray" where
  "effective_tax_rate_arr_extended cfg a =
     and_then (calculated_effective_tax_rate_arr a) (\<lambda>calc.
     and_then (last_of calc) (\<lambda>last_value.
       glide cfg ''effective_tax_rate_arr_extended'' calc last_value last_value))"

definition capex_margin_arr_extended :: "config \<Rightarrow> row list \<Rightarrow> stop + ndarray" where
  "capex_margin_arr_extended cfg a =
     and_then (capex_margin_arr a) (\<lambda>m.
       glide cfg ''capex_margin_arr_extended'' m (mean_of m) (mean_of m))"

definition depr_capex_arr_extended :: "config \<Rightarrow> row list \<Rightarrow> stop + ndarray" where
  "depr_capex_arr_extended cfg a =
     and_then (depr_capex_arr a) (\<lambda>m.
     and_then (last_of m) (\<lambda>last_value.
       glide cfg ''depr_capex_arr_extended'' m
         last_value (TERMINAL_DEPR_TO_CAPEX_RATE cfg)))"

definition amortization_margin_arr_extended :: "config \<Rightarrow> row list \<Rightarrow> stop + ndarray" where
  "amortization_margin_arr_extended cfg a =
     and_then (amortization_margin_arr a) (\<lambda>m.
       glide cfg ''amortization_margin_arr_extended'' m (mean_of m) (mean_of m))"

definition working_capital_margin_arr_extended :: "config \<Rightarrow> row list \<Rightarrow> stop + ndarray" where
  "working_capital_margin_arr_extended cfg a =
     and_then (working_capital_margin_arr a) (\<lambda>m.
       glide cfg ''working_capital_margin_arr_extended'' m (mean_of m) (mean_of m))"

subsection \<open>Step 7: the forecast lines\<close>

text \<open>
  \<^verbatim>\<open>apply_growth(initial_value=sales_arr[0], growth_rates=sales_growth_arr_extended[1:])\<close>:
  the first historical sales value, compounded with every growth rate but the
  undefined first one. \<^verbatim>\<open>sales_arr[0]\<close> is a numpy float, which is a \<^verbatim>\<open>float\<close>.
\<close>

definition sales_forecast_arr :: "config \<Rightarrow> row list \<Rightarrow> stop + ndarray" where
  "sales_forecast_arr cfg a =
     and_then (sales_arr a) (\<lambda>sales.
     and_then (sales_growth_arr_extended cfg a) (\<lambda>growth.
     and_then (raising (item sales 0)) (\<lambda>first_value.
       require ''sales_forecast_arr''
         (apply_growth (PyFloat first_value) (PyArray (slice_from 1 growth))))))"

text \<open>Two computed arrays combined, with the \<^verbatim>\<open>is None\<close> check of the result.\<close>

definition combine ::
  "string \<Rightarrow> stop + ndarray \<Rightarrow> stop + ndarray \<Rightarrow> string \<Rightarrow> stop + ndarray" where
  "combine v x y operation =
     and_then x (\<lambda>arr1.
     and_then y (\<lambda>arr2.
       require v (array_arithmetic (PyArray arr1) (PyArray arr2) operation)))"

definition cogs_forecast_arr :: "config \<Rightarrow> row list \<Rightarrow> stop + ndarray" where
  "cogs_forecast_arr cfg a =
     combine ''cogs_forecast_arr''
       (sales_forecast_arr cfg a) (cogs_margin_arr_extended cfg a) ''multiply''"

definition gross_profit_forecast_arr :: "config \<Rightarrow> row list \<Rightarrow> stop + ndarray" where
  "gross_profit_forecast_arr cfg a =
     combine ''gross_profit_forecast_arr''
       (sales_forecast_arr cfg a) (cogs_forecast_arr cfg a) ''subtract''"

definition other_oper_inc_forecast_arr :: "config \<Rightarrow> row list \<Rightarrow> stop + ndarray" where
  "other_oper_inc_forecast_arr cfg a =
     combine ''other_oper_inc_forecast_arr''
       (sales_forecast_arr cfg a) (other_oper_inc_margin_arr_extended cfg a) ''multiply''"

definition sga_forecast_arr :: "config \<Rightarrow> row list \<Rightarrow> stop + ndarray" where
  "sga_forecast_arr cfg a =
     combine ''sga_forecast_arr''
       (sales_forecast_arr cfg a) (sga_margin_arr_extended cfg a) ''multiply''"

definition rd_forecast_arr :: "config \<Rightarrow> row list \<Rightarrow> stop + ndarray" where
  "rd_forecast_arr cfg a =
     combine ''rd_forecast_arr''
       (sales_forecast_arr cfg a) (rd_margin_arr_extended cfg a) ''multiply''"

definition other_oper_exp_forecast_arr :: "config \<Rightarrow> row list \<Rightarrow> stop + ndarray" where
  "other_oper_exp_forecast_arr cfg a =
     combine ''other_oper_exp_forecast_arr''
       (sales_forecast_arr cfg a) (other_oper_exp_margin_arr_extended cfg a) ''multiply''"

definition oper_exp_forecast_arr :: "config \<Rightarrow> row list \<Rightarrow> stop + ndarray" where
  "oper_exp_forecast_arr cfg a =
     and_then (sga_forecast_arr cfg a) (\<lambda>sga.
     and_then (rd_forecast_arr cfg a) (\<lambda>rd.
     and_then (other_oper_exp_forecast_arr cfg a) (\<lambda>other.
       require ''oper_exp_forecast_arr''
         (array_arithmetic
            (py (array_arithmetic (PyArray sga) (PyArray rd) ''add''))
            (PyArray other) ''add''))))"

definition ebit_forecast_arr :: "config \<Rightarrow> row list \<Rightarrow> stop + ndarray" where
  "ebit_forecast_arr cfg a =
     and_then (gross_profit_forecast_arr cfg a) (\<lambda>gross_profit.
     and_then (other_oper_inc_forecast_arr cfg a) (\<lambda>other_inc.
     and_then (oper_exp_forecast_arr cfg a) (\<lambda>oper_exp.
       require ''ebit_forecast_arr''
         (array_arithmetic (PyArray gross_profit)
            (py (array_arithmetic (PyArray other_inc) (PyArray oper_exp) ''subtract''))
            ''add''))))"

definition nopat_forecast_arr :: "config \<Rightarrow> row list \<Rightarrow> stop + ndarray" where
  "nopat_forecast_arr cfg a =
     and_then (ebit_forecast_arr cfg a) (\<lambda>ebit.
     and_then (effective_tax_rate_arr_extended cfg a) (\<lambda>tax_rate.
       require ''nopat_forecast_arr''
         (array_arithmetic (PyArray ebit) (PyArray (one_minus tax_rate)) ''multiply'')))"

definition capex_forecast_arr :: "config \<Rightarrow> row list \<Rightarrow> stop + ndarray" where
  "capex_forecast_arr cfg a =
     combine ''capex_forecast_arr''
       (sales_forecast_arr cfg a) (capex_margin_arr_extended cfg a) ''multiply''"

definition depreciation_forecast_arr :: "config \<Rightarrow> row list \<Rightarrow> stop + ndarray" where
  "depreciation_forecast_arr cfg a =
     combine ''depreciation_forecast_arr''
       (capex_forecast_arr cfg a) (depr_capex_arr_extended cfg a) ''multiply''"

definition amortization_forecast_arr :: "config \<Rightarrow> row list \<Rightarrow> stop + ndarray" where
  "amortization_forecast_arr cfg a =
     combine ''amortization_forecast_arr''
       (sales_forecast_arr cfg a) (amortization_margin_arr_extended cfg a) ''multiply''"

definition working_capital_forecast_arr :: "config \<Rightarrow> row list \<Rightarrow> stop + ndarray" where
  "working_capital_forecast_arr cfg a =
     combine ''working_capital_forecast_arr''
       (sales_forecast_arr cfg a) (working_capital_margin_arr_extended cfg a) ''multiply''"

definition change_in_working_capital_forecast_arr :: "config \<Rightarrow> row list \<Rightarrow> stop + ndarray" where
  "change_in_working_capital_forecast_arr cfg a =
     and_then (working_capital_forecast_arr cfg a) (\<lambda>working_capital.
       require ''change_in_working_capital_forecast_arr''
         (delta_numpy (PyArray working_capital) (Some (Fin 0))))"

subsection \<open>Step 8: free cash flow\<close>

text \<open>
  The script assigns \<^verbatim>\<open>fcf_forecast_arr\<close> twice: first the free cash flow of every
  period (here \<open>fcf_forecast_arr_all\<close>), then the slice
  \<^verbatim>\<open>fcf_forecast_arr[N_HISTORICAL_YEARS-1:]\<close> of it, which every later statement reads.
\<close>

definition fcf_forecast_arr_all :: "config \<Rightarrow> row list \<Rightarrow> stop + ndarray" where
  "fcf_forecast_arr_all cfg a =
     and_then (nopat_forecast_arr cfg a) (\<lambda>nopat.
     and_then (depreciation_forecast_arr cfg a) (\<lambda>depreciation.
     and_then (amortization_forecast_arr cfg a) (\<lambda>amortization.
     and_then (capex_forecast_arr cfg a) (\<lambda>capex.
     and_then (change_in_working_capital_forecast_arr cfg a) (\<lambda>change_in_working_capital.
       require ''fcf_forecast_arr''
         (array_arithmetic
            (py (array_arithmetic
                   (py (array_arithmetic (PyArray nopat)
                          (py (array_arithmetic (PyArray depreciation) (PyArray amortization)
                                 ''add''))
                          ''add''))
                   (PyArray capex) ''subtract''))
            (PyArray change_in_working_capital) ''subtract''))))))"

definition fcf_forecast_arr :: "config \<Rightarrow> row list \<Rightarrow> stop + ndarray" where
  "fcf_forecast_arr cfg a =
     and_then (fcf_forecast_arr_all cfg a) (\<lambda>fcf.
       Inr (slice_from (N_HISTORICAL_YEARS cfg - 1) fcf))"

definition wacc_constant_arr :: "config \<Rightarrow> stop + ndarray" where
  "wacc_constant_arr cfg = raising (np_full (N_FORECAST_YEARS cfg) (WACC cfg))"

text \<open>\<^verbatim>\<open>wacc_arr\<close> has no \<^verbatim>\<open>is None\<close> check: it stays an \<^verbatim>\<open>Optional[np.ndarray]\<close>.\<close>

definition wacc_arr :: "config \<Rightarrow> stop + ndarray option" where
  "wacc_arr cfg =
     and_then (wacc_constant_arr cfg) (\<lambda>rates.
       Inr (apply_growth (PyFloat (Fin 1)) (PyArray rates)))"

subsection \<open>Steps 9 to 11: present values, enterprise value, equity value\<close>

definition pv_forecasted_fcf_arr :: "config \<Rightarrow> row list \<Rightarrow> stop + ndarray" where
  "pv_forecasted_fcf_arr cfg a =
     and_then (fcf_forecast_arr cfg a) (\<lambda>fcf.
     and_then (wacc_arr cfg) (\<lambda>wacc.
       require ''pv_forecasted_fcf_arr''
         (array_arithmetic (PyArray fcf) (py wacc) ''divide'')))"

definition pv_forecasted_fcf_sum :: "config \<Rightarrow> row list \<Rightarrow> stop + num" where
  "pv_forecasted_fcf_sum cfg a =
     and_then (pv_forecasted_fcf_arr cfg a) (\<lambda>pv. Inr (np_sum pv))"

text \<open>
  \<^verbatim>\<open>(fcf_forecast_arr[-1] * (1 + TERMINAL_GROWTH_RATE)) / (WACC - TERMINAL_GROWTH_RATE)\<close>
  divides a numpy float; the discounting of the next line divides Python floats.
\<close>

definition terminal_value :: "config \<Rightarrow> row list \<Rightarrow> stop + num" where
  "terminal_value cfg a =
     and_then (fcf_forecast_arr cfg a) (\<lambda>fcf.
     and_then (raising (item fcf (- 1))) (\<lambda>last_fcf.
       np_true_divide
         (fmul last_fcf (fadd (Fin 1) (TERMINAL_GROWTH_RATE cfg)))
         (fsub (WACC cfg) (TERMINAL_GROWTH_RATE cfg))))"

definition pv_terminal_value :: "config \<Rightarrow> row list \<Rightarrow> stop + num" where
  "pv_terminal_value cfg a =
     and_then (terminal_value cfg a) (\<lambda>tv.
     and_then (raising (py_pow (fadd (Fin 1) (WACC cfg)) (N_FORECAST_YEARS cfg))) (\<lambda>discount.
       raising (py_truediv tv discount)))"

definition enterprise_value :: "config \<Rightarrow> row list \<Rightarrow> stop + num" where
  "enterprise_value cfg a =
     and_then (pv_forecasted_fcf_sum cfg a) (\<lambda>pv_sum.
     and_then (pv_terminal_value cfg a) (\<lambda>pv_tv. Inr (fadd pv_sum pv_tv)))"

definition equity_value :: "config \<Rightarrow> row list \<Rightarrow> stop + num" where
  "equity_value cfg a =
     and_then (enterprise_value cfg a) (\<lambda>ev.
     and_then (raising (opt_item (total_debt_arr a) (- 1))) (\<lambda>debt.
     and_then (raising (opt_item (preferred_equity_arr a) (- 1))) (\<lambda>preferred.
     and_then (raising (opt_item (minority_interest_arr a) (- 1))) (\<lambda>minority.
     and_then (raising (opt_item (cash_and_equivalents_arr a) (- 1))) (\<lambda>cash.
       Inr (fadd (fsub (fsub (fsub ev debt) preferred) minority) cash))))))"

definition share_value :: "config \<Rightarrow> row list \<Rightarrow> stop + num" where
  "share_value cfg a =
     and_then (equity_value cfg a) (\<lambda>equity.
     and_then (raising (opt_item (shares_out_arr a) (- 1))) (\<lambda>shares.
       np_true_divide equity shares))"

subsection \<open>Step 12: the decision\<close>

text \<open>
  Float arithmetic on floats: the exact result rounded to float64. An overflow gives
  an infinity, which is no \<open>num\<close>, so the run is not represented.
\<close>

definition float64 :: "real \<Rightarrow> stop + num" where
  "float64 x =
     (if 2 powi 1024 \<le> \<bar>nearest64 x\<bar> then Inl NotRepresented else Inr (Fin (nearest64 x)))"

fun float_add :: "num \<Rightarrow> num \<Rightarrow> stop + num" where
  "float_add (Fin x) (Fin y) = float64 (x + y)"
| "float_add _ _ = Inr NaN"

fun float_sub :: "num \<Rightarrow> num \<Rightarrow> stop + num" where
  "float_sub (Fin x) (Fin y) = float64 (x - y)"
| "float_sub _ _ = Inr NaN"

fun float_mul :: "num \<Rightarrow> num \<Rightarrow> stop + num" where
  "float_mul (Fin x) (Fin y) = float64 (x * y)"
| "float_mul _ _ = Inr NaN"

text \<open>
  \<open>is_sell\<close> and \<open>is_buy\<close> as the script computes them from the share value and the
  price the quote service returned:
  \<^verbatim>\<open>share_value < (1 - BUY_SELL_THRESHOLD) * price\<close> and
  \<^verbatim>\<open>share_value < (1 + BUY_SELL_THRESHOLD) * price\<close>, the difference (the sum) and the
  product each rounded to float64. \<open>decisions\<close> is the list of \<^verbatim>\<open>[DECISION]\<close> lines the
  script logs: after SELL and after BUY it calls \<^verbatim>\<open>sys.exit()\<close>, so no later line
  follows, and \<open>is_buy\<close> is computed only when \<open>is_sell\<close> is false.
\<close>

datatype decision = SELL | BUY | HOLD

definition is_sell :: "config \<Rightarrow> num \<Rightarrow> num \<Rightarrow> stop + bool" where
  "is_sell cfg share price =
     and_then (float_sub (Fin 1) (BUY_SELL_THRESHOLD cfg)) (\<lambda>factor.
     and_then (float_mul factor price) (\<lambda>bound. Inr (flt share bound)))"

definition is_buy :: "config \<Rightarrow> num \<Rightarrow> num \<Rightarrow> stop + bool" where
  "is_buy cfg share price =
     and_then (float_add (Fin 1) (BUY_SELL_THRESHOLD cfg)) (\<lambda>factor.
     and_then (float_mul factor price) (\<lambda>bound. Inr (flt share bound)))"

definition decisions :: "config \<Rightarrow> num \<Rightarrow> num \<Rightarrow> stop + decision list" where
  "decisions cfg share price =
     and_then (is_sell cfg share price) (\<lambda>sell.
       if sell then Inr [SELL]
       else
         and_then (is_buy cfg share price) (\<lambda>buy.
           if buy then Inr [BUY] else Inr [HOLD]))"

subsection \<open>The run\<close>

text \<open>
  The statements of the script that can end the run, in the order of the source.
  \<open>stops\<close> keeps of a statement only whether, and how, it ends the run; \<open>first_stop\<close>
  is the first statement of a list that does.
\<close>

definition stops :: "stop + 'a \<Rightarrow> stop option" where
  "stops r = (case r of Inl s \<Rightarrow> Some s | Inr x \<Rightarrow> None)"

fun first_stop :: "stop option list \<Rightarrow> stop option" where
  "first_stop [] = None"
| "first_stop (None # rest) = first_stop rest"
| "first_stop (Some s # rest) = Some s"

definition statements :: "config \<Rightarrow> row list \<Rightarrow> stop option list" where
  "statements cfg a =
     [stops (sales_arr a),
      stops (effective_tax_rate_arr a),
      stops (calculated_gross_profit_arr a),
      stops (check_gross_margin_arr a),
      stops (calculated_oper_exp_arr a),
      stops (check_oper_exp_arr a),
      stops (calculated_oper_inc_arr a),
      stops (check_oper_inc_arr a),
      stops (calculated_effective_tax_rate_arr a),
      stops (check_effective_tax_rate_arr a),
      stops (calculated_depreciation_arr a),
      stops (check_depreciation_arr a),
      stops (cogs_margin_arr a),
      stops (other_oper_inc_margin_arr a),
      stops (other_oper_exp_margin_arr a),
      stops (sga_margin_arr a),
      stops (rd_margin_arr a),
      stops (capex_margin_arr a),
      stops (depr_capex_arr a),
      stops (amortization_margin_arr a),
      stops (working_capital_margin_arr a),
      stops (sales_growth_arr_extended cfg a),
      stops (cogs_margin_arr_extended cfg a),
      stops (other_oper_inc_margin_arr_extended cfg a),
      stops (sga_margin_arr_extended cfg a),
      stops (rd_margin_arr_extended cfg a),
      stops (other_oper_exp_margin_arr_extended cfg a),
      stops (effective_tax_rate_arr_extended cfg a),
      stops (capex_margin_arr_extended cfg a),
      stops (depr_capex_arr_extended cfg a),
      stops (amortization_margin_arr_extended cfg a),
      stops (working_capital_margin_arr_extended cfg a),
      stops (sales_forecast_arr cfg a),
      stops (cogs_forecast_arr cfg a),
      stops (gross_profit_forecast_arr cfg a),
      stops (other_oper_inc_forecast_arr cfg a),
      stops (sga_forecast_arr cfg a),
      stops (rd_forecast_arr cfg a),
      stops (other_oper_exp_forecast_arr cfg a),
      stops (oper_exp_forecast_arr cfg a),
      stops (ebit_forecast_arr cfg a),
      stops (nopat_forecast_arr cfg a),
      stops (capex_forecast_arr cfg a),
      stops (depreciation_forecast_arr cfg a),
      stops (amortization_forecast_arr cfg a),
      stops (working_capital_forecast_arr cfg a),
      stops (change_in_working_capital_forecast_arr cfg a),
      stops (fcf_forecast_arr_all cfg a),
      stops (fcf_forecast_arr cfg a),
      stops (wacc_constant_arr cfg),
      stops (wacc_arr cfg),
      stops (pv_forecasted_fcf_arr cfg a),
      stops (pv_forecasted_fcf_sum cfg a),
      stops (terminal_value cfg a),
      stops (pv_terminal_value cfg a),
      stops (enterprise_value cfg a),
      stops (equity_value cfg a),
      stops (share_value cfg a)]"

text \<open>
  What a run that reaches the decision has logged: the five \<^verbatim>\<open>CHECK PASSED?\<close> flags,
  the present value of the forecast free cash flows, the present value of the
  terminal value, enterprise value, equity value, share value and the decision lines.
\<close>

record outcome =
  checks_passed :: "bool list"
  logged_pv_fcf :: num
  logged_pv_terminal_value :: num
  logged_enterprise_value :: num
  logged_equity_value :: num
  logged_share_value :: num
  logged_decisions :: "decision list"

definition dcf :: "config \<Rightarrow> row list \<Rightarrow> num \<Rightarrow> stop + outcome" where
  "dcf cfg df price =
     and_then (dcf_actuals df) (\<lambda>a.
       (case first_stop (statements cfg a) of
          Some s \<Rightarrow> Inl s
        | None \<Rightarrow>
            and_then (check_gross_margin_arr a) (\<lambda>c1.
            and_then (check_oper_exp_arr a) (\<lambda>c2.
            and_then (check_oper_inc_arr a) (\<lambda>c3.
            and_then (check_effective_tax_rate_arr a) (\<lambda>c4.
            and_then (check_depreciation_arr a) (\<lambda>c5.
            and_then (pv_forecasted_fcf_sum cfg a) (\<lambda>pv_sum.
            and_then (pv_terminal_value cfg a) (\<lambda>pv_tv.
            and_then (enterprise_value cfg a) (\<lambda>ev.
            and_then (equity_value cfg a) (\<lambda>equity.
            and_then (share_value cfg a) (\<lambda>share.
            and_then (decisions cfg share price) (\<lambda>decided.
              Inr \<lparr>checks_passed = [c1, c2, c3, c4, c5],
                   logged_pv_fcf = pv_sum,
                   logged_pv_terminal_value = pv_tv,
                   logged_enterprise_value = ev,
                   logged_equity_value = equity,
                   logged_share_value = share,
                   logged_decisions = decided\<rparr>)))))))))))))"

subsection \<open>The end-to-end scenario\<close>

text \<open>
  The scenario of the specification's testable properties: five years of sales
  growing by 10 percent a year, a constant COGS margin of 0.6, terminal growth 3
  percent, WACC 10 percent and a horizon of 2 years. Every other line is a constant
  share of sales. The reported tax rate (25 percent) differs from the rate the tax
  line gives (3 / 15, that is 20 percent). \<open>scenario_actuals\<close> is the frame with the
  sales growth column filled in.
\<close>

definition scenario_row :: "real \<Rightarrow> row" where
  "scenario_row s =
     \<lparr>SALES_REV_TURN = Fin s,
      IS_COG_AND_SERVICES_SOLD = Fin (60 / 100 * s),
      GROSS_PROFIT = Fin (40 / 100 * s),
      IS_OTHER_OPER_INC = Fin 0,
      IS_OPERATING_EXPN = Fin (25 / 100 * s),
      IS_SGA_EXPENSE = Fin (20 / 100 * s),
      IS_OPERATING_EXPENSES_RD = Fin (5 / 100 * s),
      IS_OTHER_OPERATING_EXPENSES = Fin 0,
      IS_OPER_INC = Fin (15 / 100 * s),
      PRETAX_INC = Fin (15 / 100 * s),
      IS_INC_TAX_EXP = Fin (3 / 100 * s),
      EFF_TAX_RATE = Fin 25,
      CAPITAL_EXPEND = Fin (5 / 100 * s),
      CAP_EXPEND_TO_SALES = Fin 5,
      EBITDA = Fin (20 / 100 * s),
      EBITA = Fin (16 / 100 * s),
      IS_DEPR_EXP = Fin (4 / 100 * s),
      BS_CUR_ASSET_REPORT = Fin (30 / 100 * s),
      BS_CUR_LIAB = Fin (20 / 100 * s),
      BS_ST_BORROW = Fin 5,
      BS_CURR_PORTION_LT_DEBT = Fin 1,
      BS_LT_BORROW = Fin 20,
      PFD_EQTY_HYBRID_CAPITAL = Fin 0,
      MINORITY_NONCONTROLLING_INTEREST = Fin 0,
      CASH_CASH_EQTY_STI_DETAILED = Fin 12,
      BS_SH_OUT = Fin 10,
      sales_growth = NaN\<rparr>"

definition scenario_frame :: "row list" where
  "scenario_frame = map scenario_row [100, 110, 121, 1331 / 10, 14641 / 100]"

definition scenario :: config where
  "scenario = settings\<lparr>N_FORECAST_YEARS := 2, WACC := Fin (10 / 100)\<rparr>"

definition scenario_actuals :: "row list" where
  "scenario_actuals =
     map2 (\<lambda>r g. r\<lparr>sales_growth := g\<rparr>) scenario_frame
       [NaN, Fin (1 / 10), Fin (1 / 10), Fin (1 / 10), Fin (1 / 10)]"

subsection \<open>Replacing reported columns\<close>

text \<open>
  The frame \<open>a\<close> with the column \<^verbatim>\<open>EFF_TAX_RATE\<close> replaced by the values \<open>vs\<close>, row by
  row; every other column stays.
\<close>

abbreviation with_reported_tax_rates :: "row list \<Rightarrow> num list \<Rightarrow> row list" where
  "with_reported_tax_rates a vs \<equiv> map2 (\<lambda>r v. r\<lparr>EFF_TAX_RATE := v\<rparr>) a vs"

text \<open>
  The frame \<open>a\<close> with the column \<^verbatim>\<open>GROSS_PROFIT\<close> replaced by the values \<open>gs\<close> and the
  column \<^verbatim>\<open>IS_OPERATING_EXPN\<close> by the values \<open>es\<close>, row by row; every other column stays.
\<close>

abbreviation with_reported_lines :: "row list \<Rightarrow> num list \<Rightarrow> num list \<Rightarrow> row list" where
  "with_reported_lines a gs es \<equiv>
     map2 (\<lambda>r e. r\<lparr>IS_OPERATING_EXPN := e\<rparr>) (map2 (\<lambda>r g. r\<lparr>GROSS_PROFIT := g\<rparr>) a gs) es"
section \<open>Properties of the array library\<close>


lemma map2_nth:
  "length xs = length ys \<Longrightarrow> map2 f xs ys = map (\<lambda>i. f (xs ! i) (ys ! i)) [0..<length xs]"
  by (rule nth_equalityI) simp_all

lemma lower_Nil_iff: "lower s = [] \<longleftrightarrow> s = []"
  by (simp add: lower_def)

lemma in_ADD_LIST: "s \<in> set ADD_LIST \<Longrightarrow> s \<noteq> [] \<and> s \<in> OP_SET"
  by (auto simp: ADD_LIST_def OP_SET_def)

lemma in_SUB_LIST: "s \<in> set SUB_LIST \<Longrightarrow> s \<noteq> [] \<and> s \<in> OP_SET \<and> s \<notin> set ADD_LIST"
  by (auto simp: ADD_LIST_def SUB_LIST_def OP_SET_def)

lemma in_MULT_LIST:
  "s \<in> set MULT_LIST \<Longrightarrow> s \<noteq> [] \<and> s \<in> OP_SET \<and> s \<notin> set ADD_LIST \<and> s \<notin> set SUB_LIST"
  by (auto simp: ADD_LIST_def SUB_LIST_def MULT_LIST_def OP_SET_def)

lemma in_DIV_LIST:
  "s \<in> set DIV_LIST \<Longrightarrow>
     s \<noteq> [] \<and> s \<in> OP_SET \<and> s \<notin> set ADD_LIST \<and> s \<notin> set SUB_LIST \<and> s \<notin> set MULT_LIST"
  by (auto simp: ADD_LIST_def SUB_LIST_def MULT_LIST_def DIV_LIST_def OP_SET_def)

lemma array_arithmetic_add:
  "lower op \<in> set ADD_LIST \<Longrightarrow>
   array_arithmetic (PyArray a) (PyArray b) op = (if shape a = shape b then Some (np_add a b) else None)"
  using in_ADD_LIST [of "lower op"] by (auto simp: array_arithmetic_def Let_def lower_Nil_iff)

lemma array_arithmetic_subtract:
  "lower op \<in> set SUB_LIST \<Longrightarrow>
   array_arithmetic (PyArray a) (PyArray b) op =
     (if shape a = shape b then Some (np_subtract a b) else None)"
  using in_SUB_LIST [of "lower op"] by (auto simp: array_arithmetic_def Let_def lower_Nil_iff)

lemma array_arithmetic_multiply:
  "lower op \<in> set MULT_LIST \<Longrightarrow>
   array_arithmetic (PyArray a) (PyArray b) op =
     (if shape a = shape b then Some (np_multiply a b) else None)"
  using in_MULT_LIST [of "lower op"] by (auto simp: array_arithmetic_def Let_def lower_Nil_iff)

lemma array_arithmetic_divide:
  "lower op \<in> set DIV_LIST \<Longrightarrow>
   array_arithmetic (PyArray a) (PyArray b) op =
     (if shape a = shape b then Some (np_divide_where a b) else None)"
  using in_DIV_LIST [of "lower op"] by (auto simp: array_arithmetic_def Let_def lower_Nil_iff)

lemma lower_literals:
  "lower ''add'' = ''add''" "lower ''subtract'' = ''subtract''"
  "lower ''multiply'' = ''multiply''" "lower ''divide'' = ''divide''"
  by (simp_all add: lower_def lower_char_def)

lemma array_arithmetic_literals:
  "array_arithmetic (PyArray x) (PyArray y) ''add'' =
     (if shape x = shape y then Some (np_add x y) else None)"
  "array_arithmetic (PyArray x) (PyArray y) ''subtract'' =
     (if shape x = shape y then Some (np_subtract x y) else None)"
  "array_arithmetic (PyArray x) (PyArray y) ''multiply'' =
     (if shape x = shape y then Some (np_multiply x y) else None)"
  "array_arithmetic (PyArray x) (PyArray y) ''divide'' =
     (if shape x = shape y then Some (np_divide_where x y) else None)"
  by (simp_all add: array_arithmetic_add array_arithmetic_subtract array_arithmetic_multiply
      array_arithmetic_divide lower_literals ADD_LIST_def SUB_LIST_def MULT_LIST_def DIV_LIST_def)

lemma np_add_array1:
  "length xs = length ys \<Longrightarrow>
   np_add (array1 xs) (array1 ys) = array1 (map (\<lambda>i. fadd (xs ! i) (ys ! i)) [0..<length xs])"
  by (simp add: np_add_def array1_def map2_nth)

lemma np_subtract_array1:
  "length xs = length ys \<Longrightarrow>
   np_subtract (array1 xs) (array1 ys) = array1 (map (\<lambda>i. fsub (xs ! i) (ys ! i)) [0..<length xs])"
  by (simp add: np_subtract_def array1_def map2_nth)

lemma np_multiply_array1:
  "length xs = length ys \<Longrightarrow>
   np_multiply (array1 xs) (array1 ys) = array1 (map (\<lambda>i. fmul (xs ! i) (ys ! i)) [0..<length xs])"
  by (simp add: np_multiply_def array1_def map2_nth)

lemma np_divide_where_array1:
  "length xs = length ys \<Longrightarrow>
   np_divide_where (array1 xs) (array1 ys) =
     array1 (map (\<lambda>i. if ys ! i = Fin 0 then NaN else fdiv (xs ! i) (ys ! i)) [0..<length xs])"
  by (simp add: np_divide_where_def array1_def map2_nth)

lemma shape_array1: "shape (array1 xs) = [length xs]" and items_array1: "items (array1 xs) = xs"
  by (simp_all add: array1_def)

text \<open>
  Claim C3. For two 1-dimensional arrays of equal length, \<^verbatim>\<open>array_arithmetic\<close> with an
  operation name that lower-cases to an entry of the add, subtract or multiply list
  returns the array whose position \<open>i\<close> is the sum, difference or product of the two
  items at \<open>i\<close>. With a name of the divide list it returns the array whose position \<open>i\<close>
  is NaN where the divisor item is zero and the quotient of the two items everywhere
  else. A result is returned in every case: the function has no exception, and no
  quotient is taken at a zero divisor.
\<close>

theorem array_arithmetic_elementwise:
  assumes "length xs = length ys"
  shows
    "(lower op \<in> set ADD_LIST \<longrightarrow>
        array_arithmetic (PyArray (array1 xs)) (PyArray (array1 ys)) op =
          Some (array1 (map (\<lambda>i. fadd (xs ! i) (ys ! i)) [0..<length xs]))) \<and>
     (lower op \<in> set SUB_LIST \<longrightarrow>
        array_arithmetic (PyArray (array1 xs)) (PyArray (array1 ys)) op =
          Some (array1 (map (\<lambda>i. fsub (xs ! i) (ys ! i)) [0..<length xs]))) \<and>
     (lower op \<in> set MULT_LIST \<longrightarrow>
        array_arithmetic (PyArray (array1 xs)) (PyArray (array1 ys)) op =
          Some (array1 (map (\<lambda>i. fmul (xs ! i) (ys ! i)) [0..<length xs]))) \<and>
     (lower op \<in> set DIV_LIST \<longrightarrow>
        array_arithmetic (PyArray (array1 xs)) (PyArray (array1 ys)) op =
          Some (array1 (map (\<lambda>i. if ys ! i = Fin 0 then NaN else fdiv (xs ! i) (ys ! i))
                          [0..<length xs])))"
  using assms
  by (simp add: array_arithmetic_add array_arithmetic_subtract array_arithmetic_multiply
      array_arithmetic_divide shape_array1 np_add_array1 np_subtract_array1 np_multiply_array1
      np_divide_where_array1)

theorem array_arithmetic_elementwise_witness:
  "array_arithmetic (PyArray (array1 [Fin 6, Fin 1])) (PyArray (array1 [Fin 3, Fin 0])) ''add''
     = Some (array1 [Fin 9, Fin 1]) \<and>
   array_arithmetic (PyArray (array1 [Fin 6, Fin 1])) (PyArray (array1 [Fin 3, Fin 0])) ''subtract''
     = Some (array1 [Fin 3, Fin 1]) \<and>
   array_arithmetic (PyArray (array1 [Fin 6, Fin 1])) (PyArray (array1 [Fin 3, Fin 0])) ''multiply''
     = Some (array1 [Fin 18, Fin 0]) \<and>
   array_arithmetic (PyArray (array1 [Fin 6, Fin 1])) (PyArray (array1 [Fin 3, Fin 0])) ''divide''
     = Some (array1 [Fin 2, NaN])"
  using array_arithmetic_elementwise [of "[Fin 6, Fin 1]" "[Fin 3, Fin 0]" "''add''"]
    array_arithmetic_elementwise [of "[Fin 6, Fin 1]" "[Fin 3, Fin 0]" "''subtract''"]
    array_arithmetic_elementwise [of "[Fin 6, Fin 1]" "[Fin 3, Fin 0]" "''multiply''"]
    array_arithmetic_elementwise [of "[Fin 6, Fin 1]" "[Fin 3, Fin 0]" "''divide''"]
  by (simp add: lower_def lower_char_def ADD_LIST_def SUB_LIST_def MULT_LIST_def DIV_LIST_def
      upt_conv_Cons)

lemma Nil_notin_OP_SET: "[] \<notin> OP_SET"
  by (simp add: OP_SET_def ADD_LIST_def SUB_LIST_def MULT_LIST_def DIV_LIST_def)

lemma array_arithmetic_None_iff:
  "array_arithmetic (PyArray a) (PyArray b) op = None \<longleftrightarrow> shape a \<noteq> shape b \<or> lower op \<notin> OP_SET"
proof (cases "op = []")
  case True
  then show ?thesis
    using Nil_notin_OP_SET by (simp add: array_arithmetic_def lower_def)
next
  case False
  then show ?thesis
    by (simp add: array_arithmetic_def Let_def) (simp add: OP_SET_def)
qed

lemma array_arithmetic_no_array:
  "\<not> is_ndarray x \<or> \<not> is_ndarray y \<Longrightarrow> array_arithmetic x y op = None"
  by (cases x; cases y) (simp_all add: array_arithmetic_def Let_def)

text \<open>
  Claim C6, with the guard the claim leaves out. For any two operands and an
  operation string, \<^verbatim>\<open>array_arithmetic\<close> returns \<^verbatim>\<open>None\<close> exactly when an operand is
  \<^verbatim>\<open>None\<close>, an operand is not an \<^verbatim>\<open>ndarray\<close>, the two shapes differ, or the lower-cased
  operation is not in the synonym table; in every other call it returns an array. Two
  1-dimensional arrays of different lengths have different shapes, so they fail. The
  model's function is total: no call raises.
\<close>

theorem array_arithmetic_failure:
  "(array_arithmetic x y op = None \<longleftrightarrow>
      x = PyNone \<or> y = PyNone \<or> \<not> is_ndarray x \<or> \<not> is_ndarray y
      \<or> (\<exists>a b. x = PyArray a \<and> y = PyArray b \<and> shape a \<noteq> shape b)
      \<or> lower op \<notin> OP_SET) \<and>
   (length xs \<noteq> length ys \<longrightarrow>
      array_arithmetic (PyArray (array1 xs)) (PyArray (array1 ys)) op = None)"
proof -
  have "array_arithmetic x y op = None \<longleftrightarrow>
      x = PyNone \<or> y = PyNone \<or> \<not> is_ndarray x \<or> \<not> is_ndarray y
      \<or> (\<exists>a b. x = PyArray a \<and> y = PyArray b \<and> shape a \<noteq> shape b)
      \<or> lower op \<notin> OP_SET"
  proof (cases "is_ndarray x \<and> is_ndarray y")
    case False
    then show ?thesis using array_arithmetic_no_array [of x y op] by auto
  next
    case True
    then obtain a b where "x = PyArray a" "y = PyArray b"
      by (cases x; cases y) simp_all
    then show ?thesis by (simp add: array_arithmetic_None_iff)
  qed
  moreover have "length xs \<noteq> length ys \<longrightarrow>
      array_arithmetic (PyArray (array1 xs)) (PyArray (array1 ys)) op = None"
    by (simp add: array_arithmetic_None_iff shape_array1)
  ultimately show ?thesis by blast
qed

theorem array_arithmetic_failure_witness:
  "array_arithmetic PyNone (PyArray (array1 [Fin 1])) ''add'' = None \<and>
   array_arithmetic (PyArray (array1 [Fin 1])) PyNone ''add'' = None \<and>
   array_arithmetic (PyList [Fin 1]) (PyArray (array1 [Fin 1])) ''add'' = None \<and>
   array_arithmetic (PyArray (array1 [Fin 1])) (PyFloat (Fin 1)) ''add'' = None \<and>
   array_arithmetic (PyArray (array1 [Fin 1, Fin 2])) (PyArray (array1 [Fin 1])) ''add'' = None \<and>
   array_arithmetic (PyArray (array1 [Fin 1])) (PyArray (array1 [Fin 2])) ''power'' = None \<and>
   array_arithmetic (PyArray (array1 [Fin 1])) (PyArray (array1 [Fin 2])) ''Plus'' \<noteq> None"
  using array_arithmetic_failure [of PyNone "PyArray (array1 [Fin 1])" "''add''" "[]" "[]"]
    array_arithmetic_failure [of "PyArray (array1 [Fin 1])" PyNone "''add''" "[]" "[]"]
    array_arithmetic_failure [of "PyList [Fin 1]" "PyArray (array1 [Fin 1])" "''add''" "[]" "[]"]
    array_arithmetic_failure [of "PyArray (array1 [Fin 1])" "PyFloat (Fin 1)" "''add''" "[]" "[]"]
    array_arithmetic_failure [of "PyArray (array1 [Fin 1, Fin 2])" "PyArray (array1 [Fin 1])" "''add''"
       "[Fin 1, Fin 2]" "[Fin 1]"]
    array_arithmetic_failure [of "PyArray (array1 [Fin 1])" "PyArray (array1 [Fin 2])" "''power''" "[]" "[]"]
    array_arithmetic_failure [of "PyArray (array1 [Fin 1])" "PyArray (array1 [Fin 2])" "''Plus''" "[]" "[]"]
  by (simp add: shape_array1 lower_def lower_char_def OP_SET_def ADD_LIST_def SUB_LIST_def
      MULT_LIST_def DIV_LIST_def)

text \<open>
  Claim C6 as it is worded fails on two lists of one length with a valid operation:
  neither operand is \<^verbatim>\<open>None\<close>, the lengths agree and the operation is in the table, and
  the result is \<^verbatim>\<open>None\<close>, because the operands are not arrays.
\<close>

theorem array_arithmetic_list_operands:
  "PyList [Fin 1] \<noteq> PyNone \<and> PyList [Fin 2] \<noteq> PyNone \<and>
   length [Fin 1] = length [Fin 2] \<and> lower ''add'' \<in> OP_SET \<and>
   array_arithmetic (PyList [Fin 1]) (PyList [Fin 2]) ''add'' = None"
  by (simp add: array_arithmetic_def lower_def lower_char_def OP_SET_def ADD_LIST_def)

lemma fmul_one_left: "fmul (Fin 1) v = v" and fmul_one_right: "fmul v (Fin 1) = v"
  by (cases v; simp)+

lemma length_cumprod_from: "length (cumprod_from acc xs) = length xs"
  by (induction xs arbitrary: acc) simp_all

lemma length_cumprod: "length (cumprod xs) = length xs"
  by (cases xs) (simp_all add: length_cumprod_from)

lemma cumprod_from_nth:
  "k < length xs \<Longrightarrow> cumprod_from acc xs ! k = foldl fmul acc (take (Suc k) xs)"
proof (induction xs arbitrary: acc k)
  case Nil
  then show ?case by simp
next
  case (Cons x xs)
  then show ?case by (cases k) simp_all
qed

lemma cumprod_nth:
  "k < length xs \<Longrightarrow> cumprod xs ! k = foldl fmul (Fin 1) (take (Suc k) xs)"
proof (cases xs)
  case Nil
  assume "k < length xs"
  with Nil show ?thesis by simp
next
  case (Cons x xs')
  assume "k < length xs"
  with Cons show ?thesis
    by (cases k) (simp_all add: fmul_one_left cumprod_from_nth)
qed

lemma foldl_fmul_Fin:
  "foldl fmul (Fin a) (map (\<lambda>r. Fin (f r)) rs) = Fin (a * prod_list (map f rs))"
  by (induction rs arbitrary: a) (simp_all add: mult.assoc)

lemma np_size_array1: "np_size (array1 xs) = length xs" and ndim_array1: "ndim (array1 xs) = 1"
  by (simp_all add: np_size_def ndim_def array1_def)

lemma apply_growth_array1:
  assumes "py_number initial_value = Some v0" and "gs \<noteq> []"
  shows "apply_growth initial_value (PyArray (array1 gs)) =
     Some (array1 (v0 # map (\<lambda>k. fmul v0 (foldl fmul (Fin 1) (map (fadd (Fin 1)) (take k gs))))
                          [1..<Suc (length gs)]))"
proof -
  let ?ys = "map (fadd (Fin 1)) gs"
  have "map (fmul v0) (cumprod ?ys) =
        map (\<lambda>k. fmul v0 (foldl fmul (Fin 1) (map (fadd (Fin 1)) (take k gs)))) [1..<Suc (length gs)]"
  proof (rule nth_equalityI)
    show "length (map (fmul v0) (cumprod ?ys)) =
          length (map (\<lambda>k. fmul v0 (foldl fmul (Fin 1) (map (fadd (Fin 1)) (take k gs))))
                    [1..<Suc (length gs)])"
      by (simp add: length_cumprod del: upt_Suc)
  next
    fix i assume "i < length (map (fmul v0) (cumprod ?ys))"
    then have i: "i < length gs" by (simp add: length_cumprod)
    then have "cumprod ?ys ! i = foldl fmul (Fin 1) (map (fadd (Fin 1)) (take (Suc i) gs))"
      by (simp add: cumprod_nth take_map)
    with i show "map (fmul v0) (cumprod ?ys) ! i =
          map (\<lambda>k. fmul v0 (foldl fmul (Fin 1) (map (fadd (Fin 1)) (take k gs))))
            [1..<Suc (length gs)] ! i"
      by (simp add: length_cumprod del: upt_Suc)
  qed
  with assms show ?thesis
    by (simp add: apply_growth_def np_size_array1 items_array1 del: upt_Suc)
qed

lemma apply_growth_finite:
  assumes "rs \<noteq> []"
  shows "apply_growth (PyFloat (Fin x0)) (PyArray (array1 (map Fin rs))) =
     Some (array1 (Fin x0 # map (\<lambda>k. Fin (x0 * prod_list (map (\<lambda>r. 1 + r) (take k rs))))
                              [1..<Suc (length rs)]))"
proof -
  have "foldl fmul (Fin 1) (map (fadd (Fin 1)) (take k (map Fin rs))) =
        Fin (prod_list (map (\<lambda>r. 1 + r) (take k rs)))" for k
    using foldl_fmul_Fin [of 1 "\<lambda>r. 1 + r" "take k rs"] by (simp add: take_map comp_def)
  with assms show ?thesis
    by (simp add: apply_growth_array1 [where ?v0.0 = "Fin x0"])
qed

text \<open>
  Claim C7. For an initial value that is an \<^verbatim>\<open>int\<close> or a \<^verbatim>\<open>float\<close> and a non-empty
  1-dimensional array of growth rates \<open>r\<^sub>1, \<dots>, r\<^sub>n\<close>, \<^verbatim>\<open>apply_growth\<close> returns an array of
  \<open>n + 1\<close> items: item 0 is the initial value and item \<open>k\<close> is the initial value times
  the product of \<open>1 + r\<^sub>i\<close> for \<open>i = 1, \<dots>, k\<close>. The first conjunct states it for float64
  items (NaN included), the second for finite items with the product of reals. It
  returns \<^verbatim>\<open>None\<close> when the growth rates are an empty array or no array at all, and
  when the initial value is neither an \<^verbatim>\<open>int\<close> nor a \<^verbatim>\<open>float\<close>.
\<close>

theorem apply_growth_compound:
  "(py_number initial_value = Some v0 \<and> gs \<noteq> [] \<longrightarrow>
      apply_growth initial_value (PyArray (array1 gs)) =
        Some (array1 (v0 # map (\<lambda>k. fmul v0 (foldl fmul (Fin 1) (map (fadd (Fin 1)) (take k gs))))
                             [1..<Suc (length gs)]))) \<and>
   (rs \<noteq> [] \<longrightarrow>
      apply_growth (PyFloat (Fin x0)) (PyArray (array1 (map Fin rs))) =
        Some (array1 (Fin x0 # map (\<lambda>k. Fin (x0 * prod_list (map (\<lambda>r. 1 + r) (take k rs))))
                                 [1..<Suc (length rs)]))) \<and>
   apply_growth initial_value (PyArray (array1 [])) = None \<and>
   ((\<forall>g. growth_rates \<noteq> PyArray g) \<longrightarrow> apply_growth initial_value growth_rates = None) \<and>
   (py_number initial_value = None \<longrightarrow> apply_growth initial_value growth_rates = None)"
proof -
  have "apply_growth initial_value (PyArray (array1 [])) = None"
    by (simp add: apply_growth_def np_size_array1 split: option.splits)
  moreover have "(\<forall>g. growth_rates \<noteq> PyArray g) \<longrightarrow> apply_growth initial_value growth_rates = None"
    by (cases growth_rates) (simp_all add: apply_growth_def split: option.splits)
  moreover have "py_number initial_value = None \<longrightarrow> apply_growth initial_value growth_rates = None"
    by (simp add: apply_growth_def)
  ultimately show ?thesis
    using apply_growth_array1 [of initial_value v0 gs] apply_growth_finite [of rs x0] by blast
qed

theorem apply_growth_compound_witness:
  "apply_growth (PyInt 100) (PyArray (array1 [Fin (1/10), NaN])) =
     Some (array1 [Fin 100, Fin 110, NaN]) \<and>
   apply_growth (PyFloat (Fin 100)) (PyArray (array1 [Fin (1/10), Fin (1/2)])) =
     Some (array1 [Fin 100, Fin 110, Fin 165]) \<and>
   apply_growth (PyInt 100) (PyArray (array1 [])) = None \<and>
   apply_growth (PyInt 100) (PyList [Fin (1/10)]) = None \<and>
   apply_growth (PyStr ''100'') (PyArray (array1 [Fin (1/10)])) = None"
  using apply_growth_compound [of "PyInt 100" "Fin 100" "[Fin (1/10), NaN]" "[1/10, 1/2]" 100
      "PyList [Fin (1/10)]"]
    apply_growth_compound [of "PyStr ''100''" NaN "[]" "[]" 0 "PyArray (array1 [Fin (1/10)])"]
  by (simp add: upt_conv_Cons)



lemma first_differences_nth:
  "map2 fsub (tl xs) (butlast xs) = map (\<lambda>i. fsub (xs ! i) (xs ! (i - 1))) [1..<length xs]"
proof (rule nth_equalityI)
  show "length (map2 fsub (tl xs) (butlast xs)) =
        length (map (\<lambda>i. fsub (xs ! i) (xs ! (i - 1))) [1..<length xs])"
    by simp
next
  fix i assume "i < length (map2 fsub (tl xs) (butlast xs))"
  then have i: "Suc i < length xs" by simp
  then have "[1..<length xs] ! i = Suc i"
    using nth_upt [of 1 i "length xs"] by simp
  with i show "map2 fsub (tl xs) (butlast xs) ! i =
        map (\<lambda>i. fsub (xs ! i) (xs ! (i - 1))) [1..<length xs] ! i"
    by (simp add: nth_tl nth_butlast)
qed

lemma delta_numpy_array1:
  assumes "xs \<noteq> []"
  shows "delta_numpy (PyArray (array1 xs)) first_value =
     Some (array1 ((case first_value of None \<Rightarrow> NaN | Some anchor \<Rightarrow> Fin 0)
                   # map (\<lambda>i. fsub (xs ! i) (xs ! (i - 1))) [1..<length xs]))"
proof -
  from assms have "Suc (length xs - Suc 0) = length xs" by (cases xs) simp_all
  with assms show ?thesis
    by (simp add: delta_numpy_def ndim_array1 np_size_array1 items_array1 shape_array1
        first_differences_nth)
qed

text \<open>
  Claim C8. For a non-empty 1-dimensional array, \<^verbatim>\<open>delta_numpy\<close> returns an array of the
  same length. Position 0 is NaN when \<^verbatim>\<open>first_value\<close> is \<^verbatim>\<open>None\<close> and 0.0 when any
  \<^verbatim>\<open>first_value\<close> is given, whatever its value (the anchor itself is never inserted).
  Every position \<open>i \<ge> 1\<close> is item \<open>i\<close> minus item \<open>i - 1\<close>. It returns \<^verbatim>\<open>None\<close> on an
  array that is not 1-dimensional, on an empty array and on an input that is no array.
\<close>

theorem delta_numpy_first_differences:
  "(xs \<noteq> [] \<longrightarrow>
      delta_numpy (PyArray (array1 xs)) first_value =
        Some (array1 ((case first_value of None \<Rightarrow> NaN | Some anchor \<Rightarrow> Fin 0)
                      # map (\<lambda>i. fsub (xs ! i) (xs ! (i - 1))) [1..<length xs]))) \<and>
   (ndim a \<noteq> 1 \<longrightarrow> delta_numpy (PyArray a) first_value = None) \<and>
   delta_numpy (PyArray (array1 [])) first_value = None \<and>
   ((\<forall>b. array \<noteq> PyArray b) \<longrightarrow> delta_numpy array first_value = None)"
proof -
  have "ndim a \<noteq> 1 \<longrightarrow> delta_numpy (PyArray a) first_value = None"
    by (simp add: delta_numpy_def)
  moreover have "delta_numpy (PyArray (array1 [])) first_value = None"
    by (simp add: delta_numpy_def ndim_array1 np_size_array1)
  moreover have "(\<forall>b. array \<noteq> PyArray b) \<longrightarrow> delta_numpy array first_value = None"
    by (cases array) (simp_all add: delta_numpy_def)
  ultimately show ?thesis
    using delta_numpy_array1 [of xs first_value] by blast
qed

theorem delta_numpy_first_differences_witness:
  "delta_numpy (PyArray (array1 [Fin 5, Fin 7, Fin 4])) None = Some (array1 [NaN, Fin 2, Fin (- 3)]) \<and>
   delta_numpy (PyArray (array1 [Fin 5, Fin 7, Fin 4])) (Some (Fin 9))
     = Some (array1 [Fin 0, Fin 2, Fin (- 3)]) \<and>
   delta_numpy (PyArray \<lparr>shape = [1, 2], items = [Fin 5, Fin 7]\<rparr>) None = None \<and>
   delta_numpy (PyArray (array1 [])) None = None \<and>
   delta_numpy (PyStr ''abc'') None = None"
  using delta_numpy_first_differences [of "[Fin 5, Fin 7, Fin 4]" None
      "\<lparr>shape = [1, 2], items = [Fin 5, Fin 7]\<rparr>" "PyStr ''abc''"]
    delta_numpy_first_differences [of "[Fin 5, Fin 7, Fin 4]" "Some (Fin 9)"
      "\<lparr>shape = [1, 2], items = [Fin 5, Fin 7]\<rparr>" "PyStr ''abc''"]
  by (simp add: upt_conv_Cons ndim_def)

lemma upto_const_replicate: "map (\<lambda>k. c) [i..j] = replicate (nat (j - i + 1)) c"
  by (simp add: map_replicate_const)

lemma fadd_zero_right: "fadd v (Fin 0) = v"
  by (cases v) simp_all

lemma extend_array_base_step:
  assumes "0 \<le> n" and "START_VALUE = None \<or> END_VALUE = None"
  shows "extend_array (PyArray (array1 xs)) n None STEP START_VALUE END_VALUE =
     (if xs = [] then Inl IndexError
      else Inr (Some (array1 (xs @ map (\<lambda>k. fadd (last xs)
                  (fmul (Fin (of_int k)) (case STEP of None \<Rightarrow> Fin 0 | Some st \<Rightarrow> st))) [1..n]))))"
  using assms
  by (auto simp: extend_array_def ndim_array1 items_array1 Let_def comp_def
      split: option.splits)

text \<open>
  Claim C10. For a non-empty 1-dimensional history and a horizon \<open>n \<ge> 0\<close>,
  \<^verbatim>\<open>extend_array\<close> called without the pair of start and end value (at most one of the
  two given), without method and without step returns the history followed by \<open>n\<close>
  copies of its last item. The omitted method gives no failure: the call returns what
  the call with \<^verbatim>\<open>method="last"\<close> returns.
\<close>

theorem extend_array_default:
  assumes "xs \<noteq> []" and "0 \<le> n" and "START_VALUE = None \<or> END_VALUE = None"
  shows "extend_array (PyArray (array1 xs)) n None None START_VALUE END_VALUE =
           Inr (Some (array1 (xs @ replicate (nat n) (last xs)))) \<and>
         extend_array (PyArray (array1 xs)) n (Some ''last'') None START_VALUE END_VALUE =
           Inr (Some (array1 (xs @ replicate (nat n) (last xs))))"
proof -
  have "extend_array (PyArray (array1 xs)) n None None START_VALUE END_VALUE =
      Inr (Some (array1 (xs @ replicate (nat n) (last xs))))"
    using assms by (simp add: extend_array_base_step fadd_zero_right upto_const_replicate)
  moreover have "extend_array (PyArray (array1 xs)) n (Some ''last'') None START_VALUE END_VALUE =
      extend_array (PyArray (array1 xs)) n None None START_VALUE END_VALUE"
    using assms(3) by (auto simp: extend_array_def Let_def split: option.splits)
  ultimately show ?thesis by simp
qed

theorem extend_array_default_witness:
  "extend_array (PyArray (array1 [Fin 4, Fin 7])) 3 None None None None =
     Inr (Some (array1 [Fin 4, Fin 7, Fin 7, Fin 7, Fin 7])) \<and>
   extend_array (PyArray (array1 [Fin 4, Fin 7])) 3 (Some ''last'') None None None =
     Inr (Some (array1 [Fin 4, Fin 7, Fin 7, Fin 7, Fin 7])) \<and>
   extend_array (PyArray (array1 [Fin 4, Fin 7])) 0 None None (Some (Fin 1)) None =
     Inr (Some (array1 [Fin 4, Fin 7]))"
  using extend_array_default [of "[Fin 4, Fin 7]" 3 None None]
    extend_array_default [of "[Fin 4, Fin 7]" 0 "Some (Fin 1)" None]
  by (simp add: numeral_3_eq_3)

lemma extend_array_glide:
  assumes "0 < n"
  shows "extend_array (PyArray (array1 xs)) n None STEP (Some start_value) (Some end_value) =
     Inr (Some (array1 (xs @ map (\<lambda>k. fadd start_value (fmul (Fin (of_int k))
                  (fdiv (fsub end_value start_value) (Fin (of_int n))))) [1..n])))"
  using assms
  by (simp add: extend_array_def ndim_array1 items_array1 Let_def comp_def)

text \<open>
  For every horizon of at least one year and finite start and end values the glide
  returns: the history stays as the prefix, \<open>n\<close> values are appended, the \<open>k\<close>-th of them
  is \<open>s + k * (e - s) / n\<close>, and the last one is the end value.
\<close>

lemma extend_array_glide_finite:
  assumes "0 < n"
  shows "\<exists>r. extend_array (PyArray (array1 xs)) n None STEP (Some (Fin s)) (Some (Fin e)) =
           Inr (Some (array1 r)) \<and>
         r = xs @ map (\<lambda>k. Fin (s + of_int k * ((e - s) / of_int n))) [1..n] \<and>
         length r = length xs + nat n \<and> take (length xs) r = xs \<and> last r = Fin e"
proof -
  let ?ext = "map (\<lambda>k. Fin (s + of_int k * ((e - s) / of_int n))) [1..n]"
  have "extend_array (PyArray (array1 xs)) n None STEP (Some (Fin s)) (Some (Fin e)) =
      Inr (Some (array1 (xs @ ?ext)))"
    using assms by (simp add: extend_array_glide)
  moreover have "length (xs @ ?ext) = length xs + nat n"
    by simp
  moreover have "last (xs @ ?ext) = Fin e"
  proof -
    have "[1..n] = [1..n - 1] @ [n]" using assms upto_rec2 [of 1 n] by simp
    then have "?ext = map (\<lambda>k. Fin (s + of_int k * ((e - s) / of_int n))) [1..n - 1]
        @ [Fin (s + of_int n * ((e - s) / of_int n))]"
      by simp
    then have "last (xs @ ?ext) = Fin (s + of_int n * ((e - s) / of_int n))"
      by simp
    then show ?thesis using assms by simp
  qed
  ultimately show ?thesis by simp
qed

text \<open>
  Claim C2, at horizon 0. With start and end value both given and
  \<^verbatim>\<open>forecast_periods = 0\<close>, which the guard \<^verbatim>\<open>forecast_periods < 0\<close> lets pass,
  \<^verbatim>\<open>extend_array\<close> returns no array: the step \<^verbatim>\<open>(END_VALUE - START_VALUE) / 0\<close> raises
  \<^verbatim>\<open>ZeroDivisionError\<close>, for every history, step, start value and end value.
\<close>

theorem extend_array_glide_zero_horizon:
  "extend_array (PyArray (array1 xs)) 0 None STEP (Some start_value) (Some end_value) =
     Inl ZeroDivisionError"
  by (simp add: extend_array_def ndim_array1)

section \<open>Properties of the orchestrator\<close>

lemma upto_as_upt: "0 \<le> i \<Longrightarrow> [i..j] = map int [nat i..<nat (j + 1)]"
  by (rule nth_equalityI) (auto simp: nth_upt)

lemma and_then_Inr [simp]: "and_then (Inr x) k = k x"
  and and_then_Inl [simp]: "and_then (Inl s) k = Inl s"
  by (simp_all add: and_then_def)

lemma require_Some [simp]: "require v (Some a) = Inr a"
  and require_None [simp]: "require v None = Inl (SysExit v)"
  by (simp_all add: require_def)

lemma raising_Inr [simp]: "raising (Inr x) = Inr x"
  and raising_Inl [simp]: "raising (Inl e) = Inl (Raised e)"
  by (simp_all add: raising_def)

lemma fdiv_one: "fdiv v (Fin 1) = v"
  by (cases v) simp_all

subsection \<open>The decision\<close>
































subsection \<open>Present values\<close>

lemma upt_0_Suc: "[0..<Suc n] = 0 # [1..<Suc n]"
  by (simp add: upt_conv_Cons del: upt_Suc)

lemma apply_growth_constant_rate:
  assumes "0 < n"
  shows "apply_growth (PyFloat (Fin 1)) (PyArray (array1 (replicate n (Fin w)))) =
     Some (array1 (map (\<lambda>k. Fin ((1 + w) ^ k)) [0..<Suc n]))"
proof -
  have rs: "replicate n w \<noteq> []" using assms by simp
  have A: "apply_growth (PyFloat (Fin 1)) (PyArray (array1 (map Fin (replicate n w)))) =
      Some (array1 (Fin 1 # map (\<lambda>k. Fin (1 * prod_list (map (\<lambda>r. 1 + r) (take k (replicate n w)))))
                              [1..<Suc n]))"
    using apply_growth_finite [OF rs, of 1] by (simp only: length_replicate)
  have B: "map Fin (replicate n w) = replicate n (Fin w)" by simp
  have C: "map (\<lambda>k. Fin (1 * prod_list (map (\<lambda>r. 1 + r) (take k (replicate n w))))) [1..<Suc n]
      = map (\<lambda>k. Fin ((1 + w) ^ k)) [1..<Suc n]"
  proof (rule map_cong [OF refl])
    fix k assume "k \<in> set [1..<Suc n]"
    then have "min k n = k" by auto
    then show "Fin (1 * prod_list (map (\<lambda>r. 1 + r) (take k (replicate n w)))) = Fin ((1 + w) ^ k)"
      by simp
  qed
  have D: "Fin 1 # map (\<lambda>k. Fin ((1 + w) ^ k)) [1..<Suc n] = map (\<lambda>k. Fin ((1 + w) ^ k)) [0..<Suc n]"
    unfolding upt_0_Suc [of n] by simp
  show ?thesis using A unfolding B C D .
qed

lemma wacc_arr_closed:
  assumes "N_FORECAST_YEARS cfg = int n" and "0 < n" and "WACC cfg = Fin w"
  shows "wacc_arr cfg = Inr (Some (array1 (map (\<lambda>k. Fin ((1 + w) ^ k)) [0..<Suc n])))"
  using assms apply_growth_constant_rate [of n w]
  by (simp add: wacc_arr_def wacc_constant_arr_def np_full_def del: upt_Suc)

lemma slice_from_array1:
  "0 \<le> k \<Longrightarrow> slice_from k (array1 xs) = array1 (drop (nat k) xs)"
  by (auto simp: slice_from_def items_array1 Let_def min_def)

lemma discounted_items:
  assumes "0 < h" and "length xs = h + n"
  shows "map (\<lambda>i. if map (\<lambda>k. Fin ((1 + w) ^ k)) [0..<Suc n] ! i = Fin 0 then NaN
                   else fdiv (drop (h - 1) xs ! i) (map (\<lambda>k. Fin ((1 + w) ^ k)) [0..<Suc n] ! i))
           [0..<Suc n]
       = xs ! (h - 1) #
         map (\<lambda>k. if (1 + w) ^ k = 0 then NaN else fdiv (xs ! (h - 1 + k)) (Fin ((1 + w) ^ k)))
           [1..<Suc n]"
    (is "map ?f [0..<Suc n] = _ # map ?g [1..<Suc n]")
proof -
  have nth: "map (\<lambda>k. Fin ((1 + w) ^ k)) [0..<Suc n] ! i = Fin ((1 + w) ^ i)" if "i < Suc n" for i
    using that nth_map [of i "[0..<Suc n]" "\<lambda>k. Fin ((1 + w) ^ k)"] nth_upt [of 0 i "Suc n"]
    by (simp del: upt_Suc)
  have dr: "drop (h - 1) xs ! i = xs ! (h - 1 + i)" if "i < Suc n" for i
    using that assms by simp
  have "?f 0 = xs ! (h - 1)"
    using nth [of 0] dr [of 0] by (simp add: fdiv_one del: upt_Suc)
  moreover have "map ?f [1..<Suc n] = map ?g [1..<Suc n]"
  proof (rule map_cong [OF refl])
    fix k assume "k \<in> set [1..<Suc n]"
    then have "k < Suc n" by auto
    then show "?f k = ?g k" using nth [of k] dr [of k] by (simp del: upt_Suc)
  qed
  ultimately show ?thesis
    unfolding upt_0_Suc [of n] by (simp del: upt_Suc)
qed

lemma pv_forecasted_fcf_closed:
  assumes hist: "N_HISTORICAL_YEARS cfg = int h" "0 < h"
    and horizon: "N_FORECAST_YEARS cfg = int n" "0 < n"
    and wacc: "WACC cfg = Fin w"
    and fcf: "fcf_forecast_arr_all cfg a = Inr (array1 xs)" "length xs = h + n"
  shows "fcf_forecast_arr cfg a = Inr (array1 (drop (h - 1) xs))"
    and "pv_forecasted_fcf_arr cfg a =
      Inr (array1 (xs ! (h - 1) #
        map (\<lambda>k. if (1 + w) ^ k = 0 then NaN else fdiv (xs ! (h - 1 + k)) (Fin ((1 + w) ^ k)))
          [1..<Suc n]))"
proof -
  have k: "nat (int h - 1) = h - 1" "0 \<le> int h - 1" using hist(2) by simp_all
  show slice: "fcf_forecast_arr cfg a = Inr (array1 (drop (h - 1) xs))"
    using hist(1) fcf(1) k by (simp add: fcf_forecast_arr_def slice_from_array1)
  let ?ys = "drop (h - 1) xs"
  let ?zs = "map (\<lambda>k. Fin ((1 + w) ^ k)) [0..<Suc n]"
  have len: "length ?ys = length ?zs" using fcf(2) hist(2) by simp
  have l: "length ?ys = Suc n" using fcf(2) hist(2) by simp
  have "array_arithmetic (PyArray (array1 ?ys)) (PyArray (array1 ?zs)) ''divide'' =
      Some (np_divide_where (array1 ?ys) (array1 ?zs))"
    using len by (simp add: array_arithmetic_literals shape_array1 del: upt_Suc)
  then have "array_arithmetic (PyArray (array1 ?ys)) (PyArray (array1 ?zs)) ''divide'' =
      Some (array1 (map (\<lambda>i. if ?zs ! i = Fin 0 then NaN else fdiv (?ys ! i) (?zs ! i))
                      [0..<length ?ys]))"
    unfolding np_divide_where_array1 [OF len] .
  then have "array_arithmetic (PyArray (array1 ?ys)) (PyArray (array1 ?zs)) ''divide'' =
      Some (array1 (xs ! (h - 1) #
        map (\<lambda>k. if (1 + w) ^ k = 0 then NaN else fdiv (xs ! (h - 1 + k)) (Fin ((1 + w) ^ k)))
          [1..<Suc n]))"
    unfolding l discounted_items [OF hist(2) fcf(2)] .
  then show "pv_forecasted_fcf_arr cfg a =
      Inr (array1 (xs ! (h - 1) #
        map (\<lambda>k. if (1 + w) ^ k = 0 then NaN else fdiv (xs ! (h - 1 + k)) (Fin ((1 + w) ^ k)))
          [1..<Suc n]))"
    using slice wacc_arr_closed [OF horizon wacc]
    by (simp add: pv_forecasted_fcf_arr_def del: upt_Suc)
qed

lemma scenario_dcf_actuals: "dcf_actuals scenario_frame = Inr scenario_actuals"
  by code_simp

lemma scenario_fcf_all:
  "fcf_forecast_arr_all scenario scenario_actuals =
     Inr (array1 [Fin 12, Fin (61 / 5), Fin (671 / 50), Fin (7381 / 500), Fin (81191 / 5000),
                  Fin (61682533 / 4000000), Fin (2797324101 / 200000000)])"
  by code_simp

text \<open>
  Claim C9. Let the configuration have \<open>h \<ge> 1\<close> historical years, a horizon \<open>n \<ge> 1\<close> and
  a finite WACC \<open>w\<close>, and let the free cash flow of all \<open>h + n\<close> periods be \<open>xs\<close>. Then
  the discount factors are \<open>1, (1 + w)\<^sup>1, \<dots>, (1 + w)\<^sup>n\<close>, the first one exactly 1. The
  slice kept for discounting starts at position \<open>h - 1\<close>, the last historical (current)
  year. The present value of that year is its free cash flow itself, divided by
  nothing but the factor 1, and the sum of present values is that undiscounted cash
  flow plus the \<open>n\<close> discounted forecast years: it runs over \<open>n + 1\<close> periods. Enterprise
  value is that sum plus the present value of the terminal value, whenever the latter
  is computed, so the current year enters enterprise value undiscounted too.
\<close>

theorem present_value_includes_current_year:
  assumes "N_HISTORICAL_YEARS cfg = int h" and "0 < h"
    and "N_FORECAST_YEARS cfg = int n" and "0 < n"
    and "WACC cfg = Fin w"
    and "fcf_forecast_arr_all cfg a = Inr (array1 xs)" and "length xs = h + n"
  shows "wacc_arr cfg = Inr (Some (array1 (Fin 1 # map (\<lambda>k. Fin ((1 + w) ^ k)) [1..<Suc n]))) \<and>
     fcf_forecast_arr cfg a = Inr (array1 (drop (h - 1) xs)) \<and>
     hd (drop (h - 1) xs) = last (take h xs) \<and>
     pv_forecasted_fcf_arr cfg a =
       Inr (array1 (xs ! (h - 1) #
         map (\<lambda>k. if (1 + w) ^ k = 0 then NaN else fdiv (xs ! (h - 1 + k)) (Fin ((1 + w) ^ k)))
           [1..<Suc n])) \<and>
     pv_forecasted_fcf_sum cfg a =
       Inr (fadd (xs ! (h - 1))
         (foldr fadd
            (map (\<lambda>k. if (1 + w) ^ k = 0 then NaN else fdiv (xs ! (h - 1 + k)) (Fin ((1 + w) ^ k)))
               [1..<Suc n])
            (Fin 0))) \<and>
     enterprise_value cfg a =
       and_then (pv_terminal_value cfg a) (\<lambda>pv_tv.
         Inr (fadd
           (fadd (xs ! (h - 1))
              (foldr fadd
                 (map (\<lambda>k. if (1 + w) ^ k = 0 then NaN
                            else fdiv (xs ! (h - 1 + k)) (Fin ((1 + w) ^ k)))
                    [1..<Suc n])
                 (Fin 0)))
           pv_tv))"
proof -
  have "wacc_arr cfg = Inr (Some (array1 (map (\<lambda>k. Fin ((1 + w) ^ k)) [0..<Suc n])))"
    using assms(3,4,5) by (rule wacc_arr_closed)
  then have wacc: "wacc_arr cfg = Inr (Some (array1 (Fin 1 # map (\<lambda>k. Fin ((1 + w) ^ k)) [1..<Suc n])))"
    unfolding upt_0_Suc [of n] by simp
  have cur: "hd (drop (h - 1) xs) = last (take h xs)"
  proof -
    have "take h xs \<noteq> []" and "length (take h xs) = h" using assms(2,7) by auto
    then have "last (take h xs) = xs ! (h - 1)"
      using assms(2) last_conv_nth [of "take h xs"] by simp
    moreover have "hd (drop (h - 1) xs) = xs ! (h - 1)"
      using assms(2,7) by (simp add: hd_drop_conv_nth)
    ultimately show ?thesis by simp
  qed
  note pv = pv_forecasted_fcf_closed [OF assms]
  have sum: "pv_forecasted_fcf_sum cfg a =
       Inr (fadd (xs ! (h - 1))
         (foldr fadd
            (map (\<lambda>k. if (1 + w) ^ k = 0 then NaN else fdiv (xs ! (h - 1 + k)) (Fin ((1 + w) ^ k)))
               [1..<Suc n])
            (Fin 0)))"
    unfolding pv_forecasted_fcf_sum_def pv(2) by (simp add: np_sum_def items_array1 del: upt_Suc)
  have ev: "enterprise_value cfg a =
       and_then (pv_terminal_value cfg a) (\<lambda>pv_tv.
         Inr (fadd
           (fadd (xs ! (h - 1))
              (foldr fadd
                 (map (\<lambda>k. if (1 + w) ^ k = 0 then NaN
                            else fdiv (xs ! (h - 1 + k)) (Fin ((1 + w) ^ k)))
                    [1..<Suc n])
                 (Fin 0)))
           pv_tv))"
    unfolding enterprise_value_def sum by (simp del: upt_Suc)
  from wacc cur pv sum ev show ?thesis by blast
qed

lemma scenario_pv_terminal_value:
  assumes "fcf_forecast_arr scenario scenario_actuals =
     Inr (array1 [Fin (81191 / 5000), Fin (61682533 / 4000000), Fin (2797324101 / 200000000)])"
  shows "pv_terminal_value scenario scenario_actuals =
     Inr (Fin (2797324101 / 200000000 * (103 / 100) / (7 / 100) / (121 / 100)))"
  unfolding pv_terminal_value_def terminal_value_def assms
  by (simp add: item_def items_array1 scenario_def settings_def np_true_divide_def py_pow_def
      py_truediv_def power2_eq_square)

theorem present_value_includes_current_year_witness:
  "wacc_arr scenario = Inr (Some (array1 [Fin 1, Fin (11 / 10), Fin (121 / 100)])) \<and>
   fcf_forecast_arr scenario scenario_actuals =
     Inr (array1 [Fin (81191 / 5000), Fin (61682533 / 4000000), Fin (2797324101 / 200000000)]) \<and>
   pv_forecasted_fcf_arr scenario scenario_actuals =
     Inr (array1 [Fin (81191 / 5000), Fin (61682533 / 4000000 / (11 / 10)),
                  Fin (2797324101 / 200000000 / (121 / 100))]) \<and>
   pv_forecasted_fcf_sum scenario scenario_actuals =
     Inr (Fin (81191 / 5000 + (61682533 / 4000000 / (11 / 10)
               + 2797324101 / 200000000 / (121 / 100)))) \<and>
   pv_terminal_value scenario scenario_actuals =
     Inr (Fin (2797324101 / 200000000 * (103 / 100) / (7 / 100) / (121 / 100))) \<and>
   enterprise_value scenario scenario_actuals =
     Inr (Fin (81191 / 5000
               + (61682533 / 4000000 / (11 / 10) + 2797324101 / 200000000 / (121 / 100))
               + 2797324101 / 200000000 * (103 / 100) / (7 / 100) / (121 / 100)))"
proof -
  note t = present_value_includes_current_year [of scenario 5 2 "1 / 10" scenario_actuals
      "[Fin 12, Fin (61 / 5), Fin (671 / 50), Fin (7381 / 500), Fin (81191 / 5000),
        Fin (61682533 / 4000000), Fin (2797324101 / 200000000)]"]
  have fcf: "fcf_forecast_arr scenario scenario_actuals =
     Inr (array1 [Fin (81191 / 5000), Fin (61682533 / 4000000), Fin (2797324101 / 200000000)])"
    using t scenario_fcf_all by (simp add: scenario_def settings_def)
  show ?thesis
    using t scenario_fcf_all scenario_pv_terminal_value [OF fcf]
    by (simp add: scenario_def settings_def upt_conv_Cons)
qed

subsection \<open>The sales forecast\<close>

lemma map_sales_growth_filled:
  "length gs = length df \<Longrightarrow> map sales_growth (map2 (\<lambda>r g. r\<lparr>sales_growth := g\<rparr>) df gs) = gs"
  by (rule nth_equalityI) simp_all

lemma map_column_filled:
  assumes "length gs = length df" and "\<And>r g. col (r\<lparr>sales_growth := g\<rparr>) = col r"
  shows "map col (map2 (\<lambda>r g. r\<lparr>sales_growth := g\<rparr>) df gs) = map col df"
  using assms by (intro nth_equalityI) simp_all

lemma dfcol2numpy_Cons: "df \<noteq> [] \<Longrightarrow> dfcol2numpy col df = Some (array1 (map col df))"
  by (simp add: dfcol2numpy_def list2numpy_def)

lemma item_array1_nth: "i < length xs \<Longrightarrow> item (array1 xs) (int i) = Inr (xs ! i)"
  by (simp add: item_def items_array1 Let_def)

lemma item_array1_last: "xs \<noteq> [] \<Longrightarrow> item (array1 xs) (- 1) = Inr (last xs)"
proof -
  assume ne: "xs \<noteq> []"
  then have "nat (int (length xs) - 1) = length xs - 1" and "0 < length xs" by simp_all
  with ne show ?thesis
    by (simp add: item_def items_array1 Let_def last_conv_nth)
qed

lemma glide_array1:
  assumes "0 < N_FORECAST_YEARS cfg"
  shows "glide cfg v (array1 xs) s e =
     Inr (array1 (xs @ map (\<lambda>k. fadd s (fmul (Fin (of_int k))
                  (fdiv (fsub e s) (Fin (of_int (N_FORECAST_YEARS cfg)))))) [1..N_FORECAST_YEARS cfg]))"
  using assms by (simp add: glide_def extended_def extend_array_glide)

text \<open>
  Claim C1. Let the sales column of the frame be 100, 110, 121, 133.1, 146.41, the
  horizon 2 and the terminal growth rate 3 percent. Then the growth column is NaN
  followed by four times 0.1, its mean over the defined periods is 0.1, the glide
  appends \<open>g\<^sub>1 = 0.1 + (0.03 - 0.1) / 2\<close> and \<open>g\<^sub>2 = 0.03\<close>, and \<^verbatim>\<open>apply_growth\<close>, started
  from the first historical sales value, returns the five historical sales values
  followed by \<open>146.41 * (1 + g\<^sub>1)\<close> and \<open>146.41 * (1 + g\<^sub>1) * (1 + g\<^sub>2)\<close>. The other columns
  of the frame and the other settings are arbitrary.
\<close>

theorem sales_forecast_end_to_end:
  assumes "map SALES_REV_TURN df = map Fin [100, 110, 121, 1331 / 10, 14641 / 100]"
    and "N_FORECAST_YEARS cfg = 2"
    and "TERMINAL_GROWTH_RATE cfg = Fin (3 / 100)"
  shows "\<exists>a. dcf_actuals df = Inr a \<and>
     sales_growth_arr a = Some (array1 [NaN, Fin (1 / 10), Fin (1 / 10), Fin (1 / 10), Fin (1 / 10)]) \<and>
     sales_growth_arr_extended cfg a =
       Inr (array1 [NaN, Fin (1 / 10), Fin (1 / 10), Fin (1 / 10), Fin (1 / 10),
                    Fin (1 / 10 + (3 / 100 - 1 / 10) / 2), Fin (3 / 100)]) \<and>
     sales_forecast_arr cfg a =
       Inr (array1 [Fin 100, Fin 110, Fin 121, Fin (1331 / 10), Fin (14641 / 100),
                    Fin (14641 / 100 * (1 + (1 / 10 + (3 / 100 - 1 / 10) / 2))),
                    Fin (14641 / 100 * (1 + (1 / 10 + (3 / 100 - 1 / 10) / 2)) * (1 + 3 / 100))])"
proof -
  let ?growth = "[NaN, Fin (1 / 10), Fin (1 / 10), Fin (1 / 10), Fin (1 / 10)]"
  let ?a = "map2 (\<lambda>r g. r\<lparr>sales_growth := g\<rparr>) df ?growth"
  have len: "length df = 5"
    using arg_cong [OF assms(1), of length] by simp
  have pct: "pct_change (map SALES_REV_TURN df) = Inr ?growth"
    unfolding assms(1) by (simp add: pct_change_def np_true_divide_def)
  then have actuals: "dcf_actuals df = Inr ?a"
    by (simp add: dcf_actuals_def)
  have ne: "?a \<noteq> []" using len by (cases df) simp_all
  have "map sales_growth ?a = ?growth"
    using len map_sales_growth_filled [of ?growth df] by simp
  then have growth: "sales_growth_arr ?a = Some (array1 ?growth)"
    using ne by (simp add: sales_growth_arr_def dfcol2numpy_Cons)
  have "map SALES_REV_TURN ?a = map Fin [100, 110, 121, 1331 / 10, 14641 / 100]"
    using len assms(1) map_column_filled [of ?growth df SALES_REV_TURN] by simp
  then have sales: "sales_arr ?a = Inr (array1 (map Fin [100, 110, 121, 1331 / 10, 14641 / 100]))"
    using ne by (simp add: sales_arr_def dfcol2numpy_Cons)
  have ext: "sales_growth_arr_extended cfg ?a =
       Inr (array1 [NaN, Fin (1 / 10), Fin (1 / 10), Fin (1 / 10), Fin (1 / 10),
                    Fin (1 / 10 + (3 / 100 - 1 / 10) / 2), Fin (3 / 100)])"
    unfolding sales_growth_arr_extended_def growth
    using assms(2,3)
    by (simp add: glide_array1 mean_of_def items_array1 nanmean_def upto.simps)
  have "sales_forecast_arr cfg ?a =
       Inr (array1 [Fin 100, Fin 110, Fin 121, Fin (1331 / 10), Fin (14641 / 100),
                    Fin (14641 / 100 * (1 + (1 / 10 + (3 / 100 - 1 / 10) / 2))),
                    Fin (14641 / 100 * (1 + (1 / 10 + (3 / 100 - 1 / 10) / 2)) * (1 + 3 / 100))])"
    unfolding sales_forecast_arr_def sales ext
    using item_array1_nth [of 0 "map Fin [100, 110, 121, 1331 / 10, 14641 / 100]"]
    by (simp add: slice_from_array1 apply_growth_def np_size_array1 items_array1)
  with actuals growth ext show ?thesis by blast
qed

theorem sales_forecast_end_to_end_witness:
  "\<exists>a. dcf_actuals scenario_frame = Inr a \<and>
     sales_growth_arr a = Some (array1 [NaN, Fin (1 / 10), Fin (1 / 10), Fin (1 / 10), Fin (1 / 10)]) \<and>
     sales_growth_arr_extended scenario a =
       Inr (array1 [NaN, Fin (1 / 10), Fin (1 / 10), Fin (1 / 10), Fin (1 / 10),
                    Fin (13 / 200), Fin (3 / 100)]) \<and>
     sales_forecast_arr scenario a =
       Inr (array1 [Fin 100, Fin 110, Fin 121, Fin (1331 / 10), Fin (14641 / 100),
                    Fin (3118533 / 20000), Fin (321208899 / 2000000)])"
proof -
  have sales: "map SALES_REV_TURN scenario_frame = map Fin [100, 110, 121, 1331 / 10, 14641 / 100]"
    by (simp add: scenario_frame_def scenario_row_def)
  have cfg: "N_FORECAST_YEARS scenario = 2" "TERMINAL_GROWTH_RATE scenario = Fin (3 / 100)"
    by (simp_all add: scenario_def settings_def)
  show ?thesis
    using sales_forecast_end_to_end [OF sales cfg] by simp
qed

subsection \<open>Reported and recomputed series\<close>

lemma rows_combined:
  "np_add (array1 (map f a)) (array1 (map g a)) = array1 (map (\<lambda>r. fadd (f r) (g r)) a)"
  "np_subtract (array1 (map f a)) (array1 (map g a)) = array1 (map (\<lambda>r. fsub (f r) (g r)) a)"
  "np_multiply (array1 (map f a)) (array1 (map g a)) = array1 (map (\<lambda>r. fmul (f r) (g r)) a)"
  "np_divide_where (array1 (map f a)) (array1 (map g a)) =
     array1 (map (\<lambda>r. if g r \<noteq> Fin 0 then fdiv (f r) (g r) else NaN) a)"
  by (simp_all add: np_add_def np_subtract_def np_multiply_def np_divide_where_def array1_def
      map2_map_map)

lemma tax_rates_other_column:
  assumes "length vs = length a" and "\<And>r v. col (r\<lparr>EFF_TAX_RATE := v\<rparr>) = col r"
  shows "dfcol2numpy col (with_reported_tax_rates a vs) = dfcol2numpy col a"
proof -
  have "map col (with_reported_tax_rates a vs) = map col a"
    using assms by (intro nth_equalityI) simp_all
  moreover have "with_reported_tax_rates a vs = [] \<longleftrightarrow> a = []"
    using assms(1) by (cases a; cases vs) simp_all
  ultimately show ?thesis by (simp add: dfcol2numpy_def)
qed

lemma tax_rates_unused_extraction:
  assumes "length vs = length a"
  shows
    "sales_arr (with_reported_tax_rates a vs) = sales_arr a"
    and "sales_growth_arr (with_reported_tax_rates a vs) = sales_growth_arr a"
    and "cogs_arr (with_reported_tax_rates a vs) = cogs_arr a"
    and "gp_arr (with_reported_tax_rates a vs) = gp_arr a"
    and "other_oper_inc_arr (with_reported_tax_rates a vs) = other_oper_inc_arr a"
    and "other_oper_exp_arr (with_reported_tax_rates a vs) = other_oper_exp_arr a"
    and "sga_exp_arr (with_reported_tax_rates a vs) = sga_exp_arr a"
    and "rd_exp_arr (with_reported_tax_rates a vs) = rd_exp_arr a"
    and "oper_exp_arr (with_reported_tax_rates a vs) = oper_exp_arr a"
    and "oper_inc_arr (with_reported_tax_rates a vs) = oper_inc_arr a"
    and "pretax_inc_arr (with_reported_tax_rates a vs) = pretax_inc_arr a"
    and "tax_exp_arr (with_reported_tax_rates a vs) = tax_exp_arr a"
    and "capital_expenditure_arr (with_reported_tax_rates a vs) = capital_expenditure_arr a"
    and "ebitda_arr (with_reported_tax_rates a vs) = ebitda_arr a"
    and "ebita_arr (with_reported_tax_rates a vs) = ebita_arr a"
    and "depreciation_arr (with_reported_tax_rates a vs) = depreciation_arr a"
    and "total_current_assets_arr (with_reported_tax_rates a vs) = total_current_assets_arr a"
    and "total_current_liabilities_arr (with_reported_tax_rates a vs) = total_current_liabilities_arr a"
    and "st_debt_arr (with_reported_tax_rates a vs) = st_debt_arr a"
    and "stlt_debt_arr (with_reported_tax_rates a vs) = stlt_debt_arr a"
    and "lt_debt_arr (with_reported_tax_rates a vs) = lt_debt_arr a"
    and "preferred_equity_arr (with_reported_tax_rates a vs) = preferred_equity_arr a"
    and "minority_interest_arr (with_reported_tax_rates a vs) = minority_interest_arr a"
    and "cash_and_equivalents_arr (with_reported_tax_rates a vs) = cash_and_equivalents_arr a"
    and "shares_out_arr (with_reported_tax_rates a vs) = shares_out_arr a"
  by (simp_all add: sales_arr_def sales_growth_arr_def cogs_arr_def gp_arr_def other_oper_inc_arr_def other_oper_exp_arr_def sga_exp_arr_def rd_exp_arr_def oper_exp_arr_def oper_inc_arr_def pretax_inc_arr_def tax_exp_arr_def capital_expenditure_arr_def ebitda_arr_def ebita_arr_def depreciation_arr_def total_current_assets_arr_def total_current_liabilities_arr_def st_debt_arr_def stlt_debt_arr_def lt_debt_arr_def preferred_equity_arr_def minority_interest_arr_def cash_and_equivalents_arr_def shares_out_arr_def
      tax_rates_other_column [OF assms])

lemma tax_rates_unused_derived:
  assumes "length vs = length a"
  shows
    "amortization_arr (with_reported_tax_rates a vs) = amortization_arr a"
    and "working_capital_arr (with_reported_tax_rates a vs) = working_capital_arr a"
    and "total_debt_arr (with_reported_tax_rates a vs) = total_debt_arr a"
  by (simp_all only: amortization_arr_def working_capital_arr_def total_debt_arr_def tax_rates_unused_extraction [OF assms])

lemma tax_rates_unused_checks:
  assumes "length vs = length a"
  shows
    "calculated_gross_profit_arr (with_reported_tax_rates a vs) = calculated_gross_profit_arr a"
    and "check_gross_margin_arr (with_reported_tax_rates a vs) = check_gross_margin_arr a"
    and "calculated_oper_exp_arr (with_reported_tax_rates a vs) = calculated_oper_exp_arr a"
    and "check_oper_exp_arr (with_reported_tax_rates a vs) = check_oper_exp_arr a"
    and "calculated_oper_inc_arr (with_reported_tax_rates a vs) = calculated_oper_inc_arr a"
    and "check_oper_inc_arr (with_reported_tax_rates a vs) = check_oper_inc_arr a"
    and "calculated_effective_tax_rate_arr (with_reported_tax_rates a vs) = calculated_effective_tax_rate_arr a"
    and "calculated_depreciation_arr (with_reported_tax_rates a vs) = calculated_depreciation_arr a"
    and "check_depreciation_arr (with_reported_tax_rates a vs) = check_depreciation_arr a"
  by (simp_all only: calculated_gross_profit_arr_def check_gross_margin_arr_def calculated_oper_exp_arr_def check_oper_exp_arr_def calculated_oper_inc_arr_def check_oper_inc_arr_def calculated_effective_tax_rate_arr_def calculated_depreciation_arr_def check_depreciation_arr_def tax_rates_unused_extraction [OF assms] tax_rates_unused_derived [OF assms])

lemma tax_rates_unused_capex_margin:
  assumes "length vs = length a"
  shows "capex_margin_arr (with_reported_tax_rates a vs) = capex_margin_arr a"
  by (simp add: capex_margin_arr_def tax_rates_other_column [OF assms])

lemma tax_rates_unused_margins:
  assumes "length vs = length a"
  shows
    "cogs_margin_arr (with_reported_tax_rates a vs) = cogs_margin_arr a"
    and "other_oper_inc_margin_arr (with_reported_tax_rates a vs) = other_oper_inc_margin_arr a"
    and "other_oper_exp_margin_arr (with_reported_tax_rates a vs) = other_oper_exp_margin_arr a"
    and "sga_margin_arr (with_reported_tax_rates a vs) = sga_margin_arr a"
    and "rd_margin_arr (with_reported_tax_rates a vs) = rd_margin_arr a"
    and "depr_capex_arr (with_reported_tax_rates a vs) = depr_capex_arr a"
    and "amortization_margin_arr (with_reported_tax_rates a vs) = amortization_margin_arr a"
    and "working_capital_margin_arr (with_reported_tax_rates a vs) = working_capital_margin_arr a"
  by (simp_all only: cogs_margin_arr_def other_oper_inc_margin_arr_def other_oper_exp_margin_arr_def sga_margin_arr_def rd_margin_arr_def depr_capex_arr_def amortization_margin_arr_def working_capital_margin_arr_def margin_def tax_rates_unused_extraction [OF assms] tax_rates_unused_derived [OF assms] tax_rates_unused_capex_margin [OF assms])

lemma tax_rates_unused_drivers:
  assumes "length vs = length a"
  shows
    "sales_growth_arr_extended cfg (with_reported_tax_rates a vs) = sales_growth_arr_extended cfg a"
    and "cogs_margin_arr_extended cfg (with_reported_tax_rates a vs) = cogs_margin_arr_extended cfg a"
    and "other_oper_inc_margin_arr_extended cfg (with_reported_tax_rates a vs) = other_oper_inc_margin_arr_extended cfg a"
    and "sga_margin_arr_extended cfg (with_reported_tax_rates a vs) = sga_margin_arr_extended cfg a"
    and "rd_margin_arr_extended cfg (with_reported_tax_rates a vs) = rd_margin_arr_extended cfg a"
    and "other_oper_exp_margin_arr_extended cfg (with_reported_tax_rates a vs) = other_oper_exp_margin_arr_extended cfg a"
    and "effective_tax_rate_arr_extended cfg (with_reported_tax_rates a vs) = effective_tax_rate_arr_extended cfg a"
    and "capex_margin_arr_extended cfg (with_reported_tax_rates a vs) = capex_margin_arr_extended cfg a"
    and "depr_capex_arr_extended cfg (with_reported_tax_rates a vs) = depr_capex_arr_extended cfg a"
    and "amortization_margin_arr_extended cfg (with_reported_tax_rates a vs) = amortization_margin_arr_extended cfg a"
    and "working_capital_margin_arr_extended cfg (with_reported_tax_rates a vs) = working_capital_margin_arr_extended cfg a"
  by (simp_all only: sales_growth_arr_extended_def cogs_margin_arr_extended_def other_oper_inc_margin_arr_extended_def sga_margin_arr_extended_def rd_margin_arr_extended_def other_oper_exp_margin_arr_extended_def effective_tax_rate_arr_extended_def capex_margin_arr_extended_def depr_capex_arr_extended_def amortization_margin_arr_extended_def working_capital_margin_arr_extended_def tax_rates_unused_extraction [OF assms] tax_rates_unused_derived [OF assms] tax_rates_unused_checks [OF assms] tax_rates_unused_capex_margin [OF assms] tax_rates_unused_margins [OF assms])

lemma tax_rates_unused_forecast:
  assumes "length vs = length a"
  shows
    "sales_forecast_arr cfg (with_reported_tax_rates a vs) = sales_forecast_arr cfg a"
    and "cogs_forecast_arr cfg (with_reported_tax_rates a vs) = cogs_forecast_arr cfg a"
    and "gross_profit_forecast_arr cfg (with_reported_tax_rates a vs) = gross_profit_forecast_arr cfg a"
    and "other_oper_inc_forecast_arr cfg (with_reported_tax_rates a vs) = other_oper_inc_forecast_arr cfg a"
    and "sga_forecast_arr cfg (with_reported_tax_rates a vs) = sga_forecast_arr cfg a"
    and "rd_forecast_arr cfg (with_reported_tax_rates a vs) = rd_forecast_arr cfg a"
    and "other_oper_exp_forecast_arr cfg (with_reported_tax_rates a vs) = other_oper_exp_forecast_arr cfg a"
    and "oper_exp_forecast_arr cfg (with_reported_tax_rates a vs) = oper_exp_forecast_arr cfg a"
    and "ebit_forecast_arr cfg (with_reported_tax_rates a vs) = ebit_forecast_arr cfg a"
    and "nopat_forecast_arr cfg (with_reported_tax_rates a vs) = nopat_forecast_arr cfg a"
    and "capex_forecast_arr cfg (with_reported_tax_rates a vs) = capex_forecast_arr cfg a"
    and "depreciation_forecast_arr cfg (with_reported_tax_rates a vs) = depreciation_forecast_arr cfg a"
    and "amortization_forecast_arr cfg (with_reported_tax_rates a vs) = amortization_forecast_arr cfg a"
    and "working_capital_forecast_arr cfg (with_reported_tax_rates a vs) = working_capital_forecast_arr cfg a"
    and "change_in_working_capital_forecast_arr cfg (with_reported_tax_rates a vs) = change_in_working_capital_forecast_arr cfg a"
  by (simp_all only: sales_forecast_arr_def cogs_forecast_arr_def gross_profit_forecast_arr_def other_oper_inc_forecast_arr_def sga_forecast_arr_def rd_forecast_arr_def other_oper_exp_forecast_arr_def oper_exp_forecast_arr_def ebit_forecast_arr_def nopat_forecast_arr_def capex_forecast_arr_def depreciation_forecast_arr_def amortization_forecast_arr_def working_capital_forecast_arr_def change_in_working_capital_forecast_arr_def combine_def tax_rates_unused_extraction [OF assms] tax_rates_unused_derived [OF assms] tax_rates_unused_checks [OF assms] tax_rates_unused_capex_margin [OF assms] tax_rates_unused_margins [OF assms] tax_rates_unused_drivers [OF assms])

lemma tax_rates_unused_valuation:
  assumes "length vs = length a"
  shows
    "fcf_forecast_arr_all cfg (with_reported_tax_rates a vs) = fcf_forecast_arr_all cfg a"
    and "fcf_forecast_arr cfg (with_reported_tax_rates a vs) = fcf_forecast_arr cfg a"
    and "pv_forecasted_fcf_arr cfg (with_reported_tax_rates a vs) = pv_forecasted_fcf_arr cfg a"
    and "pv_forecasted_fcf_sum cfg (with_reported_tax_rates a vs) = pv_forecasted_fcf_sum cfg a"
    and "terminal_value cfg (with_reported_tax_rates a vs) = terminal_value cfg a"
    and "pv_terminal_value cfg (with_reported_tax_rates a vs) = pv_terminal_value cfg a"
    and "enterprise_value cfg (with_reported_tax_rates a vs) = enterprise_value cfg a"
    and "equity_value cfg (with_reported_tax_rates a vs) = equity_value cfg a"
    and "share_value cfg (with_reported_tax_rates a vs) = share_value cfg a"
  by (simp_all only: fcf_forecast_arr_all_def fcf_forecast_arr_def pv_forecasted_fcf_arr_def pv_forecasted_fcf_sum_def terminal_value_def pv_terminal_value_def enterprise_value_def equity_value_def share_value_def tax_rates_unused_extraction [OF assms] tax_rates_unused_derived [OF assms] tax_rates_unused_checks [OF assms] tax_rates_unused_capex_margin [OF assms] tax_rates_unused_margins [OF assms] tax_rates_unused_drivers [OF assms] tax_rates_unused_forecast [OF assms])

lemma list_all2_rows:
  "list_all2 P (map f a) (map g a) = list_all (\<lambda>r. P (f r) (g r)) a"
  by (induction a) simp_all

lemma divide_by_100_array1:
  "divide_by_100 (Some (array1 xs)) = Inr (array1 (map (\<lambda>x. fdiv x (Fin 100)) xs))"
  by (simp add: divide_by_100_def array1_def)

lemma allclose_array1:
  "length xs = length ys \<Longrightarrow>
   allclose (Some (array1 xs)) (array1 ys) = Inr (list_all2 isclose xs ys)"
  by (simp add: allclose_def array1_def)

lemma flat_glide: "fadd l (fmul (Fin k) (fdiv (fsub l l) (Fin n))) = l"
  by (cases l) simp_all

lemma recomputed_tax_rate:
  assumes "a \<noteq> []"
  shows "calculated_effective_tax_rate_arr a =
     Inr (array1 (map (\<lambda>r. if PRETAX_INC r \<noteq> Fin 0
                              then fdiv (IS_INC_TAX_EXP r) (PRETAX_INC r) else NaN) a))"
  using assms
  by (simp add: calculated_effective_tax_rate_arr_def tax_exp_arr_def pretax_inc_arr_def
      dfcol2numpy_Cons array_arithmetic_literals shape_array1 rows_combined)

lemma extended_tax_rate:
  assumes "a \<noteq> []" and "0 < N_FORECAST_YEARS cfg"
  shows "effective_tax_rate_arr_extended cfg a =
     Inr (array1 (map (\<lambda>r. if PRETAX_INC r \<noteq> Fin 0
                              then fdiv (IS_INC_TAX_EXP r) (PRETAX_INC r) else NaN) a
                  @ replicate (nat (N_FORECAST_YEARS cfg))
                      (if PRETAX_INC (last a) \<noteq> Fin 0
                       then fdiv (IS_INC_TAX_EXP (last a)) (PRETAX_INC (last a)) else NaN)))"
  using assms
  by (simp add: effective_tax_rate_arr_extended_def recomputed_tax_rate last_of_def
      item_array1_last glide_array1 flat_glide upto_const_replicate last_map)

lemma reported_rows:
  assumes "a \<noteq> []"
  shows "amortization_arr a = Some (array1 (map (\<lambda>r. fsub (EBITA r) (IS_OPER_INC r)) a))"
    and "calculated_oper_inc_arr a =
      Inr (array1 (map (\<lambda>r. fadd (GROSS_PROFIT r)
                               (fsub (IS_OTHER_OPER_INC r) (IS_OPERATING_EXPN r))) a))"
    and "depr_capex_arr a =
      Inr (array1 (map (\<lambda>r. if fmul (fdiv (CAP_EXPEND_TO_SALES r) (Fin 100)) (SALES_REV_TURN r)
                                  \<noteq> Fin 0
                              then fdiv (IS_DEPR_EXP r)
                                     (fmul (fdiv (CAP_EXPEND_TO_SALES r) (Fin 100))
                                        (SALES_REV_TURN r))
                              else NaN) a))"
  using assms
  by (simp_all add: amortization_arr_def ebita_arr_def oper_inc_arr_def
      calculated_oper_inc_arr_def gp_arr_def other_oper_inc_arr_def oper_exp_arr_def
      depr_capex_arr_def capex_margin_arr_def sales_arr_def depreciation_arr_def
      divide_by_100_array1 dfcol2numpy_Cons array_arithmetic_literals shape_array1
      rows_combined comp_def)

lemma checks_are_flags:
  assumes "a \<noteq> []"
  shows "check_gross_margin_arr a =
      Inr (list_all (\<lambda>r. isclose (GROSS_PROFIT r)
             (fsub (SALES_REV_TURN r) (IS_COG_AND_SERVICES_SOLD r))) a)"
    and "check_oper_exp_arr a =
      Inr (list_all (\<lambda>r. isclose (IS_OPERATING_EXPN r)
             (fadd (fadd (IS_SGA_EXPENSE r) (IS_OPERATING_EXPENSES_RD r))
                (IS_OTHER_OPERATING_EXPENSES r))) a)"
    and "check_oper_inc_arr a =
      Inr (list_all (\<lambda>r. isclose (IS_OPER_INC r)
             (fadd (GROSS_PROFIT r) (fsub (IS_OTHER_OPER_INC r) (IS_OPERATING_EXPN r)))) a)"
    and "check_effective_tax_rate_arr a =
      Inr (list_all (\<lambda>r. isclose (fdiv (EFF_TAX_RATE r) (Fin 100))
             (if PRETAX_INC r \<noteq> Fin 0 then fdiv (IS_INC_TAX_EXP r) (PRETAX_INC r) else NaN)) a)"
    and "check_depreciation_arr a =
      Inr (list_all (\<lambda>r. isclose (IS_DEPR_EXP r) (fsub (EBITDA r) (EBITA r))) a)"
  using assms list_all2_rows [of isclose _ a, symmetric]
  by (simp_all add: check_gross_margin_arr_def calculated_gross_profit_arr_def sales_arr_def
      cogs_arr_def gp_arr_def check_oper_exp_arr_def calculated_oper_exp_arr_def sga_exp_arr_def
      rd_exp_arr_def other_oper_exp_arr_def oper_exp_arr_def check_oper_inc_arr_def
      reported_rows(2) oper_inc_arr_def check_effective_tax_rate_arr_def
      effective_tax_rate_arr_def recomputed_tax_rate check_depreciation_arr_def
      calculated_depreciation_arr_def ebitda_arr_def ebita_arr_def depreciation_arr_def
      divide_by_100_array1 dfcol2numpy_Cons array_arithmetic_literals shape_array1
      rows_combined allclose_array1 list_all2_rows comp_def)

lemma nopat_from_extended_rate:
  assumes "ebit_forecast_arr cfg a = Inr ebit"
    and "effective_tax_rate_arr_extended cfg a = Inr rate"
    and "shape ebit = shape rate"
  shows "nopat_forecast_arr cfg a = Inr (np_multiply ebit (one_minus rate))"
  using assms
  by (simp add: nopat_forecast_arr_def array_arithmetic_literals one_minus_def)

lemma with_reported_tax_rates_Nil: "length vs = length a \<Longrightarrow> with_reported_tax_rates a vs = [] \<longleftrightarrow> a = []"
  by (cases a; cases vs) simp_all

lemma reported_tax_rate_check:
  assumes "a \<noteq> []" and "length vs = length a"
  shows "effective_tax_rate_arr (with_reported_tax_rates a vs) =
      Inr (array1 (map (\<lambda>v. fdiv v (Fin 100)) vs))"
    and "check_effective_tax_rate_arr (with_reported_tax_rates a vs) =
      Inr (list_all2 isclose (map (\<lambda>v. fdiv v (Fin 100)) vs)
             (map (\<lambda>r. if PRETAX_INC r \<noteq> Fin 0
                        then fdiv (IS_INC_TAX_EXP r) (PRETAX_INC r) else NaN) a))"
proof -
  have ne: "with_reported_tax_rates a vs \<noteq> []"
    using assms(1) with_reported_tax_rates_Nil [OF assms(2)] by blast
  have col: "map EFF_TAX_RATE (with_reported_tax_rates a vs) = vs"
    using assms(2) by (intro nth_equalityI) simp_all
  show e: "effective_tax_rate_arr (with_reported_tax_rates a vs) =
      Inr (array1 (map (\<lambda>v. fdiv v (Fin 100)) vs))"
    using ne col by (simp add: effective_tax_rate_arr_def dfcol2numpy_Cons divide_by_100_array1)
  show "check_effective_tax_rate_arr (with_reported_tax_rates a vs) =
      Inr (list_all2 isclose (map (\<lambda>v. fdiv v (Fin 100)) vs)
             (map (\<lambda>r. if PRETAX_INC r \<noteq> Fin 0
                        then fdiv (IS_INC_TAX_EXP r) (PRETAX_INC r) else NaN) a))"
    unfolding check_effective_tax_rate_arr_def e
      tax_rates_unused_checks(7) [OF assms(2)] recomputed_tax_rate [OF assms(1)]
    using assms(2) by (simp add: allclose_array1)
qed

lemma statements_without_tax_rates:
  assumes "length vs = length a"
  shows "statements cfg (with_reported_tax_rates a vs) = statements cfg a"
proof (cases "a = []")
  case True
  then show ?thesis by simp
next
  case False
  have "stops (effective_tax_rate_arr (with_reported_tax_rates a vs)) = stops (effective_tax_rate_arr a)"
    using False assms with_reported_tax_rates_Nil [OF assms]
    by (simp add: effective_tax_rate_arr_def dfcol2numpy_Cons divide_by_100_array1 stops_def)
  moreover have "stops (check_effective_tax_rate_arr (with_reported_tax_rates a vs)) =
      stops (check_effective_tax_rate_arr a)"
    using reported_tax_rate_check(2) [OF False assms] checks_are_flags(4) [OF False]
    by (simp add: stops_def)
  ultimately show ?thesis
    by (simp only: statements_def tax_rates_unused_extraction [OF assms]
        tax_rates_unused_derived [OF assms] tax_rates_unused_checks [OF assms]
        tax_rates_unused_capex_margin [OF assms] tax_rates_unused_margins [OF assms]
        tax_rates_unused_drivers [OF assms] tax_rates_unused_forecast [OF assms]
        tax_rates_unused_valuation [OF assms])
qed

lemma changes_length: "changes prev xs = Inr cs \<Longrightarrow> length cs = length xs"
proof (induction xs arbitrary: prev cs)
  case Nil
  then show ?case by simp
next
  case (Cons x xs)
  then show ?case
    by (auto simp: and_then_def split: sum.splits)
qed

lemma pct_change_length: "pct_change xs = Inr gs \<Longrightarrow> length gs = length xs"
  by (cases xs) (auto simp: pct_change_def and_then_def dest: changes_length split: if_splits sum.splits)

lemma dcf_actuals_length: "dcf_actuals df = Inr a \<Longrightarrow> length a = length df"
  by (auto simp: dcf_actuals_def and_then_def dest: pct_change_length split: sum.splits)

lemma dcf_actuals_with_reported_tax_rates:
  assumes "length vs = length df"
  shows "dcf_actuals (with_reported_tax_rates df vs) =
     map_sum id (\<lambda>a. with_reported_tax_rates a vs) (dcf_actuals df)"
proof -
  have sales: "map SALES_REV_TURN (with_reported_tax_rates df vs) = map SALES_REV_TURN df"
    using assms by (intro nth_equalityI) simp_all
  show ?thesis
  proof (cases "pct_change (map SALES_REV_TURN df)")
    case (Inl s)
    then show ?thesis unfolding dcf_actuals_def sales by simp
  next
    case (Inr growth)
    then have len: "length growth = length df"
      using pct_change_length by fastforce
    have "map2 (\<lambda>r g. r\<lparr>sales_growth := g\<rparr>) (with_reported_tax_rates df vs) growth =
        with_reported_tax_rates (map2 (\<lambda>r g. r\<lparr>sales_growth := g\<rparr>) df growth) vs"
      using len assms by (intro nth_equalityI) simp_all
    with Inr show ?thesis unfolding dcf_actuals_def sales by simp
  qed
qed

lemma map_sum_and_then:
  "map_sum id f (and_then x k) = and_then x (\<lambda>v. map_sum id f (k v))"
  by (cases x) simp_all

lemma dcf_without_tax_rates:
  assumes "length vs = length df"
  shows "map_sum id (\<lambda>out. out\<lparr>checks_passed := (checks_passed out)[3 := True]\<rparr>)
           (dcf cfg (with_reported_tax_rates df vs) price) =
         map_sum id (\<lambda>out. out\<lparr>checks_passed := (checks_passed out)[3 := True]\<rparr>)
           (dcf cfg df price)"
proof (cases "dcf_actuals df")
  case (Inl s)
  then show ?thesis
    by (simp add: dcf_def dcf_actuals_with_reported_tax_rates [OF assms])
next
  case (Inr a)
  then have len: "length vs = length a"
    using assms dcf_actuals_length by fastforce
  show ?thesis
  proof (cases "a = []")
    case True
    with Inr show ?thesis
      by (simp add: dcf_def dcf_actuals_with_reported_tax_rates [OF assms])
  next
    case False
    note flag = reported_tax_rate_check(2) [OF False len] checks_are_flags(4) [OF False]
    show ?thesis
      unfolding dcf_def dcf_actuals_with_reported_tax_rates [OF assms] Inr
      by (simp add: statements_without_tax_rates [OF len] map_sum_and_then flag
          tax_rates_unused_checks [OF len] tax_rates_unused_valuation [OF len]
          split: option.split)
  qed
qed

lemma lines_other_column:
  assumes "length gs = length a" and "length es = length a"
    and "\<And>r g e. col (r\<lparr>GROSS_PROFIT := g, IS_OPERATING_EXPN := e\<rparr>) = col r"
  shows "dfcol2numpy col (with_reported_lines a gs es) = dfcol2numpy col a"
proof -
  have "map col (with_reported_lines a gs es) = map col a"
    using assms by (intro nth_equalityI) simp_all
  moreover have "with_reported_lines a gs es = [] \<longleftrightarrow> a = []"
    using assms(1,2) by (cases a; cases gs; cases es) simp_all
  ultimately show ?thesis by (simp add: dfcol2numpy_def)
qed

lemma lines_unused_extraction:
  assumes "length gs = length a" and "length es = length a"
  shows
    "sales_arr (with_reported_lines a gs es) = sales_arr a"
    and "sales_growth_arr (with_reported_lines a gs es) = sales_growth_arr a"
    and "cogs_arr (with_reported_lines a gs es) = cogs_arr a"
    and "other_oper_inc_arr (with_reported_lines a gs es) = other_oper_inc_arr a"
    and "other_oper_exp_arr (with_reported_lines a gs es) = other_oper_exp_arr a"
    and "sga_exp_arr (with_reported_lines a gs es) = sga_exp_arr a"
    and "rd_exp_arr (with_reported_lines a gs es) = rd_exp_arr a"
    and "oper_inc_arr (with_reported_lines a gs es) = oper_inc_arr a"
    and "pretax_inc_arr (with_reported_lines a gs es) = pretax_inc_arr a"
    and "tax_exp_arr (with_reported_lines a gs es) = tax_exp_arr a"
    and "capital_expenditure_arr (with_reported_lines a gs es) = capital_expenditure_arr a"
    and "ebitda_arr (with_reported_lines a gs es) = ebitda_arr a"
    and "ebita_arr (with_reported_lines a gs es) = ebita_arr a"
    and "depreciation_arr (with_reported_lines a gs es) = depreciation_arr a"
    and "total_current_assets_arr (with_reported_lines a gs es) = total_current_assets_arr a"
    and "total_current_liabilities_arr (with_reported_lines a gs es) = total_current_liabilities_arr a"
    and "st_debt_arr (with_reported_lines a gs es) = st_debt_arr a"
    and "stlt_debt_arr (with_reported_lines a gs es) = stlt_debt_arr a"
    and "lt_debt_arr (with_reported_lines a gs es) = lt_debt_arr a"
    and "preferred_equity_arr (with_reported_lines a gs es) = preferred_equity_arr a"
    and "minority_interest_arr (with_reported_lines a gs es) = minority_interest_arr a"
    and "cash_and_equivalents_arr (with_reported_lines a gs es) = cash_and_equivalents_arr a"
    and "shares_out_arr (with_reported_lines a gs es) = shares_out_arr a"
  by (simp_all add: sales_arr_def sales_growth_arr_def cogs_arr_def other_oper_inc_arr_def other_oper_exp_arr_def sga_exp_arr_def rd_exp_arr_def oper_inc_arr_def pretax_inc_arr_def tax_exp_arr_def capital_expenditure_arr_def ebitda_arr_def ebita_arr_def depreciation_arr_def total_current_assets_arr_def total_current_liabilities_arr_def st_debt_arr_def stlt_debt_arr_def lt_debt_arr_def preferred_equity_arr_def minority_interest_arr_def cash_and_equivalents_arr_def shares_out_arr_def
      lines_other_column [OF assms])

lemma lines_unused_derived:
  assumes "length gs = length a" and "length es = length a"
  shows
    "amortization_arr (with_reported_lines a gs es) = amortization_arr a"
    and "working_capital_arr (with_reported_lines a gs es) = working_capital_arr a"
    and "total_debt_arr (with_reported_lines a gs es) = total_debt_arr a"
  by (simp_all only: amortization_arr_def working_capital_arr_def total_debt_arr_def lines_unused_extraction [OF assms])

lemma lines_unused_checks:
  assumes "length gs = length a" and "length es = length a"
  shows
    "calculated_gross_profit_arr (with_reported_lines a gs es) = calculated_gross_profit_arr a"
    and "calculated_oper_exp_arr (with_reported_lines a gs es) = calculated_oper_exp_arr a"
    and "calculated_effective_tax_rate_arr (with_reported_lines a gs es) = calculated_effective_tax_rate_arr a"
    and "calculated_depreciation_arr (with_reported_lines a gs es) = calculated_depreciation_arr a"
    and "check_depreciation_arr (with_reported_lines a gs es) = check_depreciation_arr a"
  by (simp_all only: calculated_gross_profit_arr_def calculated_oper_exp_arr_def calculated_effective_tax_rate_arr_def calculated_depreciation_arr_def check_depreciation_arr_def lines_unused_extraction [OF assms] lines_unused_derived [OF assms])

lemma lines_unused_capex_margin:
  assumes "length gs = length a" and "length es = length a"
  shows "capex_margin_arr (with_reported_lines a gs es) = capex_margin_arr a"
  by (simp add: capex_margin_arr_def lines_other_column [OF assms])

lemma lines_unused_margins:
  assumes "length gs = length a" and "length es = length a"
  shows
    "cogs_margin_arr (with_reported_lines a gs es) = cogs_margin_arr a"
    and "other_oper_inc_margin_arr (with_reported_lines a gs es) = other_oper_inc_margin_arr a"
    and "other_oper_exp_margin_arr (with_reported_lines a gs es) = other_oper_exp_margin_arr a"
    and "sga_margin_arr (with_reported_lines a gs es) = sga_margin_arr a"
    and "rd_margin_arr (with_reported_lines a gs es) = rd_margin_arr a"
    and "depr_capex_arr (with_reported_lines a gs es) = depr_capex_arr a"
    and "amortization_margin_arr (with_reported_lines a gs es) = amortization_margin_arr a"
    and "working_capital_margin_arr (with_reported_lines a gs es) = working_capital_margin_arr a"
  by (simp_all only: cogs_margin_arr_def other_oper_inc_margin_arr_def other_oper_exp_margin_arr_def sga_margin_arr_def rd_margin_arr_def depr_capex_arr_def amortization_margin_arr_def working_capital_margin_arr_def margin_def lines_unused_extraction [OF assms] lines_unused_derived [OF assms] lines_unused_capex_margin [OF assms])

lemma lines_unused_drivers:
  assumes "length gs = length a" and "length es = length a"
  shows
    "sales_growth_arr_extended cfg (with_reported_lines a gs es) = sales_growth_arr_extended cfg a"
    and "cogs_margin_arr_extended cfg (with_reported_lines a gs es) = cogs_margin_arr_extended cfg a"
    and "other_oper_inc_margin_arr_extended cfg (with_reported_lines a gs es) = other_oper_inc_margin_arr_extended cfg a"
    and "sga_margin_arr_extended cfg (with_reported_lines a gs es) = sga_margin_arr_extended cfg a"
    and "rd_margin_arr_extended cfg (with_reported_lines a gs es) = rd_margin_arr_extended cfg a"
    and "other_oper_exp_margin_arr_extended cfg (with_reported_lines a gs es) = other_oper_exp_margin_arr_extended cfg a"
    and "effective_tax_rate_arr_extended cfg (with_reported_lines a gs es) = effective_tax_rate_arr_extended cfg a"
    and "capex_margin_arr_extended cfg (with_reported_lines a gs es) = capex_margin_arr_extended cfg a"
    and "depr_capex_arr_extended cfg (with_reported_lines a gs es) = depr_capex_arr_extended cfg a"
    and "amortization_margin_arr_extended cfg (with_reported_lines a gs es) = amortization_margin_arr_extended cfg a"
    and "working_capital_margin_arr_extended cfg (with_reported_lines a gs es) = working_capital_margin_arr_extended cfg a"
  by (simp_all only: sales_growth_arr_extended_def cogs_margin_arr_extended_def other_oper_inc_margin_arr_extended_def sga_margin_arr_extended_def rd_margin_arr_extended_def other_oper_exp_margin_arr_extended_def effective_tax_rate_arr_extended_def capex_margin_arr_extended_def depr_capex_arr_extended_def amortization_margin_arr_extended_def working_capital_margin_arr_extended_def lines_unused_extraction [OF assms] lines_unused_derived [OF assms] lines_unused_checks [OF assms] lines_unused_capex_margin [OF assms] lines_unused_margins [OF assms])

lemma lines_unused_forecast:
  assumes "length gs = length a" and "length es = length a"
  shows
    "sales_forecast_arr cfg (with_reported_lines a gs es) = sales_forecast_arr cfg a"
    and "cogs_forecast_arr cfg (with_reported_lines a gs es) = cogs_forecast_arr cfg a"
    and "gross_profit_forecast_arr cfg (with_reported_lines a gs es) = gross_profit_forecast_arr cfg a"
    and "other_oper_inc_forecast_arr cfg (with_reported_lines a gs es) = other_oper_inc_forecast_arr cfg a"
    and "sga_forecast_arr cfg (with_reported_lines a gs es) = sga_forecast_arr cfg a"
    and "rd_forecast_arr cfg (with_reported_lines a gs es) = rd_forecast_arr cfg a"
    and "other_oper_exp_forecast_arr cfg (with_reported_lines a gs es) = other_oper_exp_forecast_arr cfg a"
    and "oper_exp_forecast_arr cfg (with_reported_lines a gs es) = oper_exp_forecast_arr cfg a"
    and "ebit_forecast_arr cfg (with_reported_lines a gs es) = ebit_forecast_arr cfg a"
    and "nopat_forecast_arr cfg (with_reported_lines a gs es) = nopat_forecast_arr cfg a"
    and "capex_forecast_arr cfg (with_reported_lines a gs es) = capex_forecast_arr cfg a"
    and "depreciation_forecast_arr cfg (with_reported_lines a gs es) = depreciation_forecast_arr cfg a"
    and "amortization_forecast_arr cfg (with_reported_lines a gs es) = amortization_forecast_arr cfg a"
    and "working_capital_forecast_arr cfg (with_reported_lines a gs es) = working_capital_forecast_arr cfg a"
    and "change_in_working_capital_forecast_arr cfg (with_reported_lines a gs es) = change_in_working_capital_forecast_arr cfg a"
  by (simp_all only: sales_forecast_arr_def cogs_forecast_arr_def gross_profit_forecast_arr_def other_oper_inc_forecast_arr_def sga_forecast_arr_def rd_forecast_arr_def other_oper_exp_forecast_arr_def oper_exp_forecast_arr_def ebit_forecast_arr_def nopat_forecast_arr_def capex_forecast_arr_def depreciation_forecast_arr_def amortization_forecast_arr_def working_capital_forecast_arr_def change_in_working_capital_forecast_arr_def combine_def lines_unused_extraction [OF assms] lines_unused_derived [OF assms] lines_unused_checks [OF assms] lines_unused_capex_margin [OF assms] lines_unused_margins [OF assms] lines_unused_drivers [OF assms])

lemma lines_unused_valuation:
  assumes "length gs = length a" and "length es = length a"
  shows
    "fcf_forecast_arr_all cfg (with_reported_lines a gs es) = fcf_forecast_arr_all cfg a"
    and "fcf_forecast_arr cfg (with_reported_lines a gs es) = fcf_forecast_arr cfg a"
    and "pv_forecasted_fcf_arr cfg (with_reported_lines a gs es) = pv_forecasted_fcf_arr cfg a"
    and "pv_forecasted_fcf_sum cfg (with_reported_lines a gs es) = pv_forecasted_fcf_sum cfg a"
    and "terminal_value cfg (with_reported_lines a gs es) = terminal_value cfg a"
    and "pv_terminal_value cfg (with_reported_lines a gs es) = pv_terminal_value cfg a"
    and "enterprise_value cfg (with_reported_lines a gs es) = enterprise_value cfg a"
    and "equity_value cfg (with_reported_lines a gs es) = equity_value cfg a"
    and "share_value cfg (with_reported_lines a gs es) = share_value cfg a"
  by (simp_all only: fcf_forecast_arr_all_def fcf_forecast_arr_def pv_forecasted_fcf_arr_def pv_forecasted_fcf_sum_def terminal_value_def pv_terminal_value_def enterprise_value_def equity_value_def share_value_def lines_unused_extraction [OF assms] lines_unused_derived [OF assms] lines_unused_checks [OF assms] lines_unused_capex_margin [OF assms] lines_unused_margins [OF assms] lines_unused_drivers [OF assms] lines_unused_forecast [OF assms])


lemma lines_unused_tax_check:
  assumes "length gs = length a" and "length es = length a"
  shows "effective_tax_rate_arr (with_reported_lines a gs es) = effective_tax_rate_arr a"
    and "check_effective_tax_rate_arr (with_reported_lines a gs es) = check_effective_tax_rate_arr a"
  by (simp_all add: effective_tax_rate_arr_def check_effective_tax_rate_arr_def
      lines_other_column [OF assms] lines_unused_checks(3) [OF assms])

lemma with_reported_lines_Nil:
  "length gs = length a \<Longrightarrow> length es = length a \<Longrightarrow> with_reported_lines a gs es = [] \<longleftrightarrow> a = []"
  by (cases a; cases gs; cases es) simp_all

lemma statements_without_lines:
  assumes "length gs = length a" and "length es = length a"
  shows "statements cfg (with_reported_lines a gs es) = statements cfg a"
proof (cases "a = []")
  case True
  then show ?thesis by simp
next
  case False
  then have ne: "with_reported_lines a gs es \<noteq> []"
    using with_reported_lines_Nil [OF assms] by blast
  have "stops (check_gross_margin_arr (with_reported_lines a gs es)) = stops (check_gross_margin_arr a)"
    and "stops (check_oper_exp_arr (with_reported_lines a gs es)) = stops (check_oper_exp_arr a)"
    and "stops (calculated_oper_inc_arr (with_reported_lines a gs es)) = stops (calculated_oper_inc_arr a)"
    and "stops (check_oper_inc_arr (with_reported_lines a gs es)) = stops (check_oper_inc_arr a)"
    unfolding checks_are_flags(1,2,3) [OF False] checks_are_flags(1,2,3) [OF ne]
      reported_rows(2) [OF False] reported_rows(2) [OF ne]
    by (simp_all add: stops_def)
  then show ?thesis
    by (simp only: statements_def lines_unused_extraction [OF assms]
        lines_unused_derived [OF assms] lines_unused_checks [OF assms]
        lines_unused_tax_check [OF assms]
        lines_unused_capex_margin [OF assms] lines_unused_margins [OF assms]
        lines_unused_drivers [OF assms] lines_unused_forecast [OF assms]
        lines_unused_valuation [OF assms])
qed

lemma dcf_actuals_with_reported_lines:
  assumes "length gs = length df" and "length es = length df"
  shows "dcf_actuals (with_reported_lines df gs es) =
     map_sum id (\<lambda>a. with_reported_lines a gs es) (dcf_actuals df)"
proof -
  have sales: "map SALES_REV_TURN (with_reported_lines df gs es) = map SALES_REV_TURN df"
    using assms by (intro nth_equalityI) simp_all
  show ?thesis
  proof (cases "pct_change (map SALES_REV_TURN df)")
    case (Inl s)
    then show ?thesis unfolding dcf_actuals_def sales by simp
  next
    case (Inr growth)
    then have len: "length growth = length df"
      using pct_change_length by fastforce
    have "map2 (\<lambda>r g. r\<lparr>sales_growth := g\<rparr>) (with_reported_lines df gs es) growth =
        with_reported_lines (map2 (\<lambda>r g. r\<lparr>sales_growth := g\<rparr>) df growth) gs es"
      using len assms by (intro nth_equalityI) simp_all
    with Inr show ?thesis unfolding dcf_actuals_def sales by simp
  qed
qed


lemma dcf_without_lines:
  assumes "length gs = length df" and "length es = length df"
  shows "map_sum id (\<lambda>out. out\<lparr>checks_passed := (checks_passed out)[0 := True, 1 := True, 2 := True]\<rparr>)
           (dcf cfg (with_reported_lines df gs es) price) =
         map_sum id (\<lambda>out. out\<lparr>checks_passed := (checks_passed out)[0 := True, 1 := True, 2 := True]\<rparr>)
           (dcf cfg df price)"
proof (cases "dcf_actuals df")
  case (Inl s)
  then show ?thesis
    by (simp add: dcf_def dcf_actuals_with_reported_lines [OF assms])
next
  case (Inr a)
  then have len: "length gs = length a" "length es = length a"
    using assms dcf_actuals_length by fastforce+
  show ?thesis
  proof (cases "a = []")
    case True
    with Inr show ?thesis
      by (simp add: dcf_def dcf_actuals_with_reported_lines [OF assms])
  next
    case False
    then have ne: "with_reported_lines a gs es \<noteq> []"
      using with_reported_lines_Nil [OF len] by blast
    note flags = checks_are_flags(1,2,3) [OF False] checks_are_flags(1,2,3) [OF ne]
    show ?thesis
      unfolding dcf_def dcf_actuals_with_reported_lines [OF assms] Inr
      by (simp add: statements_without_lines [OF len] map_sum_and_then flags
          lines_unused_checks [OF len] lines_unused_tax_check [OF len]
          lines_unused_valuation [OF len]
          split: option.split)
  qed
qed

lemma amortization_margin_rows:
  assumes "a \<noteq> []"
  shows "amortization_margin_arr a =
     Inr (array1 (map (\<lambda>r. if SALES_REV_TURN r \<noteq> Fin 0
                              then fdiv (fsub (EBITA r) (IS_OPER_INC r)) (SALES_REV_TURN r)
                              else NaN) a))"
  using assms
  by (simp add: amortization_margin_arr_def margin_def sales_arr_def reported_rows(1)
      dfcol2numpy_Cons array_arithmetic_literals shape_array1 rows_combined)

lemma forecast_from_lines:
  "sales_forecast_arr cfg a = Inr sales \<Longrightarrow> amortization_margin_arr_extended cfg a = Inr m \<Longrightarrow>
   shape sales = shape m \<Longrightarrow> amortization_forecast_arr cfg a = Inr (np_multiply sales m)"
  "capex_forecast_arr cfg a = Inr capex \<Longrightarrow> depr_capex_arr_extended cfg a = Inr d \<Longrightarrow>
   shape capex = shape d \<Longrightarrow> depreciation_forecast_arr cfg a = Inr (np_multiply capex d)"
  by (simp_all add: amortization_forecast_arr_def depreciation_forecast_arr_def combine_def
      array_arithmetic_literals)

lemma fcf_from_lines:
  assumes "nopat_forecast_arr cfg a = Inr nopat"
    and "depreciation_forecast_arr cfg a = Inr depreciation"
    and "amortization_forecast_arr cfg a = Inr amortization"
    and "capex_forecast_arr cfg a = Inr capex"
    and "change_in_working_capital_forecast_arr cfg a = Inr change"
    and "shape depreciation = shape nopat" and "shape amortization = shape nopat"
    and "shape capex = shape nopat" and "shape change = shape nopat"
  shows "fcf_forecast_arr_all cfg a =
     Inr (np_subtract (np_subtract (np_add nopat (np_add depreciation amortization)) capex) change)"
  using assms
  by (simp add: fcf_forecast_arr_all_def array_arithmetic_literals np_add_def np_subtract_def)



text \<open>
  Claim C5, with the contrast as the script has it. For a non-empty frame and a
  horizon of at least one year:
  \<^item> the recomputed tax rate of a row is tax expense divided by pretax income (NaN
    where pretax income is zero), and the extended tax-rate driver is that recomputed
    series followed by copies of its last item: history, start value and end value all
    come from the recomputed series;
  \<^item> NOPAT is EBIT times one minus that driver;
  \<^item> replacing the reported column \<^verbatim>\<open>EFF_TAX_RATE\<close> by any values \<open>vs\<close> changes neither
    the driver, nor NOPAT, nor the free cash flow, nor the share value, nor whether
    and where the run stops; it changes only the flag of the tax-rate check, and a
    whole run differs at most in that flag;
  \<^item> replacing the reported columns \<^verbatim>\<open>GROSS_PROFIT\<close> and \<^verbatim>\<open>IS_OPERATING_EXPN\<close> by any
    values \<open>gs\<close> and \<open>es\<close> changes neither NOPAT, nor the free cash flow, nor the share
    value, nor whether and where the run stops; a whole run differs at most in the
    flags of the first three checks. The one later statement that reads the two
    columns is the recomputation of operating income, whose result is only compared
    with reported operating income;
  \<^item> reported operating income and reported depreciation are carried into the
    projection. Amortization is EBITA minus reported operating income; its margin to
    sales is extended flat at its mean and multiplied with the sales forecast. The
    depreciation-to-capex ratio is reported depreciation divided by capex; it glides
    from its last item to the terminal ratio and is multiplied with the capex
    forecast. The free cash flow is NOPAT plus depreciation plus amortization minus
    capex minus the change in working capital;
  \<^item> each of the checks yields a flag and never stops the run, whatever the flag.
\<close>

theorem effective_tax_rate_asymmetry:
  assumes "a \<noteq> []" and "length vs = length a" and "0 < N_FORECAST_YEARS cfg"
    and "length ws = length df"
    and "length gs = length a" and "length es = length a"
    and "length hs = length df" and "length ks = length df"
  shows
    "calculated_effective_tax_rate_arr a =
       Inr (array1 (map (\<lambda>r. if PRETAX_INC r \<noteq> Fin 0
                               then fdiv (IS_INC_TAX_EXP r) (PRETAX_INC r) else NaN) a)) \<and>
     effective_tax_rate_arr_extended cfg a =
       Inr (array1 (map (\<lambda>r. if PRETAX_INC r \<noteq> Fin 0
                               then fdiv (IS_INC_TAX_EXP r) (PRETAX_INC r) else NaN) a
                    @ replicate (nat (N_FORECAST_YEARS cfg))
                        (if PRETAX_INC (last a) \<noteq> Fin 0
                         then fdiv (IS_INC_TAX_EXP (last a)) (PRETAX_INC (last a)) else NaN))) \<and>
     (\<forall>ebit rate.
        ebit_forecast_arr cfg a = Inr ebit \<and> effective_tax_rate_arr_extended cfg a = Inr rate \<and>
        shape ebit = shape rate \<longrightarrow>
        nopat_forecast_arr cfg a = Inr (np_multiply ebit (one_minus rate))) \<and>
     effective_tax_rate_arr_extended cfg (with_reported_tax_rates a vs) =
       effective_tax_rate_arr_extended cfg a \<and>
     nopat_forecast_arr cfg (with_reported_tax_rates a vs) = nopat_forecast_arr cfg a \<and>
     fcf_forecast_arr cfg (with_reported_tax_rates a vs) = fcf_forecast_arr cfg a \<and>
     share_value cfg (with_reported_tax_rates a vs) = share_value cfg a \<and>
     statements cfg (with_reported_tax_rates a vs) = statements cfg a \<and>
     check_effective_tax_rate_arr (with_reported_tax_rates a vs) =
       Inr (list_all2 isclose (map (\<lambda>v. fdiv v (Fin 100)) vs)
              (map (\<lambda>r. if PRETAX_INC r \<noteq> Fin 0
                         then fdiv (IS_INC_TAX_EXP r) (PRETAX_INC r) else NaN) a)) \<and>
     map_sum id (\<lambda>out. out\<lparr>checks_passed := (checks_passed out)[3 := True]\<rparr>)
       (dcf cfg (with_reported_tax_rates df ws) price) =
     map_sum id (\<lambda>out. out\<lparr>checks_passed := (checks_passed out)[3 := True]\<rparr>)
       (dcf cfg df price) \<and>
     nopat_forecast_arr cfg (with_reported_lines a gs es) = nopat_forecast_arr cfg a \<and>
     fcf_forecast_arr_all cfg (with_reported_lines a gs es) = fcf_forecast_arr_all cfg a \<and>
     share_value cfg (with_reported_lines a gs es) = share_value cfg a \<and>
     statements cfg (with_reported_lines a gs es) = statements cfg a \<and>
     map_sum id (\<lambda>out. out\<lparr>checks_passed := (checks_passed out)[0 := True, 1 := True, 2 := True]\<rparr>)
       (dcf cfg (with_reported_lines df hs ks) price) =
     map_sum id (\<lambda>out. out\<lparr>checks_passed := (checks_passed out)[0 := True, 1 := True, 2 := True]\<rparr>)
       (dcf cfg df price) \<and>
     amortization_margin_arr a =
       Inr (array1 (map (\<lambda>r. if SALES_REV_TURN r \<noteq> Fin 0
                                then fdiv (fsub (EBITA r) (IS_OPER_INC r)) (SALES_REV_TURN r)
                                else NaN) a)) \<and>
     (\<forall>m. amortization_margin_arr a = Inr (array1 m) \<longrightarrow>
        amortization_margin_arr_extended cfg a =
          Inr (array1 (m @ replicate (nat (N_FORECAST_YEARS cfg)) (nanmean m)))) \<and>
     (\<forall>sales m.
        sales_forecast_arr cfg a = Inr sales \<and> amortization_margin_arr_extended cfg a = Inr m \<and>
        shape sales = shape m \<longrightarrow>
        amortization_forecast_arr cfg a = Inr (np_multiply sales m)) \<and>
     (\<forall>d. d \<noteq> [] \<and> depr_capex_arr a = Inr (array1 d) \<longrightarrow>
        depr_capex_arr_extended cfg a =
          Inr (array1 (d @ map (\<lambda>k. fadd (last d)
                                  (fmul (Fin (of_int k))
                                     (fdiv (fsub (TERMINAL_DEPR_TO_CAPEX_RATE cfg) (last d))
                                        (Fin (of_int (N_FORECAST_YEARS cfg))))))
                             [1..N_FORECAST_YEARS cfg]))) \<and>
     (\<forall>capex d.
        capex_forecast_arr cfg a = Inr capex \<and> depr_capex_arr_extended cfg a = Inr d \<and>
        shape capex = shape d \<longrightarrow>
        depreciation_forecast_arr cfg a = Inr (np_multiply capex d)) \<and>
     (\<forall>nopat depreciation amortization capex change.
        nopat_forecast_arr cfg a = Inr nopat \<and>
        depreciation_forecast_arr cfg a = Inr depreciation \<and>
        amortization_forecast_arr cfg a = Inr amortization \<and>
        capex_forecast_arr cfg a = Inr capex \<and>
        change_in_working_capital_forecast_arr cfg a = Inr change \<and>
        shape depreciation = shape nopat \<and> shape amortization = shape nopat \<and>
        shape capex = shape nopat \<and> shape change = shape nopat \<longrightarrow>
        fcf_forecast_arr_all cfg a =
          Inr (np_subtract
                 (np_subtract (np_add nopat (np_add depreciation amortization)) capex) change)) \<and>
     calculated_oper_inc_arr a =
       Inr (array1 (map (\<lambda>r. fadd (GROSS_PROFIT r)
                                (fsub (IS_OTHER_OPER_INC r) (IS_OPERATING_EXPN r))) a)) \<and>
     amortization_arr a = Some (array1 (map (\<lambda>r. fsub (EBITA r) (IS_OPER_INC r)) a)) \<and>
     depr_capex_arr a =
       Inr (array1 (map (\<lambda>r. if fmul (fdiv (CAP_EXPEND_TO_SALES r) (Fin 100)) (SALES_REV_TURN r)
                                   \<noteq> Fin 0
                               then fdiv (IS_DEPR_EXP r)
                                      (fmul (fdiv (CAP_EXPEND_TO_SALES r) (Fin 100))
                                         (SALES_REV_TURN r))
                               else NaN) a)) \<and>
     check_gross_margin_arr a =
       Inr (list_all (\<lambda>r. isclose (GROSS_PROFIT r)
              (fsub (SALES_REV_TURN r) (IS_COG_AND_SERVICES_SOLD r))) a) \<and>
     check_oper_exp_arr a =
       Inr (list_all (\<lambda>r. isclose (IS_OPERATING_EXPN r)
              (fadd (fadd (IS_SGA_EXPENSE r) (IS_OPERATING_EXPENSES_RD r))
                 (IS_OTHER_OPERATING_EXPENSES r))) a) \<and>
     check_oper_inc_arr a =
       Inr (list_all (\<lambda>r. isclose (IS_OPER_INC r)
              (fadd (GROSS_PROFIT r) (fsub (IS_OTHER_OPER_INC r) (IS_OPERATING_EXPN r)))) a) \<and>
     check_depreciation_arr a =
       Inr (list_all (\<lambda>r. isclose (IS_DEPR_EXP r) (fsub (EBITDA r) (EBITA r))) a)"
proof -
  note recomputed = recomputed_tax_rate [OF assms(1)] extended_tax_rate [OF assms(1,3)]
  have nopat: "\<forall>ebit rate.
        ebit_forecast_arr cfg a = Inr ebit \<and> effective_tax_rate_arr_extended cfg a = Inr rate \<and>
        shape ebit = shape rate \<longrightarrow>
        nopat_forecast_arr cfg a = Inr (np_multiply ebit (one_minus rate))"
    using nopat_from_extended_rate by blast
  note unused = tax_rates_unused_drivers(7) [OF assms(2)] tax_rates_unused_forecast(10) [OF assms(2)]
    tax_rates_unused_valuation(2,9) [OF assms(2)] statements_without_tax_rates [OF assms(2)]
  note check = reported_tax_rate_check(2) [OF assms(1,2)]
  note run = dcf_without_tax_rates [OF assms(4), of cfg price]
  note reported = reported_rows [OF assms(1)] checks_are_flags(1,2,3,5) [OF assms(1)]
  note lines = lines_unused_forecast(10) [OF assms(5,6)] lines_unused_valuation(1,9) [OF assms(5,6)]
    statements_without_lines [OF assms(5,6)] dcf_without_lines [OF assms(7,8), of cfg price]
  note margin = amortization_margin_rows [OF assms(1)]
  have flat: "\<forall>m. amortization_margin_arr a = Inr (array1 m) \<longrightarrow>
        amortization_margin_arr_extended cfg a =
          Inr (array1 (m @ replicate (nat (N_FORECAST_YEARS cfg)) (nanmean m)))"
    using assms(3)
    by (simp add: amortization_margin_arr_extended_def mean_of_def items_array1 glide_array1
        flat_glide upto_const_replicate)
  have am: "\<forall>sales m.
        sales_forecast_arr cfg a = Inr sales \<and> amortization_margin_arr_extended cfg a = Inr m \<and>
        shape sales = shape m \<longrightarrow>
        amortization_forecast_arr cfg a = Inr (np_multiply sales m)"
    using forecast_from_lines(1) by blast
  have ratio: "\<forall>d. d \<noteq> [] \<and> depr_capex_arr a = Inr (array1 d) \<longrightarrow>
        depr_capex_arr_extended cfg a =
          Inr (array1 (d @ map (\<lambda>k. fadd (last d)
                                  (fmul (Fin (of_int k))
                                     (fdiv (fsub (TERMINAL_DEPR_TO_CAPEX_RATE cfg) (last d))
                                        (Fin (of_int (N_FORECAST_YEARS cfg))))))
                             [1..N_FORECAST_YEARS cfg]))"
    using assms(3)
    by (simp add: depr_capex_arr_extended_def last_of_def item_array1_last glide_array1)
  have dep: "\<forall>capex d.
        capex_forecast_arr cfg a = Inr capex \<and> depr_capex_arr_extended cfg a = Inr d \<and>
        shape capex = shape d \<longrightarrow>
        depreciation_forecast_arr cfg a = Inr (np_multiply capex d)"
    using forecast_from_lines(2) by blast
  have fcf: "\<forall>nopat depreciation amortization capex change.
        nopat_forecast_arr cfg a = Inr nopat \<and>
        depreciation_forecast_arr cfg a = Inr depreciation \<and>
        amortization_forecast_arr cfg a = Inr amortization \<and>
        capex_forecast_arr cfg a = Inr capex \<and>
        change_in_working_capital_forecast_arr cfg a = Inr change \<and>
        shape depreciation = shape nopat \<and> shape amortization = shape nopat \<and>
        shape capex = shape nopat \<and> shape change = shape nopat \<longrightarrow>
        fcf_forecast_arr_all cfg a =
          Inr (np_subtract
                 (np_subtract (np_add nopat (np_add depreciation amortization)) capex) change)"
    using fcf_from_lines by blast
  show ?thesis
    by (intro conjI recomputed nopat unused check run lines margin flat am ratio dep fcf reported)
qed

lemma scenario_ebit:
  "ebit_forecast_arr scenario scenario_actuals =
     Inr (array1 [Fin 15, Fin (33 / 2), Fin (363 / 20), Fin (3993 / 200), Fin (43923 / 2000),
                  Fin (3118533 / 160000), Fin (321208899 / 20000000)])"
  by code_simp

lemma scenario_fcf_reported_income:
  "fcf_forecast_arr_all scenario (map (\<lambda>r. r\<lparr>IS_OPER_INC := Fin 0\<rparr>) scenario_actuals) =
     Inr (array1 [Fin 27, Fin (287 / 10), Fin (3157 / 100), Fin (34727 / 1000),
                  Fin (381997 / 10000), Fin (155238523 / 4000000), Fin (3807728793 / 100000000)])"
  by code_simp

lemma scenario_fcf_reported_depreciation:
  "fcf_forecast_arr_all scenario (map (\<lambda>r. r\<lparr>IS_DEPR_EXP := Fin 0\<rparr>) scenario_actuals) =
     Inr (array1 [Fin 8, Fin (39 / 5), Fin (429 / 50), Fin (4719 / 500), Fin (51909 / 5000),
                  Fin (49208401 / 4000000), Fin (2797324101 / 200000000)])"
  by code_simp


theorem effective_tax_rate_asymmetry_witness:
  "map EFF_TAX_RATE scenario_actuals = [Fin 25, Fin 25, Fin 25, Fin 25, Fin 25] \<and>
   calculated_effective_tax_rate_arr scenario_actuals =
     Inr (array1 [Fin (1 / 5), Fin (1 / 5), Fin (1 / 5), Fin (1 / 5), Fin (1 / 5)]) \<and>
   effective_tax_rate_arr_extended scenario scenario_actuals =
     Inr (array1 [Fin (1 / 5), Fin (1 / 5), Fin (1 / 5), Fin (1 / 5), Fin (1 / 5),
                  Fin (1 / 5), Fin (1 / 5)]) \<and>
   effective_tax_rate_arr_extended scenario
       (with_reported_tax_rates scenario_actuals (replicate 5 (Fin 20))) =
     Inr (array1 [Fin (1 / 5), Fin (1 / 5), Fin (1 / 5), Fin (1 / 5), Fin (1 / 5),
                  Fin (1 / 5), Fin (1 / 5)]) \<and>
   nopat_forecast_arr scenario scenario_actuals =
     Inr (array1 [Fin 12, Fin (66 / 5), Fin (363 / 25), Fin (3993 / 250), Fin (43923 / 2500),
                  Fin (3118533 / 200000), Fin (321208899 / 25000000)]) \<and>
   check_effective_tax_rate_arr (with_reported_tax_rates scenario_actuals (replicate 5 (Fin 20)))
     = Inr True \<and>
   check_effective_tax_rate_arr (with_reported_tax_rates scenario_actuals (replicate 5 (Fin 25)))
     = Inr False \<and>
   fcf_forecast_arr_all scenario
       (with_reported_lines scenario_actuals (replicate 5 (Fin 0)) (replicate 5 (Fin 12345))) =
     Inr (array1 [Fin 12, Fin (61 / 5), Fin (671 / 50), Fin (7381 / 500), Fin (81191 / 5000),
                  Fin (61682533 / 4000000), Fin (2797324101 / 200000000)]) \<and>
   amortization_arr scenario_actuals =
     Some (array1 [Fin 1, Fin (11 / 10), Fin (121 / 100), Fin (1331 / 1000), Fin (14641 / 10000)]) \<and>
   amortization_margin_arr scenario_actuals =
     Inr (array1 [Fin (1 / 100), Fin (1 / 100), Fin (1 / 100), Fin (1 / 100), Fin (1 / 100)]) \<and>
   amortization_margin_arr_extended scenario scenario_actuals =
     Inr (array1 [Fin (1 / 100), Fin (1 / 100), Fin (1 / 100), Fin (1 / 100), Fin (1 / 100),
                  Fin (1 / 100), Fin (1 / 100)]) \<and>
   amortization_arr (map (\<lambda>r. r\<lparr>IS_OPER_INC := Fin 0\<rparr>) scenario_actuals) =
     Some (array1 [Fin 16, Fin (88 / 5), Fin (484 / 25), Fin (2662 / 125), Fin (14641 / 625)]) \<and>
   check_oper_inc_arr (map (\<lambda>r. r\<lparr>IS_OPER_INC := Fin 0\<rparr>) scenario_actuals) = Inr False \<and>
   fcf_forecast_arr_all scenario (map (\<lambda>r. r\<lparr>IS_OPER_INC := Fin 0\<rparr>) scenario_actuals) =
     Inr (array1 [Fin 27, Fin (287 / 10), Fin (3157 / 100), Fin (34727 / 1000),
                  Fin (381997 / 10000), Fin (155238523 / 4000000), Fin (3807728793 / 100000000)]) \<and>
   check_depreciation_arr (map (\<lambda>r. r\<lparr>IS_DEPR_EXP := Fin 0\<rparr>) scenario_actuals) = Inr False \<and>
   fcf_forecast_arr_all scenario (map (\<lambda>r. r\<lparr>IS_DEPR_EXP := Fin 0\<rparr>) scenario_actuals) =
     Inr (array1 [Fin 8, Fin (39 / 5), Fin (429 / 50), Fin (4719 / 500), Fin (51909 / 5000),
                  Fin (49208401 / 4000000), Fin (2797324101 / 200000000)])"
proof -
  have rows: "scenario_actuals \<noteq> []" "length scenario_actuals = 5" "length scenario_frame = 5"
    and cfg: "0 < N_FORECAST_YEARS scenario" "nat (N_FORECAST_YEARS scenario) = 2"
    by (simp_all add: scenario_actuals_def scenario_frame_def scenario_def settings_def)
  have reported: "map EFF_TAX_RATE scenario_actuals = [Fin 25, Fin 25, Fin 25, Fin 25, Fin 25]"
    by (simp add: scenario_actuals_def scenario_frame_def scenario_row_def)
  have ratio: "map (\<lambda>r. if PRETAX_INC r \<noteq> Fin 0
                         then fdiv (IS_INC_TAX_EXP r) (PRETAX_INC r) else NaN) scenario_actuals =
      [Fin (1 / 5), Fin (1 / 5), Fin (1 / 5), Fin (1 / 5), Fin (1 / 5)]"
    and last_ratio: "(if PRETAX_INC (last scenario_actuals) \<noteq> Fin 0
        then fdiv (IS_INC_TAX_EXP (last scenario_actuals)) (PRETAX_INC (last scenario_actuals))
        else NaN) = Fin (1 / 5)"
    and amort: "map (\<lambda>r. fsub (EBITA r) (IS_OPER_INC r)) scenario_actuals =
      [Fin 1, Fin (11 / 10), Fin (121 / 100), Fin (1331 / 1000), Fin (14641 / 10000)]"
    and margins: "map (\<lambda>r. if SALES_REV_TURN r \<noteq> Fin 0
                            then fdiv (fsub (EBITA r) (IS_OPER_INC r)) (SALES_REV_TURN r)
                            else NaN) scenario_actuals =
      [Fin (1 / 100), Fin (1 / 100), Fin (1 / 100), Fin (1 / 100), Fin (1 / 100)]"
    by (simp_all add: scenario_actuals_def scenario_frame_def scenario_row_def)
  have len: "length (replicate 5 (Fin 20)) = length scenario_actuals"
    "length (replicate 5 (Fin 25)) = length scenario_actuals"
    "length (replicate 5 (Fin 20)) = length scenario_frame"
    "length (replicate 5 (Fin 0)) = length scenario_actuals"
    "length (replicate 5 (Fin 12345)) = length scenario_actuals"
    "length (replicate 5 (Fin 0)) = length scenario_frame"
    "length (replicate 5 (Fin 12345)) = length scenario_frame"
    using rows by simp_all
  note t20 = effective_tax_rate_asymmetry [OF rows(1) len(1) cfg(1) len(3) len(4) len(5) len(6) len(7),
      where price = "Fin 20", unfolded ratio last_ratio amort margins cfg(2)]
  note t25 = effective_tax_rate_asymmetry [OF rows(1) len(2) cfg(1) len(3) len(4) len(5) len(6) len(7),
      where price = "Fin 20", unfolded ratio last_ratio amort margins cfg(2)]
  have calc: "calculated_effective_tax_rate_arr scenario_actuals =
     Inr (array1 [Fin (1 / 5), Fin (1 / 5), Fin (1 / 5), Fin (1 / 5), Fin (1 / 5)])"
    using t20 by blast
  have ext: "effective_tax_rate_arr_extended scenario scenario_actuals =
     Inr (array1 [Fin (1 / 5), Fin (1 / 5), Fin (1 / 5), Fin (1 / 5), Fin (1 / 5),
                  Fin (1 / 5), Fin (1 / 5)])"
    using conjunct1 [OF conjunct2 [OF t20]] by (simp add: numeral_2_eq_2)
  have ext': "effective_tax_rate_arr_extended scenario
       (with_reported_tax_rates scenario_actuals (replicate 5 (Fin 20))) =
     effective_tax_rate_arr_extended scenario scenario_actuals"
    using t20 by blast
  have "nopat_forecast_arr scenario scenario_actuals =
      Inr (np_multiply
        (array1 [Fin 15, Fin (33 / 2), Fin (363 / 20), Fin (3993 / 200), Fin (43923 / 2000),
                  Fin (3118533 / 160000), Fin (321208899 / 20000000)])
        (one_minus (array1 [Fin (1 / 5), Fin (1 / 5), Fin (1 / 5), Fin (1 / 5), Fin (1 / 5),
                  Fin (1 / 5), Fin (1 / 5)])))"
    using conjunct1 [OF conjunct2 [OF conjunct2 [OF t20]]] scenario_ebit ext
    by (simp add: shape_array1 one_minus_def array1_def)
  then have nopat: "nopat_forecast_arr scenario scenario_actuals =
     Inr (array1 [Fin 12, Fin (66 / 5), Fin (363 / 25), Fin (3993 / 250), Fin (43923 / 2500),
                  Fin (3118533 / 200000), Fin (321208899 / 25000000)])"
    by (simp add: np_multiply_def one_minus_def array1_def)
  have c20: "check_effective_tax_rate_arr
      (with_reported_tax_rates scenario_actuals (replicate 5 (Fin 20))) = Inr True"
    using t20 by (simp add: numeral_eq_Suc isclose_def)
  have c25: "check_effective_tax_rate_arr
      (with_reported_tax_rates scenario_actuals (replicate 5 (Fin 25))) = Inr False"
    using t25 by (simp add: numeral_eq_Suc isclose_def)
  have lines: "fcf_forecast_arr_all scenario
       (with_reported_lines scenario_actuals (replicate 5 (Fin 0)) (replicate 5 (Fin 12345))) =
     fcf_forecast_arr_all scenario scenario_actuals"
    using t20 by blast
  have am: "amortization_arr scenario_actuals =
     Some (array1 [Fin 1, Fin (11 / 10), Fin (121 / 100), Fin (1331 / 1000), Fin (14641 / 10000)])"
    using t20 by blast
  have margin: "amortization_margin_arr scenario_actuals =
     Inr (array1 [Fin (1 / 100), Fin (1 / 100), Fin (1 / 100), Fin (1 / 100), Fin (1 / 100)])"
    using t20 by blast
  have "\<forall>m. amortization_margin_arr scenario_actuals = Inr (array1 m) \<longrightarrow>
        amortization_margin_arr_extended scenario scenario_actuals =
          Inr (array1 (m @ replicate 2 (nanmean m)))"
    using t20 by blast
  with margin have flat: "amortization_margin_arr_extended scenario scenario_actuals =
     Inr (array1 [Fin (1 / 100), Fin (1 / 100), Fin (1 / 100), Fin (1 / 100), Fin (1 / 100),
                  Fin (1 / 100), Fin (1 / 100)])"
    by (simp add: nanmean_def numeral_2_eq_2)
  have rows0: "map (\<lambda>r. r\<lparr>IS_OPER_INC := Fin 0\<rparr>) scenario_actuals \<noteq> []"
    "length (replicate 5 (Fin 20)) = length (map (\<lambda>r. r\<lparr>IS_OPER_INC := Fin 0\<rparr>) scenario_actuals)"
    "length (replicate 5 (Fin 0)) = length (map (\<lambda>r. r\<lparr>IS_OPER_INC := Fin 0\<rparr>) scenario_actuals)"
    "length (replicate 5 (Fin 12345)) = length (map (\<lambda>r. r\<lparr>IS_OPER_INC := Fin 0\<rparr>) scenario_actuals)"
    and rows1: "map (\<lambda>r. r\<lparr>IS_DEPR_EXP := Fin 0\<rparr>) scenario_actuals \<noteq> []"
    "length (replicate 5 (Fin 20)) = length (map (\<lambda>r. r\<lparr>IS_DEPR_EXP := Fin 0\<rparr>) scenario_actuals)"
    "length (replicate 5 (Fin 0)) = length (map (\<lambda>r. r\<lparr>IS_DEPR_EXP := Fin 0\<rparr>) scenario_actuals)"
    "length (replicate 5 (Fin 12345)) = length (map (\<lambda>r. r\<lparr>IS_DEPR_EXP := Fin 0\<rparr>) scenario_actuals)"
    using rows by simp_all
  note income = effective_tax_rate_asymmetry [OF rows0(1,2) cfg(1) len(3) rows0(3,4) len(6,7),
      where price = "Fin 20"]
  note depreciation = effective_tax_rate_asymmetry [OF rows1(1,2) cfg(1) len(3) rows1(3,4) len(6,7),
      where price = "Fin 20"]
  have "amortization_arr (map (\<lambda>r. r\<lparr>IS_OPER_INC := Fin 0\<rparr>) scenario_actuals) =
      Some (array1 (map (\<lambda>r. fsub (EBITA r) (IS_OPER_INC r))
                      (map (\<lambda>r. r\<lparr>IS_OPER_INC := Fin 0\<rparr>) scenario_actuals)))"
    using income by blast
  then have am0: "amortization_arr (map (\<lambda>r. r\<lparr>IS_OPER_INC := Fin 0\<rparr>) scenario_actuals) =
     Some (array1 [Fin 16, Fin (88 / 5), Fin (484 / 25), Fin (2662 / 125), Fin (14641 / 625)])"
    by (simp add: scenario_actuals_def scenario_frame_def scenario_row_def)
  have "check_oper_inc_arr (map (\<lambda>r. r\<lparr>IS_OPER_INC := Fin 0\<rparr>) scenario_actuals) =
       Inr (list_all (\<lambda>r. isclose (IS_OPER_INC r)
              (fadd (GROSS_PROFIT r) (fsub (IS_OTHER_OPER_INC r) (IS_OPERATING_EXPN r))))
             (map (\<lambda>r. r\<lparr>IS_OPER_INC := Fin 0\<rparr>) scenario_actuals))"
    using income by blast
  then have check0: "check_oper_inc_arr (map (\<lambda>r. r\<lparr>IS_OPER_INC := Fin 0\<rparr>) scenario_actuals)
      = Inr False"
    by (simp add: scenario_actuals_def scenario_frame_def scenario_row_def isclose_def)
  have "check_depreciation_arr (map (\<lambda>r. r\<lparr>IS_DEPR_EXP := Fin 0\<rparr>) scenario_actuals) =
       Inr (list_all (\<lambda>r. isclose (IS_DEPR_EXP r) (fsub (EBITDA r) (EBITA r)))
             (map (\<lambda>r. r\<lparr>IS_DEPR_EXP := Fin 0\<rparr>) scenario_actuals))"
    using depreciation by blast
  then have check1: "check_depreciation_arr (map (\<lambda>r. r\<lparr>IS_DEPR_EXP := Fin 0\<rparr>) scenario_actuals)
      = Inr False"
    by (simp add: scenario_actuals_def scenario_frame_def scenario_row_def isclose_def)
  show ?thesis
    using reported calc ext ext' nopat c20 c25 lines scenario_fcf_all am margin flat am0 check0
      scenario_fcf_reported_income check1 scenario_fcf_reported_depreciation
    by simp
qed

text \<open>
  The contrast of claim C5 fails for two of the four pairs. Take the scenario with
  reported gross profit 0 and reported operating expense 12345 in every row. Both checks pass on the scenario and fail on this frame, and the
  forecast of gross profit, the forecast of operating expense, the free cash flow of
  every period and the share value are those of the scenario: the two reported series
  are not carried into the projection.
\<close>

theorem reported_lines_not_carried:
  "check_gross_margin_arr scenario_actuals = Inr True \<and>
   check_oper_exp_arr scenario_actuals = Inr True \<and>
   check_gross_margin_arr
     (with_reported_lines scenario_actuals (replicate 5 (Fin 0)) (replicate 5 (Fin 12345)))
     = Inr False \<and>
   check_oper_exp_arr
     (with_reported_lines scenario_actuals (replicate 5 (Fin 0)) (replicate 5 (Fin 12345)))
     = Inr False \<and>
   gross_profit_forecast_arr scenario
     (with_reported_lines scenario_actuals (replicate 5 (Fin 0)) (replicate 5 (Fin 12345)))
     = gross_profit_forecast_arr scenario scenario_actuals \<and>
   oper_exp_forecast_arr scenario
     (with_reported_lines scenario_actuals (replicate 5 (Fin 0)) (replicate 5 (Fin 12345)))
     = oper_exp_forecast_arr scenario scenario_actuals \<and>
   fcf_forecast_arr_all scenario scenario_actuals =
     Inr (array1 [Fin 12, Fin (61 / 5), Fin (671 / 50), Fin (7381 / 500), Fin (81191 / 5000),
                  Fin (61682533 / 4000000), Fin (2797324101 / 200000000)]) \<and>
   fcf_forecast_arr_all scenario
     (with_reported_lines scenario_actuals (replicate 5 (Fin 0)) (replicate 5 (Fin 12345))) =
     Inr (array1 [Fin 12, Fin (61 / 5), Fin (671 / 50), Fin (7381 / 500), Fin (81191 / 5000),
                  Fin (61682533 / 4000000), Fin (2797324101 / 200000000)]) \<and>
   share_value scenario
     (with_reported_lines scenario_actuals (replicate 5 (Fin 0)) (replicate 5 (Fin 12345)))
     = share_value scenario scenario_actuals"
proof -
  have len: "length (replicate 5 (Fin 0)) = length scenario_actuals"
    "length (replicate 5 (Fin 12345)) = length scenario_actuals"
    and ne: "scenario_actuals \<noteq> []"
    by (simp_all add: scenario_actuals_def scenario_frame_def)
  have ne': "with_reported_lines scenario_actuals (replicate 5 (Fin 0)) (replicate 5 (Fin 12345)) \<noteq> []"
    using ne with_reported_lines_Nil [OF len] by blast
  have "check_gross_margin_arr scenario_actuals = Inr True"
    and "check_oper_exp_arr scenario_actuals = Inr True"
    unfolding checks_are_flags(1,2) [OF ne]
    by (simp_all add: scenario_actuals_def scenario_frame_def scenario_row_def isclose_def)
  moreover have "check_gross_margin_arr
     (with_reported_lines scenario_actuals (replicate 5 (Fin 0)) (replicate 5 (Fin 12345)))
     = Inr False"
    and "check_oper_exp_arr
     (with_reported_lines scenario_actuals (replicate 5 (Fin 0)) (replicate 5 (Fin 12345)))
     = Inr False"
    unfolding checks_are_flags(1,2) [OF ne']
    by (simp_all add: scenario_actuals_def scenario_frame_def scenario_row_def isclose_def
        numeral_eq_Suc)
  ultimately show ?thesis
    using lines_unused_forecast(3,8) [OF len, of scenario] lines_unused_valuation(1,9) [OF len, of scenario]
      scenario_fcf_all
    by simp
qed
end
